theory Spec2Isabelle
  imports
    Main
    "HOL-Library.AList"
    "HOL-Library.Char_ord"
    "HOL-Library.List_Lexorder"
    "HOL-Library.Sublist"
begin

unbundle bit_operations_syntax

section \<open>Strings and paths\<close>

text \<open>
  Go strings are byte sequences; \<open>string\<close> (a list of 8-bit characters) models them.
  A file path is modelled by the list of its components (the cleaned absolute path
  \<^verbatim>\<open>/a/b\<close> is \<open>[''a'', ''b'']\<close>); the empty path string is the empty list.
\<close>

type_synonym path = "string list"

definition filepath_Dir :: "path \<Rightarrow> path" where
  "filepath_Dir p = butlast p"

definition filepath_Base :: "path \<Rightarrow> string" where
  "filepath_Base p = (if p = [] then ''.'' else last p)"

text \<open>
  \<^verbatim>\<open>filepath.Join(p, elem)\<close> for an element without a separator: the result is cleaned,
  so an empty element and \<^verbatim>\<open>.\<close> vanish and \<^verbatim>\<open>..\<close> steps to the parent.
\<close>

definition filepath_Join :: "path \<Rightarrow> string \<Rightarrow> path" where
  "filepath_Join p elem =
     (if elem = [] \<or> elem = ''.'' then p
      else if elem = ''..'' then butlast p
      else p @ [elem])"

text \<open>
  \<^verbatim>\<open>strings.ReplaceAll(s, old, new)\<close> where \<open>old\<close> and \<open>new\<close> are one character long,
  as at every call site of the repository.
\<close>

definition ReplaceAll :: "string \<Rightarrow> char \<Rightarrow> char \<Rightarrow> string" where
  "ReplaceAll s old new = map (\<lambda>c. if c = old then new else c) s"

text \<open>\<^verbatim>\<open>strings.Contains\<close>: some suffix of \<open>s\<close> starts with \<open>sub\<close>.\<close>

fun Contains :: "string \<Rightarrow> string \<Rightarrow> bool" where
  "Contains [] sub = (sub = [])"
| "Contains (c # cs) sub = (take (length sub) (c # cs) = sub \<or> Contains cs sub)"

text \<open>
  \<^verbatim>\<open>strings.TrimSpace\<close> and \<^verbatim>\<open>strings.ToUpper\<close> on ASCII text. In \<open>ValidateName\<close>
  both run only after the character-class check, which admits ASCII bytes only.
\<close>

definition is_ascii_space :: "char \<Rightarrow> bool" where
  "is_ascii_space c \<longleftrightarrow>
     c = CHR 0x09 \<or> c = CHR 0x0A \<or> c = CHR 0x0B \<or> c = CHR 0x0C \<or> c = CHR 0x0D \<or> c = CHR 0x20"

definition TrimSpace :: "string \<Rightarrow> string" where
  "TrimSpace s = rev (dropWhile is_ascii_space (rev (dropWhile is_ascii_space s)))"

definition to_upper_char :: "char \<Rightarrow> char" where
  "to_upper_char c =
     (let n = (of_char c :: nat) in if 97 \<le> n \<and> n \<le> 122 then char_of (n - 32) else c)"

definition ToUpper :: "string \<Rightarrow> string" where
  "ToUpper s = map to_upper_char s"

text \<open>Decimal rendering of a number, as the verb \<^verbatim>\<open>%d\<close> prints it.\<close>

fun show_nat :: "nat \<Rightarrow> string" where
  "show_nat n =
     (if n < 10 then [''0123456789'' ! n]
      else show_nat (n div 10) @ [''0123456789'' ! (n mod 10)])"

declare show_nat.simps [simp del]

definition show_int :: "int \<Rightarrow> string" where
  "show_int i = (if i < 0 then ''-'' @ show_nat (nat (- i)) else show_nat (nat i))"

section \<open>Name validator (package validation)\<close>

text \<open>
  The compiled pattern \<^verbatim>\<open>^[a-zA-Z0-9\s\-_.]+$\<close>. In Go's regexp syntax \<^verbatim>\<open>\s\<close> is
  the class of tab, newline, form feed, carriage return and space, and \<^verbatim>\<open>$\<close> without
  the multi-line flag matches at the end of the text only.
\<close>

definition regexp_space :: "char \<Rightarrow> bool" where
  "regexp_space c \<longleftrightarrow>
     c = CHR 0x09 \<or> c = CHR 0x0A \<or> c = CHR 0x0C \<or> c = CHR 0x0D \<or> c = CHR 0x20"

definition ascii_letter :: "char \<Rightarrow> bool" where
  "ascii_letter c \<longleftrightarrow>
     (let n = (of_char c :: nat) in (65 \<le> n \<and> n \<le> 90) \<or> (97 \<le> n \<and> n \<le> 122))"

definition ascii_digit :: "char \<Rightarrow> bool" where
  "ascii_digit c \<longleftrightarrow> (let n = (of_char c :: nat) in 48 \<le> n \<and> n \<le> 57)"

definition allowed_class :: "char \<Rightarrow> bool" where
  "allowed_class c \<longleftrightarrow>
     ascii_letter c \<or> ascii_digit c \<or> regexp_space c \<or>
     c = CHR ''-'' \<or> c = CHR ''_'' \<or> c = CHR ''.''"

definition allowedChars_MatchString :: "string \<Rightarrow> bool" where
  "allowedChars_MatchString s \<longleftrightarrow> s \<noteq> [] \<and> list_all allowed_class s"

record NameValidator =
  maxLength :: nat
  allowedChars :: "string \<Rightarrow> bool"
  reservedNames :: "string list"
  caseSensitive :: bool

definition NewNameValidator :: NameValidator where
  "NewNameValidator =
     \<lparr> maxLength = 100,
       allowedChars = allowedChars_MatchString,
       reservedNames =
         [''CON'', ''PRN'', ''AUX'', ''NUL'',
          ''COM1'', ''COM2'', ''COM3'', ''COM4'', ''COM5'', ''COM6'', ''COM7'', ''COM8'', ''COM9'',
          ''LPT1'', ''LPT2'', ''LPT3'', ''LPT4'', ''LPT5'', ''LPT6'', ''LPT7'', ''LPT8'', ''LPT9''],
       caseSensitive = False \<rparr>"

text \<open>One constructor for each \<^verbatim>\<open>errors.NewValidationError\<close> that \<open>ValidateName\<close> returns.\<close>

datatype name_error =
    NameEmpty
  | NameTooLong nat
  | NameInvalidChars
  | NameOuterWhitespace
  | NameReserved string
  | NameConsecutiveSpaces

text \<open>\<open>ValidateName\<close> returns \<open>None\<close> for Go's \<^verbatim>\<open>nil\<close> error: the name is accepted.\<close>

definition ValidateName :: "NameValidator \<Rightarrow> string \<Rightarrow> name_error option" where
  "ValidateName nv name =
     (if name = [] then Some NameEmpty
      else if length name > maxLength nv then Some (NameTooLong (maxLength nv))
      else if \<not> allowedChars nv name then Some NameInvalidChars
      else if TrimSpace name \<noteq> name then Some NameOuterWhitespace
      else
        let checkName = (if \<not> caseSensitive nv then ToUpper name else name) in
        if checkName \<in> set (reservedNames nv) then Some (NameReserved name)
        else if Contains name ''  '' then Some NameConsecutiveSpaces
        else None)"

section \<open>Sync item registry (package config)\<close>

record SyncItem =
  Name :: string
  Type :: string
  Paths :: "string \<rightharpoonup> path"
  ExcludePatterns :: "string list"

type_synonym SyncItemsData = "SyncItem list"

definition NewSyncItemsData :: SyncItemsData where
  "NewSyncItemsData = []"

datatype registry_error = ItemAlreadyExists string

definition AddSyncItem ::
  "SyncItemsData \<Rightarrow> string \<Rightarrow> string \<Rightarrow> (string \<rightharpoonup> path) \<Rightarrow> string list
     \<Rightarrow> registry_error + SyncItemsData" where
  "AddSyncItem s name itemType paths excludePatterns =
     (if list_ex (\<lambda>item. Name item = name) s then Inl (ItemAlreadyExists name)
      else Inr (s @ [\<lparr> Name = name, Type = itemType, Paths = paths,
                       ExcludePatterns = excludePatterns \<rparr>]))"

text \<open>
  \<open>safeName\<close> is the local variable of \<open>GetCloudPath\<close>: the item name with every
  space and every slash replaced by a hyphen (the slug of the name).
\<close>

definition safeName :: "string \<Rightarrow> string" where
  "safeName name = ReplaceAll (ReplaceAll name (CHR '' '') (CHR ''-'')) (CHR ''/'') (CHR ''-'')"

definition GetCloudPath :: "SyncItem \<Rightarrow> path \<Rightarrow> path" where
  "GetCloudPath item cloudConfigsPath = filepath_Join cloudConfigsPath (safeName (Name item))"

section \<open>Errors\<close>

datatype errno = ENOENT | EEXIST | ENOTDIR | EISDIR | ENOTEMPTY | EIO

datatype sysop =
    OpStat | OpOpen | OpRead | OpCreate | OpWrite | OpSync | OpClose
  | OpChmod | OpMkdir | OpReadDir | OpRemove | OpRename | OpExec

datatype ErrorCode =
    ErrCodeFileNotFound | ErrCodeHashMismatch | ErrCodeConfigLoad | ErrCodeConfigSave
  | ErrCodeIOError | ErrCodeInternal

datatype error =
    PathError sysop path errno
  | Errorf string
  | Wrap string error
  | SyncError string string path error ErrorCode
  | ConfigError string path error ErrorCode
  | NoPathConfigured string
  | UnknownOperation int
  | LocalPathMissing path
  | CloudPathMissing path
  | RuntimePanic string

text \<open>
  Library functions that the model does not interpret are parameters: the SHA-256 digest
  of a byte sequence in hexadecimal, the formatting of an instant under a layout, the
  expansion of environment variables in a path and the home directory of the user.
  Every theorem holds for any functions in their place.
\<close>

record platform =
  sha256_hex :: "string \<Rightarrow> string"
  time_Format :: "string \<Rightarrow> int \<Rightarrow> string"
  os_ExpandEnv :: "path \<Rightarrow> path"
  os_UserHomeDir :: "path option"

section \<open>File system\<close>

datatype node =
    File string int nat
  | Dir int nat

record FileInfo =
  fi_Size :: int
  fi_ModTime :: int
  fi_Mode :: nat
  fi_IsDir :: bool

text \<open>
  A file system is the list of its nodes by path, the set of calls that fail with an I/O
  error (an operation on a path), the instant \<^verbatim>\<open>time.Now()\<close> returns when a call reads
  the clock first, the time that has passed when the same call reads the clock again
  after its file operations, and the file-mode creation mask of the process. The
  states of interest are trees: every node but the root has a directory as its parent.
\<close>

record filesys =
  nodes :: "(path \<times> node) list"
  faults :: "(sysop \<times> path) set"
  clock :: int
  elapsed :: int
  umask :: nat

text \<open>The file system at the later reading of the clock.\<close>

definition later :: "filesys \<Rightarrow> filesys" where
  "later w = w\<lparr> clock := clock w + elapsed w \<rparr>"

definition lookup :: "filesys \<Rightarrow> path \<Rightarrow> node option" where
  "lookup w p = map_of (nodes w) p"

fun node_info :: "node \<Rightarrow> FileInfo" where
  "node_info (File c t m) =
     \<lparr> fi_Size = int (length c), fi_ModTime = t, fi_Mode = m, fi_IsDir = False \<rparr>"
| "node_info (Dir t m) = \<lparr> fi_Size = 0, fi_ModTime = t, fi_Mode = m, fi_IsDir = True \<rparr>"

definition is_file :: "filesys \<Rightarrow> path \<Rightarrow> bool" where
  "is_file w p \<longleftrightarrow> (case lookup w p of Some (File c t m) \<Rightarrow> True | _ \<Rightarrow> False)"

text \<open>
  The error of a system call on a path that has no node: \<^verbatim>\<open>ENOTDIR\<close> when the path
  leads through a regular file, \<^verbatim>\<open>ENOENT\<close> otherwise.
\<close>

definition absent_errno :: "filesys \<Rightarrow> path \<Rightarrow> errno" where
  "absent_errno w p =
     (if list_ex (is_file w) (tl (prefixes (butlast p))) then ENOTDIR else ENOENT)"

text \<open>The mode of a node that a call creates with the requested mode \<open>perm\<close>.\<close>

definition created_mode :: "filesys \<Rightarrow> nat \<Rightarrow> nat" where
  "created_mode w perm = perm - (perm AND umask w)"

definition os_Stat :: "filesys \<Rightarrow> path \<Rightarrow> error + FileInfo" where
  "os_Stat w p =
     (if (OpStat, p) \<in> faults w then Inl (PathError OpStat p EIO)
      else case lookup w p of
             None \<Rightarrow> Inl (PathError OpStat p (absent_errno w p))
           | Some n \<Rightarrow> Inr (node_info n))"

fun IsNotExist :: "error \<Rightarrow> bool" where
  "IsNotExist (PathError opn p e) = (e = ENOENT)"
| "IsNotExist _ = False"

text \<open>
  \<^verbatim>\<open>config.PathExists\<close> is \<^verbatim>\<open>!os.IsNotExist(err)\<close>: a path whose \<^verbatim>\<open>os.Stat\<close> fails
  with another error than \<^verbatim>\<open>ENOENT\<close> counts as existing, so does a path that leads
  through a regular file.
\<close>

definition PathExists :: "filesys \<Rightarrow> path \<Rightarrow> bool" where
  "PathExists w p = (case os_Stat w p of Inl e \<Rightarrow> \<not> IsNotExist e | Inr fi \<Rightarrow> True)"

definition os_Open :: "filesys \<Rightarrow> path \<Rightarrow> error + unit" where
  "os_Open w p =
     (if (OpOpen, p) \<in> faults w then Inl (PathError OpOpen p EIO)
      else case lookup w p of
             None \<Rightarrow> Inl (PathError OpOpen p (absent_errno w p))
           | Some n \<Rightarrow> Inr ())"

text \<open>Reading a whole file through an open handle, as \<^verbatim>\<open>io.Copy\<close> does.\<close>

definition read_all :: "filesys \<Rightarrow> path \<Rightarrow> error + string" where
  "read_all w p =
     (if (OpRead, p) \<in> faults w then Inl (PathError OpRead p EIO)
      else case lookup w p of
             None \<Rightarrow> Inl (PathError OpRead p ENOENT)
           | Some (Dir t m) \<Rightarrow> Inl (PathError OpRead p EISDIR)
           | Some (File c t m) \<Rightarrow> Inr c)"

definition put :: "filesys \<Rightarrow> path \<Rightarrow> node \<Rightarrow> filesys" where
  "put w p n = w\<lparr> nodes := AList.update p n (nodes w) \<rparr>"

definition del :: "filesys \<Rightarrow> path \<Rightarrow> filesys" where
  "del w p = w\<lparr> nodes := AList.delete p (nodes w) \<rparr>"

definition is_dir :: "filesys \<Rightarrow> path \<Rightarrow> bool" where
  "is_dir w p \<longleftrightarrow> p = [] \<or> (case lookup w p of Some (Dir t m) \<Rightarrow> True | _ \<Rightarrow> False)"

definition has_children :: "filesys \<Rightarrow> path \<Rightarrow> bool" where
  "has_children w p \<longleftrightarrow> list_ex (\<lambda>(q, n). q \<noteq> [] \<and> butlast q = p) (nodes w)"

definition os_MkdirAll :: "filesys \<Rightarrow> path \<Rightarrow> nat \<Rightarrow> error + filesys" where
  "os_MkdirAll w p perm =
     (if (OpMkdir, p) \<in> faults w then Inl (PathError OpMkdir p EIO)
      else if list_ex (is_file w) (tl (prefixes p)) then Inl (PathError OpMkdir p ENOTDIR)
      else Inr (fold (\<lambda>q w'. if lookup w' q = None
                             then put w' q (Dir (clock w) (created_mode w perm)) else w')
                  (tl (prefixes p)) w))"

definition os_Create :: "filesys \<Rightarrow> path \<Rightarrow> error + filesys" where
  "os_Create w p =
     (if (OpCreate, p) \<in> faults w then Inl (PathError OpCreate p EIO)
      else if p = [] then Inl (PathError OpCreate p EISDIR)
      else if \<not> is_dir w (filepath_Dir p) then Inl (PathError OpCreate p (absent_errno w p))
      else case lookup w p of
             Some (Dir t m) \<Rightarrow> Inl (PathError OpCreate p EISDIR)
           | Some (File c t m) \<Rightarrow> Inr (put w p (File [] (clock w) m))
           | None \<Rightarrow> Inr (put w p (File [] (clock w) (created_mode w 438))))"

definition os_OpenFile_excl :: "filesys \<Rightarrow> path \<Rightarrow> nat \<Rightarrow> error + filesys" where
  "os_OpenFile_excl w p perm =
     (if (OpCreate, p) \<in> faults w then Inl (PathError OpCreate p EIO)
      else if p = [] \<or> lookup w p \<noteq> None then Inl (PathError OpCreate p EEXIST)
      else if \<not> is_dir w (filepath_Dir p) then Inl (PathError OpCreate p (absent_errno w p))
      else Inr (put w p (File [] (clock w) (created_mode w perm))))"

definition file_Write :: "filesys \<Rightarrow> path \<Rightarrow> string \<Rightarrow> error + filesys" where
  "file_Write w p bytes =
     (if (OpWrite, p) \<in> faults w then Inl (PathError OpWrite p EIO)
      else case lookup w p of
             None \<Rightarrow> Inl (PathError OpWrite p ENOENT)
           | Some (Dir t m) \<Rightarrow> Inl (PathError OpWrite p EISDIR)
           | Some (File c t m) \<Rightarrow> Inr (put w p (File (c @ bytes) (clock w) m)))"

definition file_Sync :: "filesys \<Rightarrow> path \<Rightarrow> error option" where
  "file_Sync w p = (if (OpSync, p) \<in> faults w then Some (PathError OpSync p EIO) else None)"

definition file_Close :: "filesys \<Rightarrow> path \<Rightarrow> error option" where
  "file_Close w p = (if (OpClose, p) \<in> faults w then Some (PathError OpClose p EIO) else None)"

definition os_Chmod :: "filesys \<Rightarrow> path \<Rightarrow> nat \<Rightarrow> error + filesys" where
  "os_Chmod w p perm =
     (if (OpChmod, p) \<in> faults w then Inl (PathError OpChmod p EIO)
      else case lookup w p of
             None \<Rightarrow> Inl (PathError OpChmod p (absent_errno w p))
           | Some (Dir t m) \<Rightarrow> Inr (put w p (Dir t perm))
           | Some (File c t m) \<Rightarrow> Inr (put w p (File c t perm)))"

definition os_Remove :: "filesys \<Rightarrow> path \<Rightarrow> error + filesys" where
  "os_Remove w p =
     (if (OpRemove, p) \<in> faults w then Inl (PathError OpRemove p EIO)
      else case lookup w p of
             None \<Rightarrow> Inl (PathError OpRemove p (absent_errno w p))
           | Some (Dir t m) \<Rightarrow>
               if has_children w p then Inl (PathError OpRemove p ENOTEMPTY) else Inr (del w p)
           | Some (File c t m) \<Rightarrow> Inr (del w p))"

definition os_Rename :: "filesys \<Rightarrow> path \<Rightarrow> path \<Rightarrow> error + filesys" where
  "os_Rename w old new =
     (if (OpRename, old) \<in> faults w then Inl (PathError OpRename old EIO)
      else case lookup w old of
             None \<Rightarrow> Inl (PathError OpRename old (absent_errno w old))
           | Some (Dir t m) \<Rightarrow> Inl (PathError OpRename old EISDIR)
           | Some (File c t m) \<Rightarrow>
               if new = old then Inr w
               else if new = [] \<or> is_dir w new then Inl (PathError OpRename new EISDIR)
               else if \<not> is_dir w (filepath_Dir new)
               then Inl (PathError OpRename new (absent_errno w new))
               else Inr (put (del w old) new (File c t m)))"

text \<open>\<^verbatim>\<open>os.ReadDir\<close>: the entries of a directory, sorted by name, each with its kind.\<close>

definition os_ReadDir :: "filesys \<Rightarrow> path \<Rightarrow> error + (string \<times> bool) list" where
  "os_ReadDir w p =
     (if (OpReadDir, p) \<in> faults w then Inl (PathError OpReadDir p EIO)
      else if \<not> is_dir w p then
        (case lookup w p of
           None \<Rightarrow> Inl (PathError OpReadDir p (absent_errno w p))
         | Some n \<Rightarrow> Inl (PathError OpReadDir p ENOTDIR))
      else Inr (map (\<lambda>name. (name, is_dir w (p @ [name])))
                 (sort (remdups (map (\<lambda>(q, n). last q)
                    (filter (\<lambda>(q, n). q \<noteq> [] \<and> butlast q = p \<and> lookup w q \<noteq> None) (nodes w)))))))"

text \<open>
  \<^verbatim>\<open>io.Copy(dst, src)\<close> between two open files: the source is read and written to the
  destination buffer by buffer, each write appending to the destination.
\<close>

fun chunks :: "nat \<Rightarrow> 'a list \<Rightarrow> 'a list list" where
  "chunks n xs = (if n = 0 \<or> xs = [] then [] else take n xs # chunks n (drop n xs))"

declare chunks.simps [simp del]

fun write_chunks :: "filesys \<Rightarrow> path \<Rightarrow> string list \<Rightarrow> error option \<times> filesys" where
  "write_chunks w p [] = (None, w)"
| "write_chunks w p (c # cs) =
     (case file_Write w p c of
        Inl err \<Rightarrow> (Some err, w)
      | Inr w' \<Rightarrow> write_chunks w' p cs)"

definition copy_buffer_size :: nat where
  "copy_buffer_size = 32768"

definition io_Copy :: "filesys \<Rightarrow> path \<Rightarrow> path \<Rightarrow> error option \<times> filesys" where
  "io_Copy w dst src =
     (case read_all w src of
        Inl err \<Rightarrow> (Some err, w)
      | Inr bytes \<Rightarrow> write_chunks w dst (chunks copy_buffer_size bytes))"

text \<open>
  A JSON document lives beside the nodes of the file system as a value (\<open>None\<close> while
  its file does not exist); its encoding is not modelled. Checking and reading it fail
  as they do for a file: when the file system has a fault for that operation on the
  path of the document, or when there is no document and the path leads through a
  regular file. Writing it fails on a fault.
\<close>

definition doc_PathExists :: "filesys \<Rightarrow> path \<Rightarrow> 'a option \<Rightarrow> bool" where
  "doc_PathExists w p doc \<longleftrightarrow>
     (OpStat, p) \<in> faults w \<or> doc \<noteq> None \<or> absent_errno w p = ENOTDIR"

definition doc_ReadFile :: "filesys \<Rightarrow> path \<Rightarrow> 'a option \<Rightarrow> error + 'a" where
  "doc_ReadFile w p doc =
     (if (OpRead, p) \<in> faults w then Inl (PathError OpRead p EIO)
      else case doc of
             None \<Rightarrow> Inl (PathError OpRead p (absent_errno w p))
           | Some d \<Rightarrow> Inr d)"

definition doc_WriteFile :: "filesys \<Rightarrow> path \<Rightarrow> error option" where
  "doc_WriteFile w p = (if (OpWrite, p) \<in> faults w then Some (PathError OpWrite p EIO) else None)"
section \<open>Hash cache (package cache)\<close>

definition maxDuration :: int where "maxDuration = 2 ^ 63 - 1"
definition minDuration :: int where "minDuration = - (2 ^ 63)"

definition time_Sub :: "int \<Rightarrow> int \<Rightarrow> int" where
  "time_Sub t u =
     (let d = t - u in
      if d > maxDuration then maxDuration else if d < minDuration then minDuration else d)"

definition time_Since :: "filesys \<Rightarrow> int \<Rightarrow> int" where
  "time_Since w t = time_Sub (clock w) t"

record HashCacheEntry =
  cached_Hash :: string
  cached_Size :: int
  cached_ModTime :: int
  CachedAt :: int

record HashCache =
  entries :: "path \<rightharpoonup> HashCacheEntry"
  maxAge :: int

definition NewHashCache :: "int \<Rightarrow> HashCache" where
  "NewHashCache age = \<lparr> entries = Map.empty, maxAge = age \<rparr>"

definition Get :: "HashCache \<Rightarrow> filesys \<Rightarrow> path \<Rightarrow> string option" where
  "Get hc w filePath =
     (case entries hc filePath of
        None \<Rightarrow> None
      | Some entry \<Rightarrow>
          if time_Since w (CachedAt entry) > maxAge hc then None
          else case os_Stat w filePath of
                 Inl err \<Rightarrow> None
               | Inr fileInfo \<Rightarrow>
                   if fi_Size fileInfo \<noteq> cached_Size entry
                      \<or> \<not> (fi_ModTime fileInfo = cached_ModTime entry)
                   then None
                   else Some (cached_Hash entry))"

definition Set :: "HashCache \<Rightarrow> filesys \<Rightarrow> path \<Rightarrow> string \<Rightarrow> int \<Rightarrow> int \<Rightarrow> HashCache" where
  "Set hc w filePath hash sz modTime =
     hc\<lparr> entries := (entries hc)(filePath \<mapsto>
            \<lparr> cached_Hash = hash, cached_Size = sz, cached_ModTime = modTime,
              CachedAt = clock w \<rparr>) \<rparr>"

definition calculateFileHash :: "platform \<Rightarrow> filesys \<Rightarrow> path \<Rightarrow> error + string" where
  "calculateFileHash pf w filePath =
     (case os_Open w filePath of
        Inl err \<Rightarrow> Inl err
      | Inr u \<Rightarrow>
          (case read_all w filePath of
             Inl err \<Rightarrow> Inl err
           | Inr bytes \<Rightarrow> Inr (''sha256:'' @ sha256_hex pf bytes)))"

text \<open>
  \<open>GetOrCalculate\<close> reads the clock in \<open>Get\<close> and again, after the file has been hashed, in
  \<open>Set\<close>.
\<close>

definition GetOrCalculate ::
  "platform \<Rightarrow> HashCache \<Rightarrow> filesys \<Rightarrow> path \<Rightarrow> (error + string) \<times> HashCache" where
  "GetOrCalculate pf hc w filePath =
     (case Get hc w filePath of
        Some cachedHash \<Rightarrow> (Inr cachedHash, hc)
      | None \<Rightarrow>
          (case calculateFileHash pf w filePath of
             Inl err \<Rightarrow> (Inl err, hc)
           | Inr hash \<Rightarrow>
               (case os_Stat w filePath of
                  Inl err \<Rightarrow> (Inl err, hc)
                | Inr fileInfo \<Rightarrow>
                    (Inr hash,
                     Set hc (later w) filePath hash (fi_Size fileInfo) (fi_ModTime fileInfo)))))"

text \<open>The validity predicate of a cache entry, in the words of the specification.\<close>

definition validity_predicate :: "HashCache \<Rightarrow> filesys \<Rightarrow> path \<Rightarrow> HashCacheEntry \<Rightarrow> bool" where
  "validity_predicate hc w p e \<longleftrightarrow>
     time_Sub (clock w) (CachedAt e) \<le> maxAge hc
     \<and> (case os_Stat w p of
          Inl err \<Rightarrow> False
        | Inr st \<Rightarrow> fi_Size st = cached_Size e \<and> fi_ModTime st = cached_ModTime e)"

section \<open>Atomic file writer (package atomic)\<close>

record FileWriter =
  targetPath :: path
  tempPath :: path
  tempFile :: "path option"
  committed :: bool
  permissions :: nat

definition generateTempPath :: "string \<Rightarrow> path \<Rightarrow> path" where
  "generateTempPath sfx target =
     filepath_Join (filepath_Dir target)
       (''.'' @ filepath_Base target @ ''.tmp.'' @ sfx)"

definition atomic_write_error :: "path \<Rightarrow> error \<Rightarrow> ErrorCode \<Rightarrow> error" where
  "atomic_write_error target cause code = SyncError ''atomic_write'' [] target cause code"

definition NewFileWriter ::
  "string \<Rightarrow> filesys \<Rightarrow> path \<Rightarrow> nat \<Rightarrow> (error + FileWriter) \<times> filesys" where
  "NewFileWriter sfx w target perm =
     (let temp = generateTempPath sfx target;
          targetDir = filepath_Dir target
      in case os_MkdirAll w targetDir 493 of
           Inl err \<Rightarrow>
             (Inl (atomic_write_error target
                     (Wrap ''failed to create target directory'' err) ErrCodeIOError), w)
         | Inr w1 \<Rightarrow>
             (case os_OpenFile_excl w1 temp perm of
                Inl err \<Rightarrow>
                  (Inl (atomic_write_error target
                          (Wrap ''failed to create temporary file'' err) ErrCodeIOError), w1)
              | Inr w2 \<Rightarrow>
                  (Inr \<lparr> targetPath = target, tempPath = temp, tempFile = Some temp,
                         committed = False, permissions = perm \<rparr>, w2)))"

definition Write :: "FileWriter \<Rightarrow> filesys \<Rightarrow> string \<Rightarrow> (error + nat) \<times> filesys" where
  "Write fw w bytes =
     (case tempFile fw of
        None \<Rightarrow>
          (Inl (atomic_write_error (targetPath fw) (Errorf ''file writer is closed'')
                  ErrCodeIOError), w)
      | Some h \<Rightarrow>
          (case file_Write w h bytes of
             Inl err \<Rightarrow>
               (Inl (atomic_write_error (targetPath fw)
                       (Wrap ''failed to write to temporary file'' err) ErrCodeIOError), w)
           | Inr w' \<Rightarrow> (Inr (length bytes), w')))"

definition Rollback :: "FileWriter \<Rightarrow> filesys \<Rightarrow> error option \<times> FileWriter \<times> filesys" where
  "Rollback fw w =
     (let fw1 = fw\<lparr> tempFile := None \<rparr> in
      if tempPath fw \<noteq> [] then
        (case os_Remove w (tempPath fw) of
           Inl err \<Rightarrow>
             if \<not> IsNotExist err
             then (Some (atomic_write_error (targetPath fw)
                           (Wrap ''failed to remove temporary file'' err) ErrCodeIOError), fw1, w)
             else (None, fw1, w)
         | Inr w' \<Rightarrow> (None, fw1, w'))
      else (None, fw1, w))"

definition Commit :: "FileWriter \<Rightarrow> filesys \<Rightarrow> error option \<times> FileWriter \<times> filesys" where
  "Commit fw w =
     (if committed fw
      then (Some (atomic_write_error (targetPath fw) (Errorf ''file already committed'')
                    ErrCodeInternal), fw, w)
      else case tempFile fw of
        None \<Rightarrow>
          (Some (atomic_write_error (targetPath fw) (Errorf ''file writer is closed'')
                   ErrCodeIOError), fw, w)
      | Some h \<Rightarrow>
          (case file_Sync w h of
             Some err \<Rightarrow>
               (case Rollback fw w of
                  (r, fw', w') \<Rightarrow>
                    (Some (atomic_write_error (targetPath fw)
                             (Wrap ''failed to sync temporary file'' err) ErrCodeIOError),
                     fw', w'))
           | None \<Rightarrow>
               (case file_Close w h of
                  Some err \<Rightarrow>
                    (case Rollback fw w of
                       (r, fw', w') \<Rightarrow>
                         (Some (atomic_write_error (targetPath fw)
                                  (Wrap ''failed to close temporary file'' err) ErrCodeIOError),
                          fw', w'))
                | None \<Rightarrow>
                    (let fw1 = fw\<lparr> tempFile := None \<rparr> in
                     case os_Rename w (tempPath fw) (targetPath fw) of
                       Inl err \<Rightarrow>
                         (Some (atomic_write_error (targetPath fw)
                                  (Wrap ''failed to move temporary file to target'' err)
                                  ErrCodeIOError),
                          fw1,
                          (case os_Remove w (tempPath fw) of Inl e \<Rightarrow> w | Inr w' \<Rightarrow> w'))
                     | Inr w' \<Rightarrow> (None, fw1\<lparr> committed := True \<rparr>, w')))))"

definition Close :: "FileWriter \<Rightarrow> filesys \<Rightarrow> error option \<times> FileWriter \<times> filesys" where
  "Close fw w = (if \<not> committed fw then Rollback fw w else (None, fw, w))"

definition WriteFileAtomic ::
  "string \<Rightarrow> filesys \<Rightarrow> path \<Rightarrow> string \<Rightarrow> nat \<Rightarrow> error option \<times> filesys" where
  "WriteFileAtomic sfx w target bytes perm =
     (case NewFileWriter sfx w target perm of
        (Inl err, w1) \<Rightarrow> (Some err, w1)
      | (Inr writer, w1) \<Rightarrow>
          (case Write writer w1 bytes of
             (Inl err, w2) \<Rightarrow>
               (case Close writer w2 of (r, writer', w3) \<Rightarrow> (Some err, w3))
           | (Inr n, w2) \<Rightarrow>
               (case Commit writer w2 of
                  (res, writer', w3) \<Rightarrow>
                    (case Close writer' w3 of (r, writer'', w4) \<Rightarrow> (res, w4)))))"

section \<open>Local configuration and file hashing (package config)\<close>

record LocalConfig =
  CloudSyncDir :: path
  CurrentComputer :: string
  LastSyncTimes :: "string \<rightharpoonup> string"
  GitMode :: bool
  GitRepoRoot :: path

definition CalculateFileHash :: "platform \<Rightarrow> filesys \<Rightarrow> path \<Rightarrow> error + string" where
  "CalculateFileHash pf w filePath =
     (case os_Open w filePath of
        Inl err \<Rightarrow> Inl err
      | Inr u \<Rightarrow>
          (case read_all w filePath of
             Inl err \<Rightarrow> Inl err
           | Inr bytes \<Rightarrow> Inr (''sha256:'' @ sha256_hex pf bytes)))"

definition RFC3339 :: string where
  "RFC3339 = ''2006-01-02T15:04:05Z07:00''"

record FileState =
  LocalHash :: string
  state_ModTime :: string
  state_Size :: int
  LastChecked :: string

record FileStatesData =
  States :: "string \<rightharpoonup> (path \<rightharpoonup> FileState)"

record ComputerFileInfo =
  computer_Hash :: string
  computer_ModTime :: string

text \<open>
  The \<open>Computers\<close> map of an entry is \<open>None\<close> for Go's \<^verbatim>\<open>nil\<close> map, which is what
  decoding gives for an entry stored without a \<^verbatim>\<open>computers\<close> object.
\<close>

record FileMetadata =
  Computers :: "(string \<rightharpoonup> ComputerFileInfo) option"
  CloudHash :: string
  CloudModTime :: string
  LastUpdated :: string
  UpdatedBy :: string

record FileMetadataData =
  Metadata :: "string \<rightharpoonup> (path \<rightharpoonup> FileMetadata)"

definition NewFileStatesData :: FileStatesData where
  "NewFileStatesData = \<lparr> States = Map.empty \<rparr>"

definition NewFileMetadataData :: FileMetadataData where
  "NewFileMetadataData = \<lparr> Metadata = Map.empty \<rparr>"

definition GetCloudConfigsPath :: "LocalConfig \<Rightarrow> path" where
  "GetCloudConfigsPath c = filepath_Join (CloudSyncDir c) ''configs''"

definition GetFileMetadataPath :: "LocalConfig \<Rightarrow> path" where
  "GetFileMetadataPath c = filepath_Join (CloudSyncDir c) ''file-metadata.json''"

text \<open>
  \<open>ExpandPath\<close> replaces the prefix \<^verbatim>\<open>~/\<close> only: the path that is just \<^verbatim>\<open>~\<close> goes to
  \<^verbatim>\<open>os.ExpandEnv\<close> like any other path.
\<close>

definition ExpandPath :: "platform \<Rightarrow> path \<Rightarrow> path" where
  "ExpandPath pf p =
     (case p of
        c # rest \<Rightarrow>
          if c = ''~'' \<and> rest \<noteq> []
          then (case os_UserHomeDir pf of None \<Rightarrow> p | Some homeDir \<Rightarrow> homeDir @ rest)
          else os_ExpandEnv pf p
      | [] \<Rightarrow> os_ExpandEnv pf p)"

definition GetCurrentComputerPath :: "platform \<Rightarrow> SyncItem \<Rightarrow> string \<Rightarrow> path" where
  "GetCurrentComputerPath pf item computerID =
     (case Paths item computerID of Some p \<Rightarrow> ExpandPath pf p | None \<Rightarrow> [])"

definition UpdateFileState ::
  "platform \<Rightarrow> int \<Rightarrow> FileStatesData \<Rightarrow> string \<Rightarrow> path \<Rightarrow> string \<Rightarrow> int \<Rightarrow> int \<Rightarrow> FileStatesData" where
  "UpdateFileState pf now f itemName filePath hash modTime sz =
     (let itemStates = (case States f itemName of None \<Rightarrow> Map.empty | Some m \<Rightarrow> m) in
      f\<lparr> States := (States f)(itemName \<mapsto> itemStates(filePath \<mapsto>
            \<lparr> LocalHash = hash, state_ModTime = time_Format pf RFC3339 modTime,
              state_Size = sz, LastChecked = time_Format pf RFC3339 now \<rparr>)) \<rparr>)"

definition GetFileState :: "FileStatesData \<Rightarrow> string \<Rightarrow> path \<Rightarrow> FileState option" where
  "GetFileState f itemName filePath =
     (case States f itemName of Some itemStates \<Rightarrow> itemStates filePath | None \<Rightarrow> None)"

definition empty_FileMetadata :: FileMetadata where
  "empty_FileMetadata =
     \<lparr> Computers = Some Map.empty, CloudHash = [], CloudModTime = [], LastUpdated = [], UpdatedBy = [] \<rparr>"

text \<open>
  \<open>UpdateFileMetadata\<close> assigns into the \<open>Computers\<close> map of the entry; on a \<^verbatim>\<open>nil\<close> map
  the assignment panics, which is the result \<open>Inl\<close>.
\<close>

definition UpdateFileMetadata ::
  "platform \<Rightarrow> int \<Rightarrow> FileMetadataData \<Rightarrow> string \<Rightarrow> path \<Rightarrow> string \<Rightarrow> string \<Rightarrow> int
     \<Rightarrow> error + FileMetadataData" where
  "UpdateFileMetadata pf now f itemName filePath computerID hash modTime =
     (let itemMetadata = (case Metadata f itemName of None \<Rightarrow> Map.empty | Some m \<Rightarrow> m);
          metadata = (case itemMetadata filePath of None \<Rightarrow> empty_FileMetadata | Some m \<Rightarrow> m)
      in case Computers metadata of
           None \<Rightarrow> Inl (RuntimePanic ''assignment to entry in nil map'')
         | Some computers \<Rightarrow>
             (let metadata' = metadata\<lparr>
                    Computers := Some (computers(computerID \<mapsto>
                       \<lparr> computer_Hash = hash,
                         computer_ModTime = time_Format pf RFC3339 modTime \<rparr>)),
                    LastUpdated := time_Format pf RFC3339 now,
                    UpdatedBy := computerID \<rparr>
              in Inr (f\<lparr> Metadata :=
                        (Metadata f)(itemName \<mapsto> itemMetadata(filePath \<mapsto> metadata')) \<rparr>)))"

section \<open>Backup manager (package backup)\<close>

record BackupEntry =
  ID :: string
  ItemName :: string
  OriginalPath :: path
  BackupPath :: path
  backup_Hash :: string
  backup_Size :: int
  CreatedAt :: int
  CreatedBy :: string
  Reason :: string
  Tags :: "string list"

record BackupManifest =
  Version :: string
  manifest_CreatedAt :: int
  UpdatedAt :: int
  Entries :: "BackupEntry list"

record BackupManager =
  backupDir :: path
  manifestPath :: path
  maxBackups :: int
  backup_maxAge :: int
  backup_localConfig :: LocalConfig

text \<open>
  The state the manager works on: the file system and the manifest document stored at
  \<open>manifestPath\<close> (\<open>None\<close> while the file does not exist).
\<close>

record backup_world =
  bw_fs :: filesys
  bw_manifest :: "BackupManifest option"

definition loadManifest :: "BackupManager \<Rightarrow> backup_world \<Rightarrow> error + BackupManifest" where
  "loadManifest bm st =
     (if \<not> doc_PathExists (bw_fs st) (manifestPath bm) (bw_manifest st)
      then Inr \<lparr> Version = ''1.0'', manifest_CreatedAt = clock (bw_fs st),
                 UpdatedAt = clock (bw_fs st), Entries = [] \<rparr>
      else case doc_ReadFile (bw_fs st) (manifestPath bm) (bw_manifest st) of
             Inl err \<Rightarrow> Inl (ConfigError ''backup_manifest'' (manifestPath bm) err
                            ErrCodeConfigLoad)
           | Inr manifest \<Rightarrow> Inr manifest)"

definition saveManifest ::
  "BackupManager \<Rightarrow> backup_world \<Rightarrow> BackupManifest \<Rightarrow> error option \<times> backup_world" where
  "saveManifest bm st manifest =
     (if (OpWrite, manifestPath bm) \<in> faults (bw_fs st)
      then (Some (PathError OpWrite (manifestPath bm) EIO), st)
      else (None, st\<lparr> bw_manifest := Some manifest \<rparr>))"

definition generateBackupID :: "platform \<Rightarrow> filesys \<Rightarrow> string \<Rightarrow> string \<Rightarrow> error + string" where
  "generateBackupID pf w itemName hash =
     (let timestamp = time_Format pf ''20060102_150405'' (clock w);
          safe = ReplaceAll (ReplaceAll itemName (CHR '' '') (CHR ''_'')) (CHR ''/'') (CHR ''_'')
      in if length hash < 15 then Inl (RuntimePanic ''slice bounds out of range'')
         else Inr (safe @ ''_'' @ timestamp @ ''_'' @ take 8 (drop 7 hash)))"

definition backup_copyFile :: "filesys \<Rightarrow> path \<Rightarrow> path \<Rightarrow> error option \<times> filesys" where
  "backup_copyFile w src dst =
     (case os_Open w src of
        Inl err \<Rightarrow> (Some err, w)
      | Inr u \<Rightarrow>
          (case os_Create w dst of
             Inl err \<Rightarrow> (Some err, w)
           | Inr w1 \<Rightarrow>
               (case io_Copy w1 dst src of
                  (Some err, w2) \<Rightarrow> (Some err, w2)
                | (None, w2) \<Rightarrow>
                    (case os_Stat w2 src of
                       Inl err \<Rightarrow> (Some err, w2)
                     | Inr srcInfo \<Rightarrow>
                         (case os_Chmod w2 dst (fi_Mode srcInfo) of
                            Inl err \<Rightarrow> (Some err, w2)
                          | Inr w3 \<Rightarrow> (None, w3))))))"

text \<open>
  The duplicate loop of \<open>BackupFile\<close>: the first entry of the manifest with the same
  item name and hash is refreshed in place; the result is that entry and the new list.
\<close>

fun refresh_duplicate ::
  "string \<Rightarrow> string \<Rightarrow> int \<Rightarrow> string \<Rightarrow> string list \<Rightarrow> BackupEntry list
     \<Rightarrow> (BackupEntry \<times> BackupEntry list) option" where
  "refresh_duplicate itemName hash now reason tags [] = None"
| "refresh_duplicate itemName hash now reason tags (entry # es) =
     (if ItemName entry = itemName \<and> backup_Hash entry = hash
      then (let entry' = entry\<lparr> CreatedAt := now, Reason := reason, Tags := tags \<rparr>
            in Some (entry', entry' # es))
      else (case refresh_duplicate itemName hash now reason tags es of
              None \<Rightarrow> None
            | Some (found, es') \<Rightarrow> Some (found, entry # es')))"

text \<open>
  The removal loop of \<open>cleanupOldBackups\<close> for one backup ID: the payload of the first
  entry with that ID is removed when it exists (a failure is ignored) and the entry
  leaves the manifest.
\<close>

fun remove_backup ::
  "string \<Rightarrow> BackupEntry list \<Rightarrow> filesys \<Rightarrow> BackupEntry list \<times> filesys" where
  "remove_backup backupID [] w = ([], w)"
| "remove_backup backupID (entry # es) w =
     (if ID entry = backupID
      then (es, if PathExists w (BackupPath entry)
                then (case os_Remove w (BackupPath entry) of Inl err \<Rightarrow> w | Inr w' \<Rightarrow> w')
                else w)
      else (case remove_backup backupID es w of (es', w') \<Rightarrow> (entry # es', w')))"

text \<open>
  \<^verbatim>\<open>sort.Slice\<close> with the comparison \<open>CreatedAt\<close> later-first is modelled by the stable
  sort on the negated time; Go leaves the order of entries with equal times open.
  \<open>cleanupOldBackups\<close> reads the clock anew, after the payload has been copied and the
  entry created.
\<close>

definition cleanupOldBackups ::
  "BackupManager \<Rightarrow> filesys \<Rightarrow> BackupManifest \<Rightarrow> string \<Rightarrow> BackupManifest \<times> filesys" where
  "cleanupOldBackups bm w manifest itemName =
     (let itemBackups = filter (\<lambda>entry. ItemName entry = itemName) (Entries manifest);
          sorted = sort_key (\<lambda>entry. - CreatedAt entry) itemBackups;
          now = clock (later w);
          toDelete =
            map (\<lambda>(i, backup). ID backup)
              (filter (\<lambda>(i, backup).
                   time_Sub now (CreatedAt backup) > backup_maxAge bm \<or> int i \<ge> maxBackups bm)
                 (enumerate 0 sorted));
          (es, w') = fold (\<lambda>backupID (es, w). remove_backup backupID es w) toDelete
                      (Entries manifest, w)
      in (manifest\<lparr> Entries := es \<rparr>, w'))"

definition backup_error :: "string \<Rightarrow> path \<Rightarrow> error \<Rightarrow> ErrorCode \<Rightarrow> error" where
  "backup_error itemName filePath cause code = SyncError ''backup'' itemName filePath cause code"

definition BackupFile ::
  "platform \<Rightarrow> BackupManager \<Rightarrow> backup_world \<Rightarrow> string \<Rightarrow> path \<Rightarrow> string \<Rightarrow> string list
     \<Rightarrow> (error + BackupEntry) \<times> backup_world" where
  "BackupFile pf bm st itemName filePath reason tags =
     (let w = bw_fs st in
      if \<not> PathExists w filePath
      then (Inl (backup_error itemName filePath (Errorf ''file does not exist'')
                   ErrCodeFileNotFound), st)
      else case os_Stat w filePath of
        Inl err \<Rightarrow> (Inl (backup_error itemName filePath err ErrCodeIOError), st)
      | Inr fileInfo \<Rightarrow>
      (case CalculateFileHash pf w filePath of
        Inl err \<Rightarrow>
          (Inl (backup_error itemName filePath (Wrap ''failed to calculate hash'' err)
                  ErrCodeHashMismatch), st)
      | Inr hash \<Rightarrow>
      (case generateBackupID pf w itemName hash of
        Inl panic \<Rightarrow> (Inl panic, st)
      | Inr backupID \<Rightarrow>
      (let backupPath = filepath_Join (filepath_Join (backupDir bm) ''files'') backupID in
       case loadManifest bm st of
        Inl err \<Rightarrow> (Inl err, st)
      | Inr manifest \<Rightarrow>
      (case refresh_duplicate itemName hash (clock w) reason tags (Entries manifest) of
        Some (entry, es) \<Rightarrow>
          (case saveManifest bm st (manifest\<lparr> Entries := es \<rparr>) of
             (Some err, st') \<Rightarrow> (Inl err, st')
           | (None, st') \<Rightarrow> (Inr entry, st'))
      | None \<Rightarrow>
      (case os_MkdirAll w (filepath_Dir backupPath) 493 of
        Inl err \<Rightarrow>
          (Inl (backup_error itemName filePath
                  (Wrap ''failed to create backup directory'' err) ErrCodeIOError), st)
      | Inr w1 \<Rightarrow>
      (case backup_copyFile w1 filePath backupPath of
        (Some err, w2) \<Rightarrow>
          (Inl (backup_error itemName filePath
                  (Wrap ''failed to copy file to backup'' err) ErrCodeIOError),
           st\<lparr> bw_fs := w2 \<rparr>)
      | (None, w2) \<Rightarrow>
      (let entry = \<lparr> ID = backupID, ItemName = itemName, OriginalPath = filePath,
                      BackupPath = backupPath, backup_Hash = hash,
                      backup_Size = fi_Size fileInfo, CreatedAt = clock w,
                      CreatedBy = CurrentComputer (backup_localConfig bm),
                      Reason = reason, Tags = tags \<rparr>;
           manifest1 = manifest\<lparr> Entries := Entries manifest @ [entry],
                                  UpdatedAt := clock w \<rparr>;
           (manifest2, w3) = cleanupOldBackups bm w2 manifest1 itemName
       in case saveManifest bm (st\<lparr> bw_fs := w3 \<rparr>) manifest2 of
            (Some err, st') \<Rightarrow> (Inl err, st')
          | (None, st') \<Rightarrow> (Inr entry, st')))))))))"

text \<open>
  The content-addressing invariant of the manifest, and the states that a sequence of
  \<open>BackupFile\<close> calls reaches from a backup directory without a manifest; between two
  calls the file system may change in any way.
\<close>

definition manifest_keys :: "BackupEntry list \<Rightarrow> (string \<times> string) list" where
  "manifest_keys es = map (\<lambda>entry. (ItemName entry, backup_Hash entry)) es"

definition content_addressed :: "backup_world \<Rightarrow> bool" where
  "content_addressed st \<longleftrightarrow>
     (case bw_manifest st of
        None \<Rightarrow> True
      | Some manifest \<Rightarrow> distinct (manifest_keys (Entries manifest)))"

inductive backup_reachable :: "platform \<Rightarrow> BackupManager \<Rightarrow> backup_world \<Rightarrow> bool"
  for pf :: platform and bm :: BackupManager where
  start: "bw_manifest st = None \<Longrightarrow> backup_reachable pf bm st"
| call: "backup_reachable pf bm st \<Longrightarrow>
         BackupFile pf bm st itemName filePath reason tags = (res, st') \<Longrightarrow>
         backup_reachable pf bm st'"
| world: "backup_reachable pf bm st \<Longrightarrow> backup_reachable pf bm (st\<lparr> bw_fs := w \<rparr>)"

section \<open>Sync engine (package sync)\<close>

datatype SyncOperation = SyncPush | SyncPull | SyncSmart | SyncOther int

text \<open>
  A formatted line of a result: \<open>Failure prefix err\<close> stands for
  \<^verbatim>\<open>fmt.Sprintf("<prefix>: %v", err)\<close>.
\<close>

datatype message = Text string | Failure string error

record SyncResult =
  Operation :: SyncOperation
  Success :: bool
  FilesChanged :: int
  FilesSkipped :: int
  FilesErrored :: int
  Errors :: "message list"
  Message :: string

text \<open>
  The state the engine works on: the file system, the local \<^verbatim>\<open>file-states.json\<close>, the
  shared \<^verbatim>\<open>file-metadata.json\<close> and the Git note that holds the shared metadata in Git
  mode.
\<close>

record sync_world =
  sw_fs :: filesys
  sw_fileStates :: "FileStatesData option"
  sw_fileMetadata :: "FileMetadataData option"
  sw_gitNotes :: "FileMetadataData option"

record SyncEngine =
  localConfig :: LocalConfig
  fileStatesPath :: path
  cloudMetadataPath :: path
  gitCallback ::
    "(LocalConfig \<Rightarrow> path \<Rightarrow> string \<Rightarrow> sync_world \<Rightarrow> error option \<times> sync_world) option"
  gitSafeCallback ::
    "(LocalConfig \<Rightarrow> path \<Rightarrow> (sync_world \<Rightarrow> error option \<times> sync_world) \<Rightarrow> sync_world
        \<Rightarrow> error option \<times> sync_world) option"

definition NewSyncEngine :: "path \<Rightarrow> LocalConfig \<Rightarrow> SyncEngine" where
  "NewSyncEngine configDir cfg =
     \<lparr> localConfig = cfg,
       fileStatesPath = filepath_Join configDir ''file-states.json'',
       cloudMetadataPath = GetFileMetadataPath cfg,
       gitCallback = None,
       gitSafeCallback = None \<rparr>"

definition new_result :: "SyncOperation \<Rightarrow> SyncResult" where
  "new_result opn =
     \<lparr> Operation = opn, Success = True, FilesChanged = 0, FilesSkipped = 0, FilesErrored = 0,
       Errors = [], Message = [] \<rparr>"

definition warn :: "SyncResult \<Rightarrow> string \<Rightarrow> error \<Rightarrow> SyncResult" where
  "warn result label err = result\<lparr> Errors := Errors result @ [Failure label err] \<rparr>"

definition git_mode :: "SyncEngine \<Rightarrow> bool" where
  "git_mode eng \<longleftrightarrow> GitMode (localConfig eng) \<and> GitRepoRoot (localConfig eng) \<noteq> []"

definition loadFileStates :: "SyncEngine \<Rightarrow> sync_world \<Rightarrow> error + FileStatesData" where
  "loadFileStates eng st =
     (if \<not> doc_PathExists (sw_fs st) (fileStatesPath eng) (sw_fileStates st)
      then Inr NewFileStatesData
      else doc_ReadFile (sw_fs st) (fileStatesPath eng) (sw_fileStates st))"

definition SaveFileStatesData ::
  "SyncEngine \<Rightarrow> sync_world \<Rightarrow> FileStatesData \<Rightarrow> error option \<times> sync_world" where
  "SaveFileStatesData eng st f =
     (case os_MkdirAll (sw_fs st) (filepath_Dir (fileStatesPath eng)) 493 of
        Inl err \<Rightarrow> (Some err, st)
      | Inr w \<Rightarrow>
          (case doc_WriteFile w (fileStatesPath eng) of
             Some err \<Rightarrow> (Some err, st\<lparr> sw_fs := w \<rparr>)
           | None \<Rightarrow> (None, st\<lparr> sw_fs := w, sw_fileStates := Some f \<rparr>)))"

definition loadCloudMetadata :: "SyncEngine \<Rightarrow> sync_world \<Rightarrow> error + FileMetadataData" where
  "loadCloudMetadata eng st =
     (if git_mode eng then
        (if (OpExec, GitRepoRoot (localConfig eng)) \<in> faults (sw_fs st) then Inr NewFileMetadataData
         else case sw_gitNotes st of
                None \<Rightarrow> Inr NewFileMetadataData
              | Some note \<Rightarrow>
                  if (OpRead, GitRepoRoot (localConfig eng)) \<in> faults (sw_fs st)
                  then Inl (PathError OpRead (GitRepoRoot (localConfig eng)) EIO)
                  else Inr note)
      else if \<not> doc_PathExists (sw_fs st) (cloudMetadataPath eng) (sw_fileMetadata st)
      then Inr NewFileMetadataData
      else doc_ReadFile (sw_fs st) (cloudMetadataPath eng) (sw_fileMetadata st))"

definition SaveFileMetadataDataGitAware ::
  "SyncEngine \<Rightarrow> sync_world \<Rightarrow> FileMetadataData \<Rightarrow> error option \<times> sync_world" where
  "SaveFileMetadataDataGitAware eng st f =
     (if git_mode eng then
        (if (OpExec, GitRepoRoot (localConfig eng)) \<in> faults (sw_fs st)
         then (Some (PathError OpExec (GitRepoRoot (localConfig eng)) EIO), st)
         else (None, st\<lparr> sw_gitNotes := Some f \<rparr>))
      else
        (case os_MkdirAll (sw_fs st) (filepath_Dir (cloudMetadataPath eng)) 493 of
           Inl err \<Rightarrow> (Some err, st)
         | Inr w \<Rightarrow>
             (case doc_WriteFile w (cloudMetadataPath eng) of
                Some err \<Rightarrow> (Some err, st\<lparr> sw_fs := w \<rparr>)
              | None \<Rightarrow> (None, st\<lparr> sw_fs := w, sw_fileMetadata := Some f \<rparr>))))"

text \<open>
  The functions that update the shared metadata can panic (see \<open>UpdateFileMetadata\<close>).
  Nothing recovers from a panic, so it ends the whole call: their result is \<open>Inl\<close> of
  the panic, or \<open>Inr\<close> of what the function returns.
\<close>

definition updateFileMetadata ::
  "platform \<Rightarrow> SyncEngine \<Rightarrow> sync_world \<Rightarrow> string \<Rightarrow> path \<Rightarrow> FileInfo \<Rightarrow> string
     \<Rightarrow> (error + error option) \<times> sync_world" where
  "updateFileMetadata pf eng st itemName filePath fileInfo fileHash =
     (case loadFileStates eng st of
        Inl err \<Rightarrow> (Inr (Some (Wrap ''failed to load file states'' err)), st)
      | Inr fileStates \<Rightarrow>
          (case loadCloudMetadata eng st of
             Inl err \<Rightarrow> (Inr (Some (Wrap ''failed to load cloud metadata'' err)), st)
           | Inr cloudMetadata \<Rightarrow>
               (let now = clock (sw_fs st);
                    fileStates' = UpdateFileState pf now fileStates itemName filePath fileHash
                                    (fi_ModTime fileInfo) (fi_Size fileInfo)
                in case UpdateFileMetadata pf now cloudMetadata itemName filePath
                          (CurrentComputer (localConfig eng)) fileHash (fi_ModTime fileInfo) of
                     Inl panic \<Rightarrow> (Inl panic, st)
                   | Inr cloudMetadata' \<Rightarrow>
                (case SaveFileStatesData eng st fileStates' of
                     (Some err, st1) \<Rightarrow>
                       (Inr (Some (Wrap ''failed to save file states'' err)), st1)
                   | (None, st1) \<Rightarrow>
                       (case SaveFileMetadataDataGitAware eng st1 cloudMetadata' of
                          (Some err, st2) \<Rightarrow>
                            (Inr (Some (Wrap ''failed to save cloud metadata'' err)), st2)
                        | (None, st2) \<Rightarrow> (Inr None, st2))))))"

definition updateCloudHash ::
  "platform \<Rightarrow> SyncEngine \<Rightarrow> sync_world \<Rightarrow> string \<Rightarrow> path \<Rightarrow> string \<Rightarrow> int
     \<Rightarrow> error option \<times> sync_world" where
  "updateCloudHash pf eng st itemName filePath cloudHash cloudModTime =
     (case loadCloudMetadata eng st of
        Inl err \<Rightarrow> (Some (Wrap ''failed to load cloud metadata'' err), st)
      | Inr cloudMetadata \<Rightarrow>
          (let itemMetadata =
                 (case Metadata cloudMetadata itemName of None \<Rightarrow> Map.empty | Some m \<Rightarrow> m);
               metadata =
                 (case itemMetadata filePath of None \<Rightarrow> empty_FileMetadata | Some m \<Rightarrow> m);
               metadata' = metadata\<lparr>
                 CloudHash := cloudHash,
                 CloudModTime := time_Format pf RFC3339 cloudModTime,
                 UpdatedBy := CurrentComputer (localConfig eng),
                 LastUpdated := time_Format pf RFC3339 (clock (sw_fs st)) \<rparr>
           in SaveFileMetadataDataGitAware eng st
                (cloudMetadata\<lparr> Metadata :=
                   (Metadata cloudMetadata)(itemName \<mapsto> itemMetadata(filePath \<mapsto> metadata')) \<rparr>)))"

definition isFileChanged ::
  "platform \<Rightarrow> SyncEngine \<Rightarrow> sync_world \<Rightarrow> string \<Rightarrow> path \<Rightarrow> bool \<times> error option" where
  "isFileChanged pf eng st itemName filePath =
     (case loadFileStates eng st of
        Inl err \<Rightarrow> (True, Some err)
      | Inr fileStates \<Rightarrow>
          (case GetFileState fileStates itemName filePath of
             None \<Rightarrow> (True, None)
           | Some existingState \<Rightarrow>
               (case CalculateFileHash pf (sw_fs st) filePath of
                  Inl err \<Rightarrow> (True, Some err)
                | Inr currentHash \<Rightarrow> (LocalHash existingState \<noteq> currentHash, None))))"

definition copyFile :: "filesys \<Rightarrow> path \<Rightarrow> path \<Rightarrow> error option \<times> filesys" where
  "copyFile w src dst =
     (case os_MkdirAll w (filepath_Dir dst) 493 of
        Inl err \<Rightarrow> (Some err, w)
      | Inr w1 \<Rightarrow>
          (case os_Open w1 src of
             Inl err \<Rightarrow> (Some err, w1)
           | Inr srcFile \<Rightarrow>
               (case os_Create w1 dst of
                  Inl err \<Rightarrow> (Some err, w1)
                | Inr w2 \<Rightarrow>
                    (case io_Copy w2 dst src of
                       (Some err, w3) \<Rightarrow> (Some err, w3)
                     | (None, w3) \<Rightarrow>
                         (case os_Stat w3 src of
                            Inl err \<Rightarrow> (Some err, w3)
                          | Inr srcInfo \<Rightarrow>
                              (case os_Chmod w3 dst (fi_Mode srcInfo) of
                                 Inl err \<Rightarrow> (Some err, w3)
                               | Inr w4 \<Rightarrow> (None, w4)))))))"

fun copyDir :: "nat \<Rightarrow> filesys \<Rightarrow> path \<Rightarrow> path \<Rightarrow> (error option \<times> filesys) option"
  and copyEntries ::
    "nat \<Rightarrow> filesys \<Rightarrow> path \<Rightarrow> path \<Rightarrow> (string \<times> bool) list \<Rightarrow> (error option \<times> filesys) option"
  where
  "copyDir 0 w src dst = None"
| "copyDir (Suc fuel) w src dst =
     (case os_Stat w src of
        Inl err \<Rightarrow> Some (Some err, w)
      | Inr srcInfo \<Rightarrow>
          (case os_MkdirAll w dst (fi_Mode srcInfo) of
             Inl err \<Rightarrow> Some (Some err, w)
           | Inr w1 \<Rightarrow>
               (case os_ReadDir w1 src of
                  Inl err \<Rightarrow> Some (Some err, w1)
                | Inr dirEntries \<Rightarrow> copyEntries (Suc fuel) w1 src dst dirEntries)))"
| "copyEntries fuel w src dst [] = Some (None, w)"
| "copyEntries fuel w src dst ((name, isDir) # rest) =
     (let srcPath = filepath_Join src name; dstPath = filepath_Join dst name in
      if isDir then
        (case fuel of
           0 \<Rightarrow> None
         | Suc fuel' \<Rightarrow>
             (case copyDir fuel' w srcPath dstPath of
                None \<Rightarrow> None
              | Some (Some err, w') \<Rightarrow> Some (Some err, w')
              | Some (None, w') \<Rightarrow> copyEntries fuel w' src dst rest))
      else
        (case copyFile w srcPath dstPath of
           (Some err, w') \<Rightarrow> Some (Some err, w')
         | (None, w') \<Rightarrow> copyEntries fuel w' src dst rest))"

text \<open>
  The two hooks of the engine. Both are \<^verbatim>\<open>nil\<close> in an engine built by \<open>NewSyncEngine\<close>;
  a hook that is set runs as a step on the state.
\<close>

definition call_gitCallback ::
  "SyncEngine \<Rightarrow> sync_world \<Rightarrow> path \<Rightarrow> string \<Rightarrow> string \<Rightarrow> SyncResult
     \<Rightarrow> SyncResult \<times> sync_world" where
  "call_gitCallback eng st filePath operation label result =
     (case gitCallback eng of
        None \<Rightarrow> (result, st)
      | Some callback \<Rightarrow>
          (case callback (localConfig eng) filePath operation st of
             (Some err, st') \<Rightarrow> (warn result label err, st')
           | (None, st') \<Rightarrow> (result, st')))"

definition copyOperation :: "path \<Rightarrow> path \<Rightarrow> sync_world \<Rightarrow> error option \<times> sync_world" where
  "copyOperation src dst st =
     (case copyFile (sw_fs st) src dst of (r, w) \<Rightarrow> (r, st\<lparr> sw_fs := w \<rparr>))"

definition run_copyOperation ::
  "SyncEngine \<Rightarrow> sync_world \<Rightarrow> path \<Rightarrow> path \<Rightarrow> path \<Rightarrow> error option \<times> sync_world" where
  "run_copyOperation eng st localPath src dst =
     (case gitSafeCallback eng of
        Some callback \<Rightarrow> callback (localConfig eng) localPath (copyOperation src dst) st
      | None \<Rightarrow> copyOperation src dst st)"

text \<open>The metadata block of \<open>pushItem\<close> after a copied file.\<close>

definition push_metadata ::
  "platform \<Rightarrow> SyncEngine \<Rightarrow> sync_world \<Rightarrow> SyncItem \<Rightarrow> path \<Rightarrow> path \<Rightarrow> SyncResult
     \<Rightarrow> (error + SyncResult) \<times> sync_world" where
  "push_metadata pf eng st item localPath cloudPath result =
     (case os_Stat (sw_fs st) localPath of
        Inl err \<Rightarrow> (Inr (warn result ''warning: failed to get file info'' err), st)
      | Inr localInfo \<Rightarrow>
          (case CalculateFileHash pf (sw_fs st) localPath of
             Inl err \<Rightarrow> (Inr (warn result ''warning: failed to calculate hash'' err), st)
           | Inr localHash \<Rightarrow>
               (case updateFileMetadata pf eng st (Name item) localPath localInfo localHash of
                  (Inl panic, st1) \<Rightarrow> (Inl panic, st1)
                | (Inr r, st1) \<Rightarrow>
                    (let result1 =
                           (case r of
                              Some err \<Rightarrow> warn result ''warning: failed to update metadata'' err
                            | None \<Rightarrow> result)
                     in case os_Stat (sw_fs st1) cloudPath of
                          Inl err \<Rightarrow> (Inr result1, st1)
                        | Inr cloudInfo \<Rightarrow>
                            (case updateCloudHash pf eng st1 (Name item) localPath localHash
                                    (fi_ModTime cloudInfo) of
                               (Some err, st2) \<Rightarrow>
                                 (Inr (warn result1 ''warning: failed to update cloud hash'' err),
                                  st2)
                             | (None, st2) \<Rightarrow> (Inr result1, st2))))))"

text \<open>The metadata block of \<open>pullItem\<close> after a copied file.\<close>

definition pull_metadata ::
  "platform \<Rightarrow> SyncEngine \<Rightarrow> sync_world \<Rightarrow> SyncItem \<Rightarrow> path \<Rightarrow> SyncResult
     \<Rightarrow> (error + SyncResult) \<times> sync_world" where
  "pull_metadata pf eng st item localPath result =
     (case os_Stat (sw_fs st) localPath of
        Inl err \<Rightarrow> (Inr (warn result ''warning: failed to get file info'' err), st)
      | Inr localInfo \<Rightarrow>
          (case CalculateFileHash pf (sw_fs st) localPath of
             Inl err \<Rightarrow> (Inr (warn result ''warning: failed to calculate hash'' err), st)
           | Inr localHash \<Rightarrow>
               (case updateFileMetadata pf eng st (Name item) localPath localInfo localHash of
                  (Inl panic, st1) \<Rightarrow> (Inl panic, st1)
                | (Inr (Some err), st1) \<Rightarrow>
                    (Inr (warn result ''warning: failed to update metadata'' err), st1)
                | (Inr None, st1) \<Rightarrow> (Inr result, st1))))"

text \<open>
  The functions below take the fuel of \<open>copyDir\<close>; \<open>None\<close> means that the copy of a
  folder did not return within that depth. A file-kind item never consumes fuel.
\<close>

definition pushItem ::
  "nat \<Rightarrow> platform \<Rightarrow> SyncEngine \<Rightarrow> sync_world \<Rightarrow> SyncItem \<Rightarrow> path \<Rightarrow> path
     \<Rightarrow> ((error + SyncResult) \<times> sync_world) option" where
  "pushItem fuel pf eng st item localPath cloudPath =
     (let result = new_result SyncPush in
      if \<not> PathExists (sw_fs st) localPath then Some (Inl (LocalPathMissing localPath), st)
      else
        case (if Type item = ''file'' then
                (case isFileChanged pf eng st (Name item) localPath of
                   (changed, Some err) \<Rightarrow>
                     (False, warn result ''warning: failed to check file changes'' err)
                 | (changed, None) \<Rightarrow> (\<not> changed, result))
              else (False, result)) of
          (True, result0) \<Rightarrow>
            Some (Inr (result0\<lparr> Message := Name item @ '' unchanged - skipped'',
                                 FilesSkipped := 1 \<rparr>), st)
        | (False, result0) \<Rightarrow>
            (case call_gitCallback eng st localPath ''pre_sync_backup'' ''git warning'' result0 of
               (result1, st1) \<Rightarrow>
                 if Type item = ''file'' then
                   (case run_copyOperation eng st1 localPath localPath cloudPath of
                      (Some err, st2) \<Rightarrow> Some (Inl (Wrap ''failed to copy file'' err), st2)
                    | (None, st2) \<Rightarrow>
                        (case call_gitCallback eng st2 cloudPath ''sync_add''
                                ''git staging warning'' result1 of
                           (result2, st3) \<Rightarrow>
                             (case push_metadata pf eng st3 item localPath cloudPath result2 of
                                (Inl panic, st4) \<Rightarrow> Some (Inl panic, st4)
                              | (Inr result3, st4) \<Rightarrow>
                                  Some (Inr (result3\<lparr> FilesChanged := 1,
                                          Message := ''Pushed '' @ Name item @ '' to cloud'' \<rparr>),
                                        st4))))
                 else
                   (case copyDir fuel (sw_fs st1) localPath cloudPath of
                      None \<Rightarrow> None
                    | Some (Some err, w) \<Rightarrow>
                        Some (Inl (Wrap ''failed to copy directory'' err), st1\<lparr> sw_fs := w \<rparr>)
                    | Some (None, w) \<Rightarrow>
                        Some (Inr (result1\<lparr> FilesChanged := 1,
                                Message := ''Pushed '' @ Name item @ '' to cloud'' \<rparr>),
                              st1\<lparr> sw_fs := w \<rparr>))))"

definition pullItem ::
  "nat \<Rightarrow> platform \<Rightarrow> SyncEngine \<Rightarrow> sync_world \<Rightarrow> SyncItem \<Rightarrow> path \<Rightarrow> path
     \<Rightarrow> ((error + SyncResult) \<times> sync_world) option" where
  "pullItem fuel pf eng st item localPath cloudPath =
     (let result = new_result SyncPull in
      if \<not> PathExists (sw_fs st) cloudPath then Some (Inl (CloudPathMissing cloudPath), st)
      else
        (case call_gitCallback eng st localPath ''pre_sync_backup'' ''git warning'' result of
           (result1, st1) \<Rightarrow>
             if Type item = ''file'' then
               (case run_copyOperation eng st1 localPath cloudPath localPath of
                  (Some err, st2) \<Rightarrow> Some (Inl (Wrap ''failed to copy file'' err), st2)
                | (None, st2) \<Rightarrow>
                    (case call_gitCallback eng st2 localPath ''sync_add''
                            ''git staging warning'' result1 of
                       (result2, st3) \<Rightarrow>
                         (case pull_metadata pf eng st3 item localPath result2 of
                            (Inl panic, st4) \<Rightarrow> Some (Inl panic, st4)
                          | (Inr result3, st4) \<Rightarrow>
                              Some (Inr (result3\<lparr> FilesChanged := 1,
                                      Message := ''Pulled '' @ Name item @ '' from cloud'' \<rparr>),
                                    st4))))
             else
               (case copyDir fuel (sw_fs st1) cloudPath localPath of
                  None \<Rightarrow> None
                | Some (Some err, w) \<Rightarrow>
                    Some (Inl (Wrap ''failed to copy directory'' err), st1\<lparr> sw_fs := w \<rparr>)
                | Some (None, w) \<Rightarrow>
                    Some (Inr (result1\<lparr> FilesChanged := 1,
                            Message := ''Pulled '' @ Name item @ '' from cloud'' \<rparr>),
                          st1\<lparr> sw_fs := w \<rparr>))))"

text \<open>
  The recorded cloud hash that \<open>smartSyncFile\<close> looks up in the loaded metadata: the
  empty string when there is no record for the file.
\<close>

definition recorded_CloudHash :: "FileMetadataData \<Rightarrow> SyncItem \<Rightarrow> path \<Rightarrow> string" where
  "recorded_CloudHash cloudMetadata item localPath =
     (case Metadata cloudMetadata (Name item) of
        None \<Rightarrow> []
      | Some itemMetadata \<Rightarrow>
          (case itemMetadata localPath of
             None \<Rightarrow> []
           | Some fileMetadata \<Rightarrow> CloudHash fileMetadata))"

definition smartSyncFile ::
  "nat \<Rightarrow> platform \<Rightarrow> SyncEngine \<Rightarrow> sync_world \<Rightarrow> SyncItem \<Rightarrow> path \<Rightarrow> path
     \<Rightarrow> ((error + SyncResult) \<times> sync_world) option" where
  "smartSyncFile fuel pf eng st item localPath cloudPath =
     (let result = new_result SyncSmart in
      case CalculateFileHash pf (sw_fs st) localPath of
        Inl err \<Rightarrow> Some (Inl (Wrap ''failed to calculate local file hash'' err), st)
      | Inr localHash \<Rightarrow>
      (case CalculateFileHash pf (sw_fs st) cloudPath of
        Inl err \<Rightarrow> Some (Inl (Wrap ''failed to calculate cloud file hash'' err), st)
      | Inr cloudHash \<Rightarrow>
      if localHash = cloudHash then
        (case (case os_Stat (sw_fs st) localPath of
                 Inl err \<Rightarrow> (Inr result, st)
               | Inr localInfo \<Rightarrow>
                   (case updateFileMetadata pf eng st (Name item) localPath localInfo localHash of
                      (Inl panic, st1) \<Rightarrow> (Inl panic, st1)
                    | (Inr (Some err), st1) \<Rightarrow>
                        (Inr (warn result ''warning: failed to update metadata'' err), st1)
                    | (Inr None, st1) \<Rightarrow> (Inr result, st1))) of
           (Inl panic, st1) \<Rightarrow> Some (Inl panic, st1)
         | (Inr result1, st1) \<Rightarrow>
             Some (Inr (result1\<lparr> Message := Name item @ '' is already in sync (hash match)'',
                                  FilesSkipped := 1 \<rparr>), st1))
      else
      (case os_Stat (sw_fs st) localPath of
        Inl err \<Rightarrow> Some (Inl (Wrap ''failed to stat local file'' err), st)
      | Inr localInfo \<Rightarrow>
      (case os_Stat (sw_fs st) cloudPath of
        Inl err \<Rightarrow> Some (Inl (Wrap ''failed to stat cloud file'' err), st)
      | Inr cloudInfo \<Rightarrow>
      (case (case loadCloudMetadata eng st of
               Inl err \<Rightarrow> (warn result ''warning: failed to load cloud metadata'' err, [])
             | Inr cloudMetadata \<Rightarrow>
                 (result, recorded_CloudHash cloudMetadata item localPath)) of
         (result1, known) \<Rightarrow>
       if known \<noteq> [] \<and> known = cloudHash then
         pushItem fuel pf eng st item localPath cloudPath
       else if known \<noteq> [] \<and> known \<noteq> cloudHash then
         (if fi_ModTime localInfo > fi_ModTime cloudInfo then
            Some (Inr (result1\<lparr>
                    Message := ''Conflict detected for '' @ Name item @ '' - both files modified'',
                    Errors := Errors result1 @
                      [Text ''Both local and cloud files have been modified since last sync''] \<rparr>),
                  st)
          else pullItem fuel pf eng st item localPath cloudPath)
       else
         (if fi_ModTime localInfo > fi_ModTime cloudInfo then
            pushItem fuel pf eng st item localPath cloudPath
          else if fi_ModTime cloudInfo > fi_ModTime localInfo then
            pullItem fuel pf eng st item localPath cloudPath
          else
            Some (Inr (result1\<lparr>
                    Message := ''Conflict detected for '' @ Name item
                               @ '' - same timestamp, different content'',
                    Errors := Errors result1 @
                      [Text ''Files have same timestamp but different content - manual resolution needed''] \<rparr>),
                  st)))))))"

definition smartSyncDirectory ::
  "nat \<Rightarrow> platform \<Rightarrow> SyncEngine \<Rightarrow> sync_world \<Rightarrow> SyncItem \<Rightarrow> path \<Rightarrow> path
     \<Rightarrow> ((error + SyncResult) \<times> sync_world) option" where
  "smartSyncDirectory fuel pf eng st item localPath cloudPath =
     (let result = new_result SyncSmart in
      case os_Stat (sw_fs st) localPath of
        Inl err \<Rightarrow> Some (Inl (Wrap ''failed to stat local directory'' err), st)
      | Inr localInfo \<Rightarrow>
          (case os_Stat (sw_fs st) cloudPath of
             Inl err \<Rightarrow> Some (Inl (Wrap ''failed to stat cloud directory'' err), st)
           | Inr cloudInfo \<Rightarrow>
               if fi_ModTime localInfo > fi_ModTime cloudInfo then
                 pushItem fuel pf eng st item localPath cloudPath
               else if fi_ModTime cloudInfo > fi_ModTime localInfo then
                 pullItem fuel pf eng st item localPath cloudPath
               else
                 Some (Inr (result\<lparr>
                         Message := ''Directory '' @ Name item @ '' appears in sync'',
                         FilesSkipped := 1 \<rparr>), st)))"

definition smartSyncItem ::
  "nat \<Rightarrow> platform \<Rightarrow> SyncEngine \<Rightarrow> sync_world \<Rightarrow> SyncItem \<Rightarrow> path \<Rightarrow> path
     \<Rightarrow> ((error + SyncResult) \<times> sync_world) option" where
  "smartSyncItem fuel pf eng st item localPath cloudPath =
     (let result = new_result SyncSmart;
          localExists = PathExists (sw_fs st) localPath;
          cloudExists = PathExists (sw_fs st) cloudPath
      in
      if \<not> localExists \<and> \<not> cloudExists then
        Some (Inr (result\<lparr> Message := ''Neither local nor cloud exists for '' @ Name item \<rparr>), st)
      else if localExists \<and> \<not> cloudExists then
        pushItem fuel pf eng st item localPath cloudPath
      else if \<not> localExists \<and> cloudExists then
        pullItem fuel pf eng st item localPath cloudPath
      else if Type item = ''file'' then
        smartSyncFile fuel pf eng st item localPath cloudPath
      else
        smartSyncDirectory fuel pf eng st item localPath cloudPath)"

definition SyncEngine_SyncItem ::
  "nat \<Rightarrow> platform \<Rightarrow> SyncEngine \<Rightarrow> sync_world \<Rightarrow> SyncOperation \<Rightarrow> SyncItem
     \<Rightarrow> ((error + SyncResult) \<times> sync_world) option" where
  "SyncEngine_SyncItem fuel pf eng st operation item =
     (let localPath = GetCurrentComputerPath pf item (CurrentComputer (localConfig eng)) in
      if localPath = [] then
        Some (Inl (NoPathConfigured (CurrentComputer (localConfig eng))), st)
      else
        let cloudPath = GetCloudPath item (GetCloudConfigsPath (localConfig eng)) in
        case operation of
          SyncPush \<Rightarrow> pushItem fuel pf eng st item localPath cloudPath
        | SyncPull \<Rightarrow> pullItem fuel pf eng st item localPath cloudPath
        | SyncSmart \<Rightarrow> smartSyncItem fuel pf eng st item localPath cloudPath
        | SyncOther n \<Rightarrow> Some (Inl (UnknownOperation n), st))"

fun SyncAll_loop ::
  "nat \<Rightarrow> platform \<Rightarrow> SyncEngine \<Rightarrow> SyncOperation \<Rightarrow> SyncItem list \<Rightarrow> SyncResult
     \<Rightarrow> sync_world \<Rightarrow> (SyncResult \<times> sync_world) option" where
  "SyncAll_loop fuel pf eng operation [] result st = Some (result, st)"
| "SyncAll_loop fuel pf eng operation (item # syncItems) result st =
     (case SyncEngine_SyncItem fuel pf eng st operation item of
        None \<Rightarrow> None
      | Some (Inl err, st') \<Rightarrow>
          SyncAll_loop fuel pf eng operation syncItems
            (result\<lparr> Errors := Errors result @ [Failure (Name item) err],
                      FilesErrored := FilesErrored result + 1 \<rparr>) st'
      | Some (Inr itemResult, st') \<Rightarrow>
          SyncAll_loop fuel pf eng operation syncItems
            (result\<lparr> FilesChanged := FilesChanged result + FilesChanged itemResult,
                      FilesSkipped := FilesSkipped result + FilesSkipped itemResult,
                      FilesErrored := FilesErrored result + FilesErrored itemResult,
                      Errors := Errors result @ Errors itemResult \<rparr>) st')"

definition SyncAll ::
  "nat \<Rightarrow> platform \<Rightarrow> SyncEngine \<Rightarrow> sync_world \<Rightarrow> SyncOperation \<Rightarrow> SyncItem list
     \<Rightarrow> (SyncResult \<times> sync_world) option" where
  "SyncAll fuel pf eng st operation syncItems =
     (case SyncAll_loop fuel pf eng operation syncItems (new_result operation) st of
        None \<Rightarrow> None
      | Some (result, st') \<Rightarrow>
          (let result1 = (if FilesErrored result > 0 then result\<lparr> Success := False \<rparr> else result)
           in Some (result1\<lparr> Message :=
                      ''Sync complete: '' @ show_int (FilesChanged result1) @ '' changed, ''
                      @ show_int (FilesSkipped result1) @ '' skipped, ''
                      @ show_int (FilesErrored result1) @ '' errors'' \<rparr>, st')))"


section \<open>Smart-sync decision rules and observations of a state\<close>

datatype decision = Skip | PushLocalToCloud | PullCloudToLocal | Conflict string

text \<open>
  The rules of the decision engine in the words of the specification, applied in order:
  \<open>lh\<close> and \<open>ch\<close> are the hashes of the local and the cloud file (\<open>None\<close> when the
  file is absent), \<open>lm\<close> and \<open>cm\<close> their modification times and \<open>last_cloud_hash\<close> the
  recorded cloud hash (\<open>None\<close> when nothing is recorded).
\<close>

definition spec_decide ::
  "string option \<Rightarrow> string option \<Rightarrow> int \<Rightarrow> int \<Rightarrow> string option \<Rightarrow> decision" where
  "spec_decide lh ch lm cm last_cloud_hash =
     (if lh = None \<and> ch = None then Skip
      else if lh \<noteq> None \<and> ch = None then PushLocalToCloud
      else if lh = None \<and> ch \<noteq> None then PullCloudToLocal
      else if lh = ch then Skip
      else if last_cloud_hash \<noteq> None \<and> last_cloud_hash = ch then PushLocalToCloud
      else if last_cloud_hash \<noteq> None \<and> last_cloud_hash \<noteq> ch then
        (if lm > cm then Conflict ''both modified'' else PullCloudToLocal)
      else
        (if lm > cm then PushLocalToCloud
         else if cm > lm then PullCloudToLocal
         else Conflict ''same timestamp, different content''))"

text \<open>The recorded cloud hash as an input of the rules: an empty record counts as none.\<close>

definition last_cloud_hash_of :: "SyncEngine \<Rightarrow> sync_world \<Rightarrow> SyncItem \<Rightarrow> path \<Rightarrow> string option" where
  "last_cloud_hash_of eng st item localPath =
     (case loadCloudMetadata eng st of
        Inl err \<Rightarrow> None
      | Inr cloudMetadata \<Rightarrow>
          (if recorded_CloudHash cloudMetadata item localPath = [] then None
           else Some (recorded_CloudHash cloudMetadata item localPath)))"

text \<open>
  What the engine does for each outcome of the rules. \<open>Skip\<close> with both files present
  refreshes the recorded state of the file and reports one skipped file; \<open>Skip\<close> with no
  file reports nothing; a conflict is reported in the error list of the result and
  changes nothing.
\<close>

definition in_sync_result ::
  "platform \<Rightarrow> SyncEngine \<Rightarrow> sync_world \<Rightarrow> SyncItem \<Rightarrow> path
     \<Rightarrow> ((error + SyncResult) \<times> sync_world) option" where
  "in_sync_result pf eng st item localPath =
     (case (os_Stat (sw_fs st) localPath, CalculateFileHash pf (sw_fs st) localPath) of
        (Inr localInfo, Inr localHash) \<Rightarrow>
          (case updateFileMetadata pf eng st (Name item) localPath localInfo localHash of
             (Inl panic, st1) \<Rightarrow> Some (Inl panic, st1)
           | (Inr (Some err), st1) \<Rightarrow>
               Some (Inr ((warn (new_result SyncSmart) ''warning: failed to update metadata'' err)
                      \<lparr> Message := Name item @ '' is already in sync (hash match)'',
                        FilesSkipped := 1 \<rparr>), st1)
           | (Inr None, st1) \<Rightarrow>
               Some (Inr ((new_result SyncSmart)
                      \<lparr> Message := Name item @ '' is already in sync (hash match)'',
                        FilesSkipped := 1 \<rparr>), st1))
      | _ \<Rightarrow>
          Some (Inr ((new_result SyncSmart)
                 \<lparr> Message := Name item @ '' is already in sync (hash match)'',
                   FilesSkipped := 1 \<rparr>), st))"

definition conflict_result :: "SyncEngine \<Rightarrow> sync_world \<Rightarrow> SyncItem \<Rightarrow> string \<Rightarrow> SyncResult" where
  "conflict_result eng st item reason =
     (if reason = ''both modified'' then
        (new_result SyncSmart)
          \<lparr> Message := ''Conflict detected for '' @ Name item @ '' - both files modified'',
            Errors := [Text ''Both local and cloud files have been modified since last sync''] \<rparr>
      else
        (new_result SyncSmart)
          \<lparr> Message := ''Conflict detected for '' @ Name item
                        @ '' - same timestamp, different content'',
            Errors :=
              (case loadCloudMetadata eng st of
                 Inl err \<Rightarrow> [Failure ''warning: failed to load cloud metadata'' err]
               | Inr cloudMetadata \<Rightarrow> [])
              @ [Text ''Files have same timestamp but different content - manual resolution needed''] \<rparr>)"

definition carry_out ::
  "nat \<Rightarrow> platform \<Rightarrow> SyncEngine \<Rightarrow> sync_world \<Rightarrow> SyncItem \<Rightarrow> path \<Rightarrow> path \<Rightarrow> decision
     \<Rightarrow> ((error + SyncResult) \<times> sync_world) option" where
  "carry_out fuel pf eng st item localPath cloudPath d =
     (case d of
        Skip \<Rightarrow>
          if PathExists (sw_fs st) localPath \<and> PathExists (sw_fs st) cloudPath
          then in_sync_result pf eng st item localPath
          else Some (Inr ((new_result SyncSmart)
                      \<lparr> Message := ''Neither local nor cloud exists for '' @ Name item \<rparr>), st)
      | PushLocalToCloud \<Rightarrow> pushItem fuel pf eng st item localPath cloudPath
      | PullCloudToLocal \<Rightarrow> pullItem fuel pf eng st item localPath cloudPath
      | Conflict reason \<Rightarrow> Some (Inr (conflict_result eng st item reason), st))"

definition file_content :: "filesys \<Rightarrow> path \<Rightarrow> string option" where
  "file_content w p = (case lookup w p of Some (File c t m) \<Rightarrow> Some c | _ \<Rightarrow> None)"

definition stored_metadata :: "SyncEngine \<Rightarrow> sync_world \<Rightarrow> FileMetadataData option" where
  "stored_metadata eng st = (if git_mode eng then sw_gitNotes st else sw_fileMetadata st)"

text \<open>
  The local hash recorded for a file in the file states that the engine loads, and
  whether a push finds the file unchanged: a hash is recorded and it is the hash the
  file has now.
\<close>

definition recorded_LocalHash :: "SyncEngine \<Rightarrow> sync_world \<Rightarrow> SyncItem \<Rightarrow> path \<Rightarrow> string option" where
  "recorded_LocalHash eng st item localPath =
     (case loadFileStates eng st of
        Inl err \<Rightarrow> None
      | Inr fileStates \<Rightarrow> map_option LocalHash (GetFileState fileStates (Name item) localPath))"

definition unchanged_since_recorded ::
  "platform \<Rightarrow> SyncEngine \<Rightarrow> sync_world \<Rightarrow> SyncItem \<Rightarrow> path \<Rightarrow> bool" where
  "unchanged_since_recorded pf eng st item localPath \<longleftrightarrow>
     (case recorded_LocalHash eng st item localPath of
        None \<Rightarrow> False
      | Some h \<Rightarrow> CalculateFileHash pf (sw_fs st) localPath = Inr h)"

text \<open>
  The shared metadata that the engine loads holds an entry for the file whose
  \<open>Computers\<close> map is \<^verbatim>\<open>nil\<close>.
\<close>

definition computers_map_missing :: "SyncEngine \<Rightarrow> sync_world \<Rightarrow> SyncItem \<Rightarrow> path \<Rightarrow> bool" where
  "computers_map_missing eng st item localPath \<longleftrightarrow>
     (case loadCloudMetadata eng st of
        Inl err \<Rightarrow> False
      | Inr cloudMetadata \<Rightarrow>
          (case Metadata cloudMetadata (Name item) of
             None \<Rightarrow> False
           | Some itemMetadata \<Rightarrow>
               (case itemMetadata localPath of
                  None \<Rightarrow> False
                | Some fileMetadata \<Rightarrow> Computers fileMetadata = None)))"

text \<open>
  One file system keeps another: the same faults and clock, and every node of the first
  is a node of the second.
\<close>

definition fs_kept :: "filesys \<Rightarrow> filesys \<Rightarrow> bool" where
  "fs_kept w w' \<longleftrightarrow>
     faults w' = faults w \<and> clock w' = clock w
     \<and> (\<forall>p n. lookup w p = Some n \<longrightarrow> lookup w' p = Some n)"

text \<open>
  The file-system states that \<open>copyFile\<close> passes through, in order: the state it starts
  from, the state after the parent directories of the target have been made and, once
  the source and the target have been opened, the state after each call that changes
  the file system (the open of the target, each write of \<^verbatim>\<open>io.Copy\<close>, the change of
  mode). A process that is interrupted leaves one of them behind.
\<close>

fun write_chunks_states :: "filesys \<Rightarrow> path \<Rightarrow> string list \<Rightarrow> filesys list" where
  "write_chunks_states w p [] = []"
| "write_chunks_states w p (c # cs) =
     (case file_Write w p c of
        Inl err \<Rightarrow> []
      | Inr w' \<Rightarrow> w' # write_chunks_states w' p cs)"

definition opened_states :: "filesys \<Rightarrow> path \<Rightarrow> path \<Rightarrow> filesys list" where
  "opened_states w2 src dst =
     w2 # (case read_all w2 src of
        Inl err \<Rightarrow> []
      | Inr bytes \<Rightarrow>
          write_chunks_states w2 dst (chunks copy_buffer_size bytes)
          @ (case write_chunks w2 dst (chunks copy_buffer_size bytes) of
               (Some err, w3) \<Rightarrow> []
             | (None, w3) \<Rightarrow>
                 (case os_Stat w3 src of
                    Inl err \<Rightarrow> []
                  | Inr srcInfo \<Rightarrow>
                      (case os_Chmod w3 dst (fi_Mode srcInfo) of
                         Inl err \<Rightarrow> []
                       | Inr w4 \<Rightarrow> [w4]))))"

definition copyFile_states :: "filesys \<Rightarrow> path \<Rightarrow> path \<Rightarrow> filesys list" where
  "copyFile_states w src dst =
     w # (case os_MkdirAll w (filepath_Dir dst) 493 of
        Inl err \<Rightarrow> []
      | Inr w1 \<Rightarrow>
          w1 # (case os_Open w1 src of
             Inl err \<Rightarrow> []
           | Inr srcFile \<Rightarrow>
               (case os_Create w1 dst of
                  Inl err \<Rightarrow> []
                | Inr w2 \<Rightarrow> opened_states w2 src dst)))"
section \<open>Example states\<close>

definition demo_platform :: platform where
  "demo_platform =
     \<lparr> sha256_hex = (\<lambda>bytes. ''0123456789abcdef''),
       time_Format = (\<lambda>layout t. ''20240101_000000''),
       os_ExpandEnv = (\<lambda>p. p),
       os_UserHomeDir = Some [''home'', ''u''] \<rparr>"



definition demo_fs :: filesys where
  "demo_fs =
     \<lparr> nodes = [([''c''], Dir 0 493), ([''c'', ''Vim''], File ''old'' 3 420)],
       faults = {}, clock = 7, elapsed = 0, umask = 18 \<rparr>"

text \<open>A writer for \<^verbatim>\<open>c/Vim\<close> whose temporary file holds the new bytes.\<close>

definition demo_writer :: FileWriter where
  "demo_writer =
     \<lparr> targetPath = [''c'', ''Vim''], tempPath = [''c'', ''.Vim.tmp.ab''],
       tempFile = Some [''c'', ''.Vim.tmp.ab''], committed = False, permissions = 438 \<rparr>"

definition demo_fs_staged :: filesys where
  "demo_fs_staged =
     \<lparr> nodes = [([''c''], Dir 0 493), ([''c'', ''Vim''], File ''old'' 3 420),
                ([''c'', ''.Vim.tmp.ab''], File ''new'' 7 420)],
       faults = {}, clock = 7, elapsed = 0, umask = 18 \<rparr>"

definition demo_cache :: HashCache where
  "demo_cache =
     \<lparr> entries = [[''c'', ''Vim''] \<mapsto>
         \<lparr> cached_Hash = ''sha256:00'', cached_Size = 3, cached_ModTime = 3, CachedAt = 5 \<rparr>],
       maxAge = 3600 \<rparr>"




definition sync_platform :: platform where
  "sync_platform = demo_platform\<lparr> sha256_hex := (\<lambda>bytes. bytes) \<rparr>"

definition demo_config :: LocalConfig where
  "demo_config =
     \<lparr> CloudSyncDir = [''t'', ''cloud''], CurrentComputer = ''h1'', LastSyncTimes = Map.empty,
       GitMode = False, GitRepoRoot = [] \<rparr>"

definition demo_engine :: SyncEngine where
  "demo_engine = NewSyncEngine [''cfg''] demo_config"

definition demo_local :: path where
  "demo_local = [''t'', ''local'', ''vimrc'']"

definition demo_cloud :: path where
  "demo_cloud = [''t'', ''cloud'', ''configs'', ''Vim'']"

definition demo_item :: SyncItem where
  "demo_item =
     \<lparr> Name = ''Vim'', Type = ''file'', Paths = [''h1'' \<mapsto> demo_local], ExcludePatterns = [] \<rparr>"

definition demo_dirs :: "(path \<times> node) list" where
  "demo_dirs =
     [([''t''], Dir 0 493), ([''t'', ''local''], Dir 0 493), ([''t'', ''cloud''], Dir 0 493),
      ([''t'', ''cloud'', ''configs''], Dir 0 493), ([''cfg''], Dir 0 493)]"

text \<open>Scenario D: both sides edited after the last sync, with equal modification times.\<close>

definition conflict_world :: sync_world where
  "conflict_world =
     \<lparr> sw_fs = \<lparr> nodes = demo_dirs @ [(demo_local, File ''set ts=8'' 5 420),
                                       (demo_cloud, File ''set ts=2'' 5 420)],
                 faults = {}, clock = 9, elapsed = 0, umask = 18 \<rparr>,
       sw_fileStates = Some \<lparr> States = [''Vim'' \<mapsto> [demo_local \<mapsto>
           \<lparr> LocalHash = ''sha256:set ts=4'', state_ModTime = ''T'', state_Size = 8,
             LastChecked = ''T'' \<rparr>]] \<rparr>,
       sw_fileMetadata = Some \<lparr> Metadata = [''Vim'' \<mapsto> [demo_local \<mapsto>
           \<lparr> Computers = Some Map.empty, CloudHash = ''sha256:set ts=4'', CloudModTime = ''T'',
             LastUpdated = ''T'', UpdatedBy = ''h1'' \<rparr>]] \<rparr>,
       sw_gitNotes = None \<rparr>"

text \<open>The same state with the local file edited one tick after the cloud file.\<close>

definition conflict_world_local_newer :: sync_world where
  "conflict_world_local_newer =
     conflict_world\<lparr> sw_fs := (sw_fs conflict_world)\<lparr> nodes :=
        demo_dirs @ [(demo_local, File ''set ts=8'' 6 420),
                     (demo_cloud, File ''set ts=2'' 5 420)] \<rparr> \<rparr>"

text \<open>Scenario A: the local file exists, nothing is in the cloud, nothing is recorded.\<close>

definition first_push_world :: sync_world where
  "first_push_world =
     \<lparr> sw_fs = \<lparr> nodes = demo_dirs @ [(demo_local, File ''set ts=4'' 3 420)],
                 faults = {}, clock = 9, elapsed = 0, umask = 18 \<rparr>,
       sw_fileStates = None, sw_fileMetadata = None, sw_gitNotes = None \<rparr>"



text \<open>Scenario D with a cloud target that can be opened but not written.\<close>

definition write_fault_world :: sync_world where
  "write_fault_world =
     conflict_world\<lparr> sw_fs := (sw_fs conflict_world)\<lparr> faults := {(OpWrite, demo_cloud)} \<rparr> \<rparr>"


text \<open>A path below the local file of the examples.\<close>

definition below_local :: path where
  "below_local = [''t'', ''local'', ''vimrc'', ''colors'']"

text \<open>
  The local file has been pushed and recorded from this computer; since then the cloud
  copy has been removed.
\<close>

definition cloud_removed_world :: sync_world where
  "cloud_removed_world =
     \<lparr> sw_fs = \<lparr> nodes = demo_dirs @ [(demo_local, File ''set ts=4'' 3 420)],
                 faults = {}, clock = 9, elapsed = 0, umask = 18 \<rparr>,
       sw_fileStates = Some \<lparr> States = [''Vim'' \<mapsto> [demo_local \<mapsto>
           \<lparr> LocalHash = ''sha256:set ts=4'', state_ModTime = ''T'', state_Size = 8,
             LastChecked = ''T'' \<rparr>]] \<rparr>,
       sw_fileMetadata = Some \<lparr> Metadata = [''Vim'' \<mapsto> [demo_local \<mapsto>
           \<lparr> Computers = Some Map.empty, CloudHash = ''sha256:set ts=4'', CloudModTime = ''T'',
             LastUpdated = ''T'', UpdatedBy = ''h1'' \<rparr>]] \<rparr>,
       sw_gitNotes = None \<rparr>"

text \<open>
  The local file is as this computer recorded it; the cloud file holds other bytes and
  the shared metadata records the hash of these bytes as the cloud hash.
\<close>

definition cloud_recorded_world :: sync_world where
  "cloud_recorded_world =
     \<lparr> sw_fs = \<lparr> nodes = demo_dirs @ [(demo_local, File ''set ts=4'' 3 420),
                                       (demo_cloud, File ''set ts=2'' 6 420)],
                 faults = {}, clock = 9, elapsed = 0, umask = 18 \<rparr>,
       sw_fileStates = Some \<lparr> States = [''Vim'' \<mapsto> [demo_local \<mapsto>
           \<lparr> LocalHash = ''sha256:set ts=4'', state_ModTime = ''T'', state_Size = 8,
             LastChecked = ''T'' \<rparr>]] \<rparr>,
       sw_fileMetadata = Some \<lparr> Metadata = [''Vim'' \<mapsto> [demo_local \<mapsto>
           \<lparr> Computers = Some Map.empty, CloudHash = ''sha256:set ts=2'', CloudModTime = ''T'',
             LastUpdated = ''T'', UpdatedBy = ''h2'' \<rparr>]] \<rparr>,
       sw_gitNotes = None \<rparr>"

section \<open>Unfolding sets for evaluation on concrete states\<close>

lemmas fs_defs = absent_errno_def created_mode_def later_def lookup_def put_def del_def is_dir_def is_file_def has_children_def
  os_Stat_def os_Open_def read_all_def os_MkdirAll_def os_Create_def os_OpenFile_excl_def
  file_Write_def file_Sync_def file_Close_def os_Chmod_def os_Remove_def os_Rename_def
  filepath_Dir_def filepath_Base_def filepath_Join_def PathExists_def io_Copy_def
  copy_buffer_size_def os_ReadDir_def doc_PathExists_def doc_ReadFile_def doc_WriteFile_def

lemmas cache_defs = Get_def Set_def GetOrCalculate_def calculateFileHash_def time_Since_def
  time_Sub_def maxDuration_def minDuration_def validity_predicate_def

lemmas atomic_defs = generateTempPath_def atomic_write_error_def NewFileWriter_def Write_def
  Rollback_def Commit_def Close_def WriteFileAtomic_def



lemmas config_defs = CalculateFileHash_def GetCloudConfigsPath_def GetFileMetadataPath_def
  ExpandPath_def GetCurrentComputerPath_def UpdateFileState_def GetFileState_def
  empty_FileMetadata_def UpdateFileMetadata_def NewFileStatesData_def NewFileMetadataData_def
  RFC3339_def GetCloudPath_def safeName_def ReplaceAll_def

lemmas sync_defs = NewSyncEngine_def new_result_def warn_def git_mode_def loadFileStates_def
  SaveFileStatesData_def loadCloudMetadata_def SaveFileMetadataDataGitAware_def
  updateFileMetadata_def updateCloudHash_def isFileChanged_def copyFile_def
  call_gitCallback_def copyOperation_def run_copyOperation_def push_metadata_def
  pull_metadata_def pushItem_def pullItem_def recorded_CloudHash_def smartSyncFile_def
  smartSyncDirectory_def smartSyncItem_def SyncEngine_SyncItem_def SyncAll_def

lemmas demo_sync_defs = sync_platform_def demo_platform_def demo_config_def demo_engine_def
  demo_local_def demo_cloud_def demo_item_def demo_dirs_def below_local_def

section \<open>Properties of the name validator and of the slug\<close>

lemma allowed_class_not_slash: "allowed_class c \<Longrightarrow> c \<noteq> CHR ''/''"
  by (auto simp: allowed_class_def ascii_letter_def ascii_digit_def regexp_space_def Let_def)

lemma ValidateName_accepted_class:
  assumes "ValidateName NewNameValidator name = None"
  shows "name \<noteq> [] \<and> list_all allowed_class name"
  using assms
  by (simp add: ValidateName_def NewNameValidator_def allowedChars_MatchString_def
      split: if_splits)

lemma ValidateName_accepted_no_slash:
  assumes "ValidateName NewNameValidator name = None"
  shows "CHR ''/'' \<notin> set name"
proof
  assume "CHR ''/'' \<in> set name"
  moreover have "list_all allowed_class name"
    using ValidateName_accepted_class [OF assms] by simp
  ultimately have "allowed_class (CHR ''/'')"
    by (simp add: list_all_iff)
  then show False
    using allowed_class_not_slash by blast
qed

lemma ReplaceAll_absent: "old \<notin> set s \<Longrightarrow> ReplaceAll s old new = s"
  by (induction s) (auto simp: ReplaceAll_def)

lemma ReplaceAll_inj_fresh:
  assumes "new \<notin> set s" "new \<notin> set t" "ReplaceAll s old new = ReplaceAll t old new"
  shows "s = t"
  using assms
proof (induction s arbitrary: t)
  case Nil
  then show ?case by (simp add: ReplaceAll_def)
next
  case (Cons a s)
  then obtain b t' where t: "t = b # t'"
    by (cases t) (auto simp: ReplaceAll_def)
  from Cons.prems t have hd_eq: "(if a = old then new else a) = (if b = old then new else b)"
    and tl_eq: "ReplaceAll s old new = ReplaceAll t' old new"
    by (simp_all add: ReplaceAll_def)
  from Cons.prems t have fresh: "a \<noteq> new" "b \<noteq> new" "new \<notin> set s" "new \<notin> set t'"
    by auto
  from hd_eq fresh have "a = b"
    by (auto split: if_splits)
  moreover from Cons.IH [OF fresh(3) fresh(4) tl_eq] have "s = t'" .
  ultimately show ?case using t by simp
qed

text \<open>
  C9. The validator is meant to admit letters, digits, spaces, hyphens, underscores and
  dots only, but its pattern uses the class \<^verbatim>\<open>\s\<close>: a name with a tab between two
  letters contains a character outside the documented set and is accepted.
\<close>

theorem ValidateName_accepts_inner_tab:
  "ValidateName NewNameValidator [CHR ''a'', CHR 0x09, CHR ''b''] = None"
  by (simp add: ValidateName_def NewNameValidator_def allowedChars_MatchString_def
      allowed_class_def ascii_letter_def ascii_digit_def regexp_space_def
      TrimSpace_def is_ascii_space_def ToUpper_def to_upper_char_def Let_def)

text \<open>
  C8, as stated, fails: the names \<open>a b\<close> and \<open>a-b\<close> are distinct, both pass the
  validator, both can be added to one registry, and they have the same slug and the
  same cloud path.
\<close>

theorem slug_collision_space_hyphen:
  "ValidateName NewNameValidator ''a b'' = None
   \<and> ValidateName NewNameValidator ''a-b'' = None
   \<and> ''a b'' \<noteq> ''a-b''
   \<and> AddSyncItem NewSyncItemsData ''a b'' ''file'' Map.empty [] =
       Inr [\<lparr> Name = ''a b'', Type = ''file'', Paths = Map.empty, ExcludePatterns = [] \<rparr>]
   \<and> AddSyncItem [\<lparr> Name = ''a b'', Type = ''file'', Paths = Map.empty, ExcludePatterns = [] \<rparr>]
         ''a-b'' ''file'' Map.empty [] =
       Inr [\<lparr> Name = ''a b'', Type = ''file'', Paths = Map.empty, ExcludePatterns = [] \<rparr>,
            \<lparr> Name = ''a-b'', Type = ''file'', Paths = Map.empty, ExcludePatterns = [] \<rparr>]
   \<and> safeName ''a b'' = safeName ''a-b''
   \<and> GetCloudPath \<lparr> Name = ''a b'', Type = ''file'', Paths = Map.empty, ExcludePatterns = [] \<rparr>
         [''cloud'', ''configs''] =
       GetCloudPath \<lparr> Name = ''a-b'', Type = ''file'', Paths = Map.empty, ExcludePatterns = [] \<rparr>
         [''cloud'', ''configs'']"
  by (simp add: ValidateName_def NewNameValidator_def allowedChars_MatchString_def
      allowed_class_def ascii_letter_def ascii_digit_def regexp_space_def
      TrimSpace_def is_ascii_space_def ToUpper_def to_upper_char_def Let_def
      AddSyncItem_def NewSyncItemsData_def safeName_def ReplaceAll_def GetCloudPath_def
      filepath_Join_def)

lemma safeName_accepted:
  assumes "ValidateName NewNameValidator name = None"
  shows "safeName name = ReplaceAll name (CHR '' '') (CHR ''-'')"
proof -
  have "CHR ''/'' \<notin> set (ReplaceAll name (CHR '' '') (CHR ''-''))"
    using ValidateName_accepted_no_slash [OF assms] by (auto simp: ReplaceAll_def)
  then show ?thesis
    by (simp add: safeName_def ReplaceAll_absent)
qed

lemma ReplaceAll_eq_iff:
  "ReplaceAll s old new = ReplaceAll t old new \<longleftrightarrow>
     list_all2 (\<lambda>x y. x = y \<or> (x = old \<or> x = new) \<and> (y = old \<or> y = new)) s t"
proof (induction s arbitrary: t)
  case Nil
  then show ?case by (auto simp: ReplaceAll_def)
next
  case (Cons a s)
  show ?case
  proof (cases t)
    case Nil
    then show ?thesis by (simp add: ReplaceAll_def)
  next
    case (Cons b t')
    with Cons.IH [of t'] show ?thesis
      by (auto simp: ReplaceAll_def)
  qed
qed

lemma TrimSpace_fixed_ends:
  assumes "TrimSpace s = s" and "s \<noteq> []"
  shows "\<not> is_ascii_space (hd s) \<and> \<not> is_ascii_space (last s)"
proof -
  let ?P = is_ascii_space
  have "length (dropWhile ?P (rev (dropWhile ?P s))) \<le> length (rev (dropWhile ?P s))"
    by (rule length_dropWhile_le)
  then have len: "length (TrimSpace s) \<le> length (dropWhile ?P s)"
    by (simp add: TrimSpace_def)
  have front: "\<not> ?P (hd s)"
  proof
    assume sp: "?P (hd s)"
    from assms(2) obtain x xs where s: "s = x # xs" by (cases s) auto
    with sp have "length (dropWhile ?P s) \<le> length xs"
      by (simp add: length_dropWhile_le)
    with len s assms(1) show False by simp
  qed
  then have "dropWhile ?P s = s"
    by (simp add: dropWhile_eq_self_iff)
  with assms(1) have "dropWhile ?P (rev s) = rev s"
    by (metis TrimSpace_def rev_rev_ident)
  with assms(2) have "\<not> ?P (hd (rev s))"
    by (simp add: dropWhile_eq_self_iff)
  with assms(2) front show ?thesis
    by (simp add: hd_rev)
qed

lemma TrimSpace_fixed:
  assumes "\<not> is_ascii_space (hd s)" and "\<not> is_ascii_space (last s)"
  shows "TrimSpace s = s"
proof (cases "s = []")
  case True
  then show ?thesis by (simp add: TrimSpace_def)
next
  case False
  from assms(1) have "dropWhile is_ascii_space s = s"
    by (simp add: dropWhile_eq_self_iff)
  moreover from assms(2) False have "dropWhile is_ascii_space (rev s) = rev s"
    by (simp add: dropWhile_eq_self_iff hd_rev)
  ultimately show ?thesis by (simp add: TrimSpace_def)
qed

lemma Contains_subset: "Contains s sub \<Longrightarrow> set sub \<subseteq> set s"
proof (induction s)
  case Nil
  then show ?case by simp
next
  case (Cons c cs)
  from Cons.prems have "take (length sub) (c # cs) = sub \<or> Contains cs sub" by simp
  then show ?case
  proof
    assume "take (length sub) (c # cs) = sub"
    then have "set sub = set (take (length sub) (c # cs))" by simp
    then show ?thesis using set_take_subset by metis
  next
    assume "Contains cs sub"
    with Cons.IH show ?thesis by auto
  qed
qed

lemma reserved_without_hyphen:
  "r \<in> set (reservedNames NewNameValidator) \<Longrightarrow> CHR ''-'' \<notin> set r"
  by (auto simp: NewNameValidator_def)

text \<open>
  A name with its spaces turned into hyphens is accepted whenever the name is.
\<close>

lemma ValidateName_hyphenated:
  assumes ok: "ValidateName NewNameValidator name = None" and sp: "CHR '' '' \<in> set name"
  shows "ValidateName NewNameValidator (ReplaceAll name (CHR '' '') (CHR ''-'')) = None"
proof -
  let ?c = "ReplaceAll name (CHR '' '') (CHR ''-'')"
  from ok have ne: "name \<noteq> []" and len: "length name \<le> 100"
    and cls: "list_all allowed_class name" and trim: "TrimSpace name = name"
    by (simp_all add: ValidateName_def NewNameValidator_def allowedChars_MatchString_def
        split: if_splits)
  have c_ne: "?c \<noteq> []" using ne by (simp add: ReplaceAll_def)
  have c_len: "length ?c \<le> 100" using len by (simp add: ReplaceAll_def)
  have c_cls: "list_all allowed_class ?c"
    using cls by (auto simp: ReplaceAll_def list_all_iff allowed_class_def)
  from TrimSpace_fixed_ends [OF trim ne]
  have ends: "\<not> is_ascii_space (hd name)" "\<not> is_ascii_space (last name)" by simp_all
  then have "hd name \<noteq> CHR '' ''" "last name \<noteq> CHR '' ''"
    by (auto simp: is_ascii_space_def)
  with ne have "hd ?c = hd name" "last ?c = last name"
    by (simp_all add: ReplaceAll_def hd_map last_map)
  with ends have c_trim: "TrimSpace ?c = ?c"
    by (simp add: TrimSpace_fixed)
  from sp have hy: "CHR ''-'' \<in> set ?c"
    by (auto simp: ReplaceAll_def)
  have up: "to_upper_char (CHR ''-'') = CHR ''-''"
    by (simp add: to_upper_char_def)
  from hy have "CHR ''-'' \<in> set (ToUpper ?c)"
    using up by (force simp: ToUpper_def)
  then have c_res: "ToUpper ?c \<notin> set (reservedNames NewNameValidator)"
    using reserved_without_hyphen by blast
  have "CHR '' '' \<notin> set ?c"
    by (auto simp: ReplaceAll_def)
  then have c_two: "\<not> Contains ?c ''  ''"
    using Contains_subset [of ?c "''  ''"] by auto
  from c_ne c_len c_cls c_trim c_res c_two show ?thesis
    by (simp add: ValidateName_def NewNameValidator_def allowedChars_MatchString_def)
qed

text \<open>
  C8, amended. The slug is injective on the accepted names exactly up to the exchange of
  spaces and hyphens: two accepted names have the same slug if and only if they have
  the same length and differ only at positions where each of them has a space or a
  hyphen. So the slug is injective on the accepted names without a space (on these it
  is the identity) and on the accepted names without a hyphen. Every accepted name
  with a space collides: the name with hyphens in place of its spaces is another
  accepted name with the same slug, and a registry that holds neither name takes both,
  one after the other.
\<close>

theorem safeName_equal_iff:
  assumes a: "ValidateName NewNameValidator a = None"
    and b: "ValidateName NewNameValidator b = None"
  shows "(safeName a = safeName b \<longleftrightarrow>
            list_all2 (\<lambda>x y. x = y \<or> (x = CHR '' '' \<or> x = CHR ''-'') \<and> (y = CHR '' '' \<or> y = CHR ''-''))
              a b)
    \<and> (CHR '' '' \<notin> set a \<longrightarrow> safeName a = a)
    \<and> (CHR '' '' \<notin> set a \<and> CHR '' '' \<notin> set b \<longrightarrow> (safeName a = safeName b \<longleftrightarrow> a = b))
    \<and> (CHR ''-'' \<notin> set a \<and> CHR ''-'' \<notin> set b \<longrightarrow> (safeName a = safeName b \<longleftrightarrow> a = b))
    \<and> (CHR '' '' \<in> set a \<longrightarrow>
          ValidateName NewNameValidator (ReplaceAll a (CHR '' '') (CHR ''-'')) = None
          \<and> ReplaceAll a (CHR '' '') (CHR ''-'') \<noteq> a
          \<and> safeName (ReplaceAll a (CHR '' '') (CHR ''-'')) = safeName a
          \<and> (\<not> list_ex (\<lambda>item. Name item = a
                                 \<or> Name item = ReplaceAll a (CHR '' '') (CHR ''-'')) s \<longrightarrow>
               AddSyncItem s a ty ps ex
                 = Inr (s @ [\<lparr> Name = a, Type = ty, Paths = ps, ExcludePatterns = ex \<rparr>])
               \<and> AddSyncItem
                   (s @ [\<lparr> Name = a, Type = ty, Paths = ps, ExcludePatterns = ex \<rparr>])
                   (ReplaceAll a (CHR '' '') (CHR ''-'')) ty ps ex
                 = Inr (s @ [\<lparr> Name = a, Type = ty, Paths = ps, ExcludePatterns = ex \<rparr>,
                             \<lparr> Name = ReplaceAll a (CHR '' '') (CHR ''-''), Type = ty,
                               Paths = ps, ExcludePatterns = ex \<rparr>])))"
proof (intro conjI impI)
  show "safeName a = safeName b \<longleftrightarrow>
          list_all2 (\<lambda>x y. x = y \<or> (x = CHR '' '' \<or> x = CHR ''-'') \<and> (y = CHR '' '' \<or> y = CHR ''-''))
            a b"
    by (simp add: safeName_accepted [OF a] safeName_accepted [OF b] ReplaceAll_eq_iff)
next
  assume "CHR '' '' \<notin> set a"
  then show "safeName a = a"
    by (simp add: safeName_accepted [OF a] ReplaceAll_absent)
next
  assume "CHR '' '' \<notin> set a \<and> CHR '' '' \<notin> set b"
  then show "safeName a = safeName b \<longleftrightarrow> a = b"
    by (simp add: safeName_accepted [OF a] safeName_accepted [OF b] ReplaceAll_absent)
next
  assume "CHR ''-'' \<notin> set a \<and> CHR ''-'' \<notin> set b"
  then show "safeName a = safeName b \<longleftrightarrow> a = b"
    using ReplaceAll_inj_fresh [of "CHR ''-''" a b "CHR '' ''"]
    by (auto simp: safeName_accepted [OF a] safeName_accepted [OF b])
next
  assume sp: "CHR '' '' \<in> set a"
  show "ValidateName NewNameValidator (ReplaceAll a (CHR '' '') (CHR ''-'')) = None"
    by (rule ValidateName_hyphenated [OF a sp])
next
  assume sp: "CHR '' '' \<in> set a"
  have "CHR '' '' \<notin> set (ReplaceAll a (CHR '' '') (CHR ''-''))"
    by (auto simp: ReplaceAll_def)
  with sp show "ReplaceAll a (CHR '' '') (CHR ''-'') \<noteq> a" by metis
next
  assume sp: "CHR '' '' \<in> set a"
  show "safeName (ReplaceAll a (CHR '' '') (CHR ''-'')) = safeName a"
    by (simp add: safeName_def ReplaceAll_def)
next
  assume sp: "CHR '' '' \<in> set a"
    and free: "\<not> list_ex (\<lambda>item. Name item = a
                                 \<or> Name item = ReplaceAll a (CHR '' '') (CHR ''-'')) s"
  then show "AddSyncItem s a ty ps ex
      = Inr (s @ [\<lparr> Name = a, Type = ty, Paths = ps, ExcludePatterns = ex \<rparr>])"
    by (auto simp: AddSyncItem_def list_ex_iff)
next
  assume sp: "CHR '' '' \<in> set a"
    and free: "\<not> list_ex (\<lambda>item. Name item = a
                                 \<or> Name item = ReplaceAll a (CHR '' '') (CHR ''-'')) s"
  have "CHR '' '' \<notin> set (ReplaceAll a (CHR '' '') (CHR ''-''))"
    by (auto simp: ReplaceAll_def)
  with sp have "ReplaceAll a (CHR '' '') (CHR ''-'') \<noteq> a" by metis
  with free show "AddSyncItem
                   (s @ [\<lparr> Name = a, Type = ty, Paths = ps, ExcludePatterns = ex \<rparr>])
                   (ReplaceAll a (CHR '' '') (CHR ''-'')) ty ps ex
                 = Inr (s @ [\<lparr> Name = a, Type = ty, Paths = ps, ExcludePatterns = ex \<rparr>,
                             \<lparr> Name = ReplaceAll a (CHR '' '') (CHR ''-''), Type = ty,
                               Paths = ps, ExcludePatterns = ex \<rparr>])"
    by (auto simp: AddSyncItem_def list_ex_iff)
qed

theorem safeName_equal_iff_witness:
  "ValidateName NewNameValidator ''my vim'' = None
   \<and> ValidateName NewNameValidator ''my-zsh'' = None
   \<and> safeName ''my vim'' \<noteq> safeName ''my-zsh''
   \<and> safeName ''my-zsh'' = ''my-zsh''
   \<and> ValidateName NewNameValidator ''my-vim'' = None
   \<and> safeName ''my-vim'' = safeName ''my vim''
   \<and> AddSyncItem [] ''my vim'' ''file'' Map.empty []
       = Inr [\<lparr> Name = ''my vim'', Type = ''file'', Paths = Map.empty, ExcludePatterns = [] \<rparr>]
   \<and> AddSyncItem [\<lparr> Name = ''my vim'', Type = ''file'', Paths = Map.empty, ExcludePatterns = [] \<rparr>]
         ''my-vim'' ''file'' Map.empty []
       = Inr [\<lparr> Name = ''my vim'', Type = ''file'', Paths = Map.empty, ExcludePatterns = [] \<rparr>,
              \<lparr> Name = ''my-vim'', Type = ''file'', Paths = Map.empty, ExcludePatterns = [] \<rparr>]"
proof -
  have v1: "ValidateName NewNameValidator ''my vim'' = None"
    by (simp add: ValidateName_def NewNameValidator_def allowedChars_MatchString_def
        allowed_class_def ascii_letter_def ascii_digit_def regexp_space_def
        TrimSpace_def is_ascii_space_def ToUpper_def to_upper_char_def Let_def)
  have v2: "ValidateName NewNameValidator ''my-zsh'' = None"
    by (simp add: ValidateName_def NewNameValidator_def allowedChars_MatchString_def
        allowed_class_def ascii_letter_def ascii_digit_def regexp_space_def
        TrimSpace_def is_ascii_space_def ToUpper_def to_upper_char_def Let_def)
  have hy: "ReplaceAll ''my vim'' (CHR '' '') (CHR ''-'') = ''my-vim''"
    by (simp add: ReplaceAll_def)
  note one = safeName_equal_iff [OF v1 v2, where s = "[]" and ty = "''file''"
      and ps = Map.empty and ex = "[]"]
  note two = safeName_equal_iff [OF v2 v1, where s = "[]" and ty = "''file''"
      and ps = Map.empty and ex = "[]"]
  from one have d: "safeName ''my vim'' \<noteq> safeName ''my-zsh''" by simp
  from two have i: "safeName ''my-zsh'' = ''my-zsh''" by simp
  from one hy have c: "ValidateName NewNameValidator ''my-vim'' = None"
    "safeName ''my-vim'' = safeName ''my vim''"
    "AddSyncItem [] ''my vim'' ''file'' Map.empty []
       = Inr [\<lparr> Name = ''my vim'', Type = ''file'', Paths = Map.empty, ExcludePatterns = [] \<rparr>]"
    "AddSyncItem [\<lparr> Name = ''my vim'', Type = ''file'', Paths = Map.empty, ExcludePatterns = [] \<rparr>]
         ''my-vim'' ''file'' Map.empty []
       = Inr [\<lparr> Name = ''my vim'', Type = ''file'', Paths = Map.empty, ExcludePatterns = [] \<rparr>,
              \<lparr> Name = ''my-vim'', Type = ''file'', Paths = Map.empty, ExcludePatterns = [] \<rparr>]"
    by simp_all
  from v1 v2 d i c show ?thesis by simp
qed
section \<open>Properties of the file system operations\<close>

lemma lookup_put [simp]: "lookup (put w p n) q = (if q = p then Some n else lookup w q)"
  by (simp add: lookup_def put_def update_conv')

lemma lookup_del [simp]: "lookup (del w p) q = (if q = p then None else lookup w q)"
  by (simp add: lookup_def del_def delete_conv')

lemma faults_put [simp]: "faults (put w p n) = faults w"
  by (simp add: put_def)

lemma faults_del [simp]: "faults (del w p) = faults w"
  by (simp add: del_def)

lemma clock_put [simp]: "clock (put w p n) = clock w"
  by (simp add: put_def)

lemma clock_del [simp]: "clock (del w p) = clock w"
  by (simp add: del_def)

lemma umask_put [simp]: "umask (put w p n) = umask w"
  by (simp add: put_def)

lemma umask_del [simp]: "umask (del w p) = umask w"
  by (simp add: del_def)

lemma created_mode_put [simp]: "created_mode (put w p n) perm = created_mode w perm"
  by (simp add: created_mode_def)

lemma created_mode_del [simp]: "created_mode (del w p) perm = created_mode w perm"
  by (simp add: created_mode_def)

lemma mkdir_fold_lookup:
  "lookup (fold (\<lambda>q w'. if lookup w' q = None then put w' q d else w') qs w) p =
     (if p \<in> set qs \<and> lookup w p = None then Some d else lookup w p)"
  by (induction qs arbitrary: w) auto

lemma mkdir_fold_faults:
  "faults (fold (\<lambda>q w'. if lookup w' q = None then put w' q d else w') qs w) = faults w"
  by (induction qs arbitrary: w) auto

lemma mkdir_fold_clock:
  "clock (fold (\<lambda>q w'. if lookup w' q = None then put w' q d else w') qs w) = clock w"
  by (induction qs arbitrary: w) auto

lemma mkdir_fold_umask:
  "umask (fold (\<lambda>q w'. if lookup w' q = None then put w' q d else w') qs w) = umask w"
  by (induction qs arbitrary: w) auto

lemma os_MkdirAll_lookup:
  assumes "os_MkdirAll w p perm = Inr w'"
  shows "lookup w' q =
     (if q \<in> set (tl (prefixes p)) \<and> lookup w q = None
      then Some (Dir (clock w) (created_mode w perm))
      else lookup w q)"
  using assms by (auto simp: os_MkdirAll_def mkdir_fold_lookup split: if_splits)

lemma os_MkdirAll_keeps:
  assumes "os_MkdirAll w p perm = Inr w'" and "lookup w q = Some n"
  shows "lookup w' q = Some n"
  using assms by (simp add: os_MkdirAll_lookup)

lemma os_MkdirAll_faults: "os_MkdirAll w p perm = Inr w' \<Longrightarrow> faults w' = faults w"
  by (auto simp: os_MkdirAll_def mkdir_fold_faults split: if_splits)

lemma os_MkdirAll_clock: "os_MkdirAll w p perm = Inr w' \<Longrightarrow> clock w' = clock w"
  by (auto simp: os_MkdirAll_def mkdir_fold_clock split: if_splits)

lemma os_MkdirAll_umask: "os_MkdirAll w p perm = Inr w' \<Longrightarrow> umask w' = umask w"
  by (auto simp: os_MkdirAll_def mkdir_fold_umask split: if_splits)

lemma os_MkdirAll_created_mode:
  "os_MkdirAll w p perm = Inr w' \<Longrightarrow> created_mode w' m = created_mode w m"
  by (simp add: created_mode_def os_MkdirAll_umask)

lemma in_tl_prefixes: "q \<in> set (tl (prefixes p)) \<longleftrightarrow> prefix q p \<and> q \<noteq> []"
  by (cases p) (auto simp: in_set_prefixes prefix_Cons)

lemma chunks_Nil [simp]: "chunks n [] = []"
  by (simp add: chunks.simps)

lemma chunks_short: "xs \<noteq> [] \<Longrightarrow> length xs \<le> n \<Longrightarrow> chunks n xs = [xs]"
  by (cases "n = 0") (simp_all add: chunks.simps [of n xs])

lemma concat_chunks: "0 < n \<Longrightarrow> concat (chunks n xs) = xs"
proof (induction n xs rule: chunks.induct)
  case (1 n xs)
  show ?case
  proof (cases "xs = []")
    case True
    then show ?thesis by simp
  next
    case False
    with 1 have "concat (chunks n (drop n xs)) = drop n xs" by simp
    with False 1(2) show ?thesis
      by (simp add: chunks.simps [of n xs])
  qed
qed

lemma put_put [simp]: "put (put w p a) p b = put w p b"
  by (simp add: put_def)

lemma write_chunks_ok:
  assumes "write_chunks w p cs = (None, w')" and "lookup w p = Some (File c t m)"
  shows "w' = (if cs = [] then w else put w p (File (c @ concat cs) (clock w) m))"
  using assms
proof (induction cs arbitrary: w c t)
  case Nil
  then show ?case by simp
next
  case (Cons a cs)
  from Cons.prems obtain w1 where w1: "file_Write w p a = Inr w1"
    and rest: "write_chunks w1 p cs = (None, w')"
    by (auto split: sum.splits)
  from w1 Cons.prems(2) have e: "w1 = put w p (File (c @ a) (clock w) m)"
    by (auto simp: file_Write_def split: if_splits)
  then have l: "lookup w1 p = Some (File (c @ a) (clock w) m)" by simp
  from Cons.IH [OF rest l] e show ?case by simp
qed

lemma write_chunks_frame:
  assumes "write_chunks w p cs = (r, w')" and "q \<noteq> p"
  shows "lookup w' q = lookup w q"
  using assms
proof (induction cs arbitrary: w)
  case Nil
  then show ?case by simp
next
  case (Cons a cs)
  show ?case
  proof (cases "file_Write w p a")
    case (Inl err)
    with Cons.prems show ?thesis by simp
  next
    case (Inr w1)
    then have "lookup w1 q = lookup w q"
      using Cons.prems(2)
      by (auto simp: file_Write_def split: if_splits option.splits node.splits)
    moreover from Cons.prems Inr have "write_chunks w1 p cs = (r, w')" by simp
    ultimately show ?thesis using Cons.IH Cons.prems(2) by simp
  qed
qed

section \<open>Properties of the hash cache\<close>

text \<open>
  A Go \<^verbatim>\<open>Duration\<close> saturates at the ends of the 64-bit range; inside the range
  \<open>time_Sub\<close> is the difference of the two instants.
\<close>

lemma time_Sub_exact:
  "minDuration \<le> t - u \<Longrightarrow> t - u \<le> maxDuration \<Longrightarrow> time_Sub t u = t - u"
  by (simp add: time_Sub_def Let_def)

lemma time_Sub_le_iff:
  assumes "minDuration \<le> a" "a < maxDuration"
  shows "time_Sub t u \<le> a \<longleftrightarrow> t - u \<le> a"
  using assms by (auto simp: time_Sub_def Let_def)

lemma Get_Some_iff:
  "Get hc w p = Some h \<longleftrightarrow>
     (case entries hc p of None \<Rightarrow> False
      | Some e \<Rightarrow> cached_Hash e = h \<and> validity_predicate hc w p e)"
  by (auto simp: Get_def validity_predicate_def time_Since_def split: option.splits sum.splits)

lemma lookup_later [simp]: "lookup (later w) p = lookup w p"
  by (simp add: later_def lookup_def)

lemma faults_later [simp]: "faults (later w) = faults w"
  by (simp add: later_def)

lemma GetOrCalculate_file:
  assumes miss: "Get hc w p = None" and node: "lookup w p = Some (File bytes t m)"
  shows "GetOrCalculate pf hc w p =
     (if (OpOpen, p) \<in> faults w then (Inl (PathError OpOpen p EIO), hc)
      else if (OpRead, p) \<in> faults w then (Inl (PathError OpRead p EIO), hc)
      else if (OpStat, p) \<in> faults w then (Inl (PathError OpStat p EIO), hc)
      else (Inr (''sha256:'' @ sha256_hex pf bytes),
            Set hc (later w) p (''sha256:'' @ sha256_hex pf bytes) (int (length bytes)) t))"
  using assms
  by (simp add: GetOrCalculate_def calculateFileHash_def os_Open_def read_all_def os_Stat_def)

lemma GetOrCalculate_no_file:
  assumes miss: "Get hc w p = None" and node: "\<forall>bytes t m. lookup w p \<noteq> Some (File bytes t m)"
  shows "\<exists>err. GetOrCalculate pf hc w p = (Inl err, hc)"
proof (cases "lookup w p")
  case None
  with miss show ?thesis
    by (simp add: GetOrCalculate_def calculateFileHash_def os_Open_def)
next
  case (Some n)
  with node obtain t m where "n = Dir t m" by (cases n) auto
  with Some miss show ?thesis
    by (simp add: GetOrCalculate_def calculateFileHash_def os_Open_def read_all_def)
qed

lemma Get_after_Set:
  assumes "lookup w p = Some (File bytes t m)" and "(OpStat, p) \<notin> faults w"
    and "0 \<le> elapsed w" and "0 \<le> maxAge hc"
  shows "Get (Set hc (later w) p h (int (length bytes)) t) (later w) p = Some h"
  using assms
  by (simp add: Get_def Set_def time_Since_def time_Sub_def maxDuration_def minDuration_def
      os_Stat_def Let_def)

text \<open>
  C5. \<open>Get\<close> returns a cached hash exactly when the entry for the path exists and
  its validity predicate holds: the age that \<^verbatim>\<open>time.Since\<close> computes from \<open>CachedAt\<close>
  is at most \<open>maxAge\<close> and the current stat of the path reports the recorded size and
  modification time. Then \<open>GetOrCalculate\<close> returns that hash and leaves the cache as
  it is. In every other case \<open>Get\<close> returns nothing and \<open>GetOrCalculate\<close> computes the
  hash again from the file: for a regular file that can be opened, read and statted
  it returns \<^verbatim>\<open>sha256:\<close> followed by the SHA-256 of the bytes of the file and stores
  it with the size and modification time of the file, so that (for a \<open>maxAge\<close> that is
  not negative) \<open>Get\<close> returns this hash from then on; when open, read or stat fail, or
  the path is not a regular file, it returns an error and leaves the cache as it is.
\<close>

theorem HashCache_Get_iff_valid:
  "(Get hc w p = Some h \<longleftrightarrow>
      (case entries hc p of None \<Rightarrow> False
       | Some e \<Rightarrow> cached_Hash e = h \<and> validity_predicate hc w p e))
   \<and> (Get hc w p = Some h \<longrightarrow> GetOrCalculate pf hc w p = (Inr h, hc))
   \<and> (Get hc w p = None \<longrightarrow>
        (case lookup w p of
           Some (File bytes t m) \<Rightarrow>
             GetOrCalculate pf hc w p =
               (if (OpOpen, p) \<in> faults w then (Inl (PathError OpOpen p EIO), hc)
                else if (OpRead, p) \<in> faults w then (Inl (PathError OpRead p EIO), hc)
                else if (OpStat, p) \<in> faults w then (Inl (PathError OpStat p EIO), hc)
                else (Inr (''sha256:'' @ sha256_hex pf bytes),
                      Set hc (later w) p (''sha256:'' @ sha256_hex pf bytes)
                        (int (length bytes)) t))
             \<and> (0 \<le> elapsed w \<and> 0 \<le> maxAge hc \<and> (OpStat, p) \<notin> faults w \<longrightarrow>
                  Get (Set hc (later w) p (''sha256:'' @ sha256_hex pf bytes)
                         (int (length bytes)) t) (later w) p
                    = Some (''sha256:'' @ sha256_hex pf bytes))
         | _ \<Rightarrow> (\<exists>err. GetOrCalculate pf hc w p = (Inl err, hc))))"
proof (intro conjI impI)
  show "Get hc w p = Some h \<longleftrightarrow>
      (case entries hc p of None \<Rightarrow> False
       | Some e \<Rightarrow> cached_Hash e = h \<and> validity_predicate hc w p e)"
    by (rule Get_Some_iff)
next
  assume "Get hc w p = Some h"
  then show "GetOrCalculate pf hc w p = (Inr h, hc)"
    by (simp add: GetOrCalculate_def)
next
  assume miss: "Get hc w p = None"
  show "case lookup w p of
           Some (File bytes t m) \<Rightarrow>
             GetOrCalculate pf hc w p =
               (if (OpOpen, p) \<in> faults w then (Inl (PathError OpOpen p EIO), hc)
                else if (OpRead, p) \<in> faults w then (Inl (PathError OpRead p EIO), hc)
                else if (OpStat, p) \<in> faults w then (Inl (PathError OpStat p EIO), hc)
                else (Inr (''sha256:'' @ sha256_hex pf bytes),
                      Set hc (later w) p (''sha256:'' @ sha256_hex pf bytes)
                        (int (length bytes)) t))
             \<and> (0 \<le> elapsed w \<and> 0 \<le> maxAge hc \<and> (OpStat, p) \<notin> faults w \<longrightarrow>
                  Get (Set hc (later w) p (''sha256:'' @ sha256_hex pf bytes)
                         (int (length bytes)) t) (later w) p
                    = Some (''sha256:'' @ sha256_hex pf bytes))
         | _ \<Rightarrow> (\<exists>err. GetOrCalculate pf hc w p = (Inl err, hc))"
  proof (cases "lookup w p")
    case None
    with GetOrCalculate_no_file [OF miss, of pf] show ?thesis by simp
  next
    case (Some n)
    show ?thesis
    proof (cases n)
      case (File bytes t m)
      with Some GetOrCalculate_file [OF miss, of bytes t m pf]
        Get_after_Set [of w p bytes t m hc "''sha256:'' @ sha256_hex pf bytes"]
      show ?thesis by simp
    next
      case (Dir t m)
      with Some GetOrCalculate_no_file [OF miss, of pf] show ?thesis by simp
    qed
  qed
qed

theorem HashCache_Get_iff_valid_witness:
  "Get demo_cache demo_fs [''c'', ''Vim''] = Some ''sha256:00''
   \<and> GetOrCalculate sync_platform demo_cache demo_fs [''c'', ''Vim''] =
       (Inr ''sha256:00'', demo_cache)
   \<and> Get demo_cache (demo_fs\<lparr> clock := 9000 \<rparr>) [''c'', ''Vim''] = None
   \<and> GetOrCalculate sync_platform demo_cache (demo_fs\<lparr> clock := 9000 \<rparr>) [''c'', ''Vim''] =
       (Inr ''sha256:old'',
        demo_cache\<lparr> entries := (entries demo_cache)([''c'', ''Vim''] \<mapsto>
          \<lparr> cached_Hash = ''sha256:old'', cached_Size = 3, cached_ModTime = 3,
            CachedAt = 9000 \<rparr>) \<rparr>)
   \<and> Get (snd (GetOrCalculate sync_platform demo_cache (demo_fs\<lparr> clock := 9000 \<rparr>)
              [''c'', ''Vim'']))
         (demo_fs\<lparr> clock := 9000 \<rparr>) [''c'', ''Vim'']
       = Some ''sha256:old''"
proof -
  let ?p = "[''c'', ''Vim'']"
  let ?late = "demo_fs\<lparr> clock := 9000 \<rparr>"
  have valid: "case entries demo_cache ?p of None \<Rightarrow> False
      | Some e \<Rightarrow> cached_Hash e = ''sha256:00'' \<and> validity_predicate demo_cache demo_fs ?p e"
    by (simp add: demo_cache_def demo_fs_def cache_defs fs_defs)
  have stale: "\<not> (case entries demo_cache ?p of None \<Rightarrow> False
      | Some e \<Rightarrow> cached_Hash e = h \<and> validity_predicate demo_cache ?late ?p e)" for h
    by (simp add: demo_cache_def demo_fs_def cache_defs fs_defs)
  note hit = HashCache_Get_iff_valid [where hc = demo_cache and w = demo_fs and p = ?p
      and h = "''sha256:00''" and pf = sync_platform]
  from hit valid have g1: "Get demo_cache demo_fs ?p = Some ''sha256:00''"
    by blast
  with hit have g2: "GetOrCalculate sync_platform demo_cache demo_fs ?p =
       (Inr ''sha256:00'', demo_cache)"
    by blast
  have g3: "Get demo_cache ?late ?p = None"
  proof (cases "Get demo_cache ?late ?p")
    case None
    then show ?thesis .
  next
    case (Some h)
    with HashCache_Get_iff_valid [where hc = demo_cache and w = ?late and p = ?p
      and h = h and pf = sync_platform] stale [of h]
    show ?thesis by blast
  qed
  have node: "lookup ?late ?p = Some (File ''old'' 3 420)"
    by (simp add: demo_fs_def fs_defs)
  have env: "faults ?late = {}" "elapsed ?late = 0" "maxAge demo_cache = 3600"
    "later ?late = ?late"
    by (simp_all add: demo_fs_def demo_cache_def later_def)
  have sha: "sha256_hex sync_platform ''old'' = ''old''"
    by (simp add: sync_platform_def)
  note miss = HashCache_Get_iff_valid [where hc = demo_cache and w = ?late and p = ?p
      and h = "''x''" and pf = sync_platform]
  from miss g3 node env sha
  have g4: "GetOrCalculate sync_platform demo_cache ?late ?p =
       (Inr ''sha256:old'', Set demo_cache ?late ?p ''sha256:old'' 3 3)"
    and g5: "Get (Set demo_cache ?late ?p ''sha256:old'' 3 3) ?late ?p = Some ''sha256:old''"
    by simp_all
  have st: "Set demo_cache ?late ?p ''sha256:old'' 3 3 =
      demo_cache\<lparr> entries := (entries demo_cache)(?p \<mapsto>
          \<lparr> cached_Hash = ''sha256:old'', cached_Size = 3, cached_ModTime = 3,
            CachedAt = 9000 \<rparr>) \<rparr>"
    by (simp add: Set_def demo_fs_def)
  from g1 g2 g3 g4 g5 st show ?thesis by simp
qed
section \<open>Properties of the atomic writer\<close>

lemma generateTempPath_eq:
  "generateTempPath sfx target =
     filepath_Dir target @ [''.'' @ filepath_Base target @ ''.tmp.'' @ sfx]"
  by (simp add: generateTempPath_def filepath_Join_def)

lemma generateTempPath_neq_target: "generateTempPath sfx target \<noteq> target"
proof (cases "target = []")
  case True
  then show ?thesis by (simp add: generateTempPath_eq)
next
  case False
  then have t: "target = butlast target @ [last target]" by simp
  have "''.'' @ last target @ ''.tmp.'' @ sfx \<noteq> last target"
  proof
    assume "''.'' @ last target @ ''.tmp.'' @ sfx = last target"
    then have "length (''.'' @ last target @ ''.tmp.'' @ sfx) = length (last target)"
      by simp
    then show False by simp
  qed
  then have "butlast target @ [''.'' @ last target @ ''.tmp.'' @ sfx] \<noteq> butlast target @ [last target]"
    by simp
  with t False show ?thesis
    by (simp add: generateTempPath_eq filepath_Dir_def filepath_Base_def)
qed

lemma generateTempPath_not_Nil: "generateTempPath sfx target \<noteq> []"
  by (simp add: generateTempPath_eq)

lemma generateTempPath_not_prefix_dir:
  "\<not> prefix (generateTempPath sfx target) (filepath_Dir target)"
proof
  assume "prefix (generateTempPath sfx target) (filepath_Dir target)"
  then have "length (generateTempPath sfx target) \<le> length (filepath_Dir target)"
    by (rule prefix_length_le)
  then show False by (simp add: generateTempPath_eq)
qed

lemma target_not_prefix_dir: "target \<noteq> [] \<Longrightarrow> \<not> prefix target (filepath_Dir target)"
proof
  assume ne: "target \<noteq> []" and "prefix target (filepath_Dir target)"
  then have "length target \<le> length (filepath_Dir target)"
    using prefix_length_le by blast
  moreover have "length (filepath_Dir target) = length target - 1"
    by (simp add: filepath_Dir_def)
  moreover from ne have "0 < length target" by simp
  ultimately show False by linarith
qed

lemma os_OpenFile_excl_Inr:
  assumes "os_OpenFile_excl w p perm = Inr w'"
  shows "w' = put w p (File [] (clock w) (created_mode w perm)) \<and> lookup w p = None"
  using assms by (auto simp: os_OpenFile_excl_def split: if_splits)

lemma file_Write_Inr:
  assumes "file_Write w p bytes = Inr w'" and "lookup w p = Some (File c t m)"
  shows "w' = put w p (File (c @ bytes) (clock w) m)"
  using assms by (auto simp: file_Write_def split: if_splits)

lemma os_Remove_Inr: "os_Remove w p = Inr w' \<Longrightarrow> w' = del w p"
  by (auto simp: os_Remove_def split: if_splits option.splits node.splits)

lemma os_Remove_file:
  assumes "lookup w p = Some (File c t m)" and "(OpRemove, p) \<notin> faults w"
  shows "os_Remove w p = Inr (del w p)"
  using assms by (simp add: os_Remove_def)

lemma os_Rename_Inr:
  assumes "os_Rename w old new = Inr w'" and "new \<noteq> old"
  shows "\<exists>c t m. lookup w old = Some (File c t m) \<and> w' = put (del w old) new (File c t m)"
  using assms by (auto simp: os_Rename_def split: if_splits option.splits node.splits)

text \<open>Rollback touches the temporary path only.\<close>

lemma Rollback_frame:
  assumes "Rollback fw w = (r, fw', w')" and "q \<noteq> tempPath fw"
  shows "lookup w' q = lookup w q"
  using assms
  by (auto simp: Rollback_def Let_def split: if_splits sum.splits dest!: os_Remove_Inr)

lemma Rollback_removes:
  assumes "Rollback fw w = (r, fw', w')"
    and "lookup w (tempPath fw) = Some (File c t m)"
    and "(OpRemove, tempPath fw) \<notin> faults w"
    and "tempPath fw \<noteq> []"
  shows "lookup w' (tempPath fw) = None"
  using assms by (auto simp: Rollback_def Let_def os_Remove_file)

lemma Rollback_writer:
  assumes "Rollback fw w = (r, fw', w')"
  shows "fw' = fw\<lparr> tempFile := None \<rparr>"
  using assms by (auto simp: Rollback_def Let_def split: if_splits sum.splits)

text \<open>A failed commit leaves every path but the temporary one as it was.\<close>

lemma Commit_failed_frame:
  assumes "Commit fw w = (Some e, fw', w')" and "q \<noteq> tempPath fw"
  shows "lookup w' q = lookup w q"
  using assms
  by (auto simp: Commit_def Let_def split: if_splits option.splits sum.splits prod.splits
      dest: Rollback_frame dest!: os_Remove_Inr)

lemma Commit_failed_removes:
  assumes "Commit fw w = (Some e, fw', w')"
    and "tempFile fw \<noteq> None" and "\<not> committed fw"
    and "lookup w (tempPath fw) = Some (File c t m)"
    and "(OpRemove, tempPath fw) \<notin> faults w"
    and "tempPath fw \<noteq> []"
  shows "lookup w' (tempPath fw) = None"
  using assms
  by (auto simp: Commit_def Let_def os_Remove_file split: if_splits option.splits sum.splits prod.splits
      dest: Rollback_removes)

lemma Commit_ok:
  assumes "Commit fw w = (None, fw', w')" and "tempPath fw \<noteq> targetPath fw"
  shows "\<exists>c t m. lookup w (tempPath fw) = Some (File c t m)
           \<and> w' = put (del w (tempPath fw)) (targetPath fw) (File c t m)
           \<and> fw' = fw\<lparr> tempFile := None, committed := True \<rparr>"
  using assms
  by (auto simp: Commit_def Let_def split: if_splits option.splits sum.splits prod.splits
      dest!: os_Rename_Inr)

lemma Commit_twice:
  assumes "Commit fw w = (None, fw', w')"
  shows "Commit fw' w' =
     (Some (atomic_write_error (targetPath fw) (Errorf ''file already committed'')
              ErrCodeInternal), fw', w')"
proof -
  from assms have "committed fw' \<and> targetPath fw' = targetPath fw"
    by (auto simp: Commit_def Let_def split: if_splits option.splits sum.splits prod.splits)
  then show ?thesis by (simp add: Commit_def)
qed

lemma target_not_created_by_mkdir:
  "target \<notin> set (tl (prefixes (filepath_Dir target)))"
  using target_not_prefix_dir by (auto simp: in_tl_prefixes)

lemma temp_not_created_by_mkdir:
  "generateTempPath sfx target \<notin> set (tl (prefixes (filepath_Dir target)))"
  using generateTempPath_not_prefix_dir by (auto simp: in_tl_prefixes)

lemma NewFileWriter_Inl:
  assumes "NewFileWriter sfx w target perm = (Inl e, w1)"
  shows "lookup w1 target = lookup w target
         \<and> lookup w1 (generateTempPath sfx target) = lookup w (generateTempPath sfx target)"
  using assms target_not_created_by_mkdir [of target] temp_not_created_by_mkdir [of sfx target]
  by (auto simp: NewFileWriter_def Let_def os_MkdirAll_lookup split: sum.splits)

lemma NewFileWriter_Inr:
  assumes "NewFileWriter sfx w target perm = (Inr fw, w2)"
  shows "lookup w2 target = lookup w target
         \<and> lookup w (generateTempPath sfx target) = None
         \<and> lookup w2 (generateTempPath sfx target) = Some (File [] (clock w) (created_mode w perm))
         \<and> faults w2 = faults w \<and> clock w2 = clock w
         \<and> fw = \<lparr> targetPath = target, tempPath = generateTempPath sfx target,
                  tempFile = Some (generateTempPath sfx target), committed = False,
                  permissions = perm \<rparr>"
  using assms target_not_created_by_mkdir [of target] temp_not_created_by_mkdir [of sfx target]
    generateTempPath_neq_target [of sfx target]
  by (auto simp: NewFileWriter_def Let_def os_MkdirAll_lookup os_MkdirAll_faults os_MkdirAll_clock
      os_MkdirAll_created_mode split: sum.splits dest!: os_OpenFile_excl_Inr)

lemma Write_Inl: "Write fw w bytes = (Inl e, w') \<Longrightarrow> w' = w"
  by (auto simp: Write_def split: option.splits sum.splits)

lemma Write_Inr:
  assumes "Write fw w bytes = (Inr n, w')"
    and "tempFile fw = Some (tempPath fw)"
    and "lookup w (tempPath fw) = Some (File c t m)"
  shows "w' = put w (tempPath fw) (File (c @ bytes) (clock w) m)"
  using assms by (auto simp: Write_def split: option.splits sum.splits dest: file_Write_Inr)

text \<open>
  C6, as stated, fails in its clause on the temporary file. The writer removes the
  temporary file on an error path with \<^verbatim>\<open>os.Remove\<close> and ignores what that call
  returns. When the sync of the temporary file fails and its removal fails as well,
  \<open>WriteFileAtomic\<close> returns the sync error, the target is untouched, and the temporary
  file stays beside the target with the new bytes in it.
\<close>

theorem WriteFileAtomic_leaves_temp_file:
  "WriteFileAtomic ''ab''
       (demo_fs\<lparr> faults := {(OpSync, [''c'', ''.Vim.tmp.ab'']),
                              (OpRemove, [''c'', ''.Vim.tmp.ab''])} \<rparr>)
       [''c'', ''Vim''] ''new'' 420
     = (Some (SyncError ''atomic_write'' [] [''c'', ''Vim'']
                (Wrap ''failed to sync temporary file''
                   (PathError OpSync [''c'', ''.Vim.tmp.ab''] EIO))
                ErrCodeIOError),
        \<lparr> nodes = [([''c''], Dir 0 493), ([''c'', ''Vim''], File ''old'' 3 420),
                   ([''c'', ''.Vim.tmp.ab''], File ''new'' 7 420)],
          faults = {(OpSync, [''c'', ''.Vim.tmp.ab'']), (OpRemove, [''c'', ''.Vim.tmp.ab''])},
          clock = 7, elapsed = 0, umask = 18 \<rparr>)
   \<and> generateTempPath ''ab'' [''c'', ''Vim''] = [''c'', ''.Vim.tmp.ab'']
   \<and> lookup demo_fs [''c'', ''.Vim.tmp.ab''] = None"
  by (simp add: demo_fs_def atomic_defs fs_defs Let_def)

text \<open>
  C6, amended. A write through the atomic writer is all or nothing for the target. When
  \<open>WriteFileAtomic\<close> succeeds the target is a file with exactly the new bytes, in the
  requested mode less the bits of the process umask, and the temporary file is gone.
  When it returns an error the target is what it was before; the temporary path is
  what it was before as well (the temporary file of the writer has been removed)
  provided that removing the temporary file does not itself fail. A \<open>Commit\<close> that
  fails leaves the target of the writer as it was, and after a successful \<open>Commit\<close> a
  second \<open>Commit\<close> on the same writer fails with the already-committed error and
  changes nothing.
\<close>

theorem FileWriter_all_or_nothing:
  "(case WriteFileAtomic sfx w target bytes perm of
      (None, w') \<Rightarrow>
        lookup w' target = Some (File bytes (clock w) (created_mode w perm))
        \<and> lookup w' (generateTempPath sfx target) = None
    | (Some err, w') \<Rightarrow>
        lookup w' target = lookup w target
        \<and> ((OpRemove, generateTempPath sfx target) \<notin> faults w \<longrightarrow>
             lookup w' (generateTempPath sfx target) = lookup w (generateTempPath sfx target)))
   \<and> (case Commit fw v of
        (None, fw', v') \<Rightarrow>
          Commit fw' v' =
            (Some (atomic_write_error (targetPath fw) (Errorf ''file already committed'')
                     ErrCodeInternal), fw', v')
      | (Some err, fw', v') \<Rightarrow>
          tempPath fw \<noteq> targetPath fw \<longrightarrow> lookup v' (targetPath fw) = lookup v (targetPath fw))"
proof (rule conjI)
  let ?temp = "generateTempPath sfx target"
  show "case WriteFileAtomic sfx w target bytes perm of
      (None, w') \<Rightarrow>
        lookup w' target = Some (File bytes (clock w) (created_mode w perm))
        \<and> lookup w' ?temp = None
    | (Some err, w') \<Rightarrow>
        lookup w' target = lookup w target
        \<and> ((OpRemove, ?temp) \<notin> faults w \<longrightarrow> lookup w' ?temp = lookup w ?temp)"
  proof (cases "NewFileWriter sfx w target perm")
    case (Pair nres w1)
    show ?thesis
    proof (cases nres)
      case (Inl e)
      with Pair NewFileWriter_Inl [of sfx w target perm e w1] show ?thesis
        by (simp add: WriteFileAtomic_def)
    next
      case (Inr writer)
      note nres_eq = Inr
      note new = NewFileWriter_Inr [OF Pair [unfolded Inr]]
      from new have wr: "tempPath writer = ?temp" "targetPath writer = target"
        "tempFile writer = Some ?temp" "\<not> committed writer"
        by simp_all
      have ne: "?temp \<noteq> target" by (rule generateTempPath_neq_target)
      have nn: "?temp \<noteq> []" by (rule generateTempPath_not_Nil)
      obtain wres w2 where W: "Write writer w1 bytes = (wres, w2)"
        by (cases "Write writer w1 bytes")
      show ?thesis
      proof (cases wres)
        case (Inl e)
        with W have w2: "w2 = w1" by (auto dest: Write_Inl)
        obtain r writer' w3 where C: "Close writer w1 = (r, writer', w3)"
          by (cases "Close writer w1") auto
        then have R: "Rollback writer w1 = (r, writer', w3)"
          using wr by (simp add: Close_def)
        have "lookup w3 target = lookup w target"
          using Rollback_frame [OF R, of target] ne wr new by simp
        moreover have "(OpRemove, ?temp) \<notin> faults w \<longrightarrow> lookup w3 ?temp = lookup w ?temp"
          using Rollback_removes [OF R, of "[]" "clock w" "created_mode w perm"] wr new nn by simp
        ultimately show ?thesis
          using Pair nres_eq W Inl w2 C by (simp add: WriteFileAtomic_def)
      next
        case (Inr n)
        have w2: "w2 = put w1 ?temp (File bytes (clock w) (created_mode w perm))"
          using Write_Inr [OF W [unfolded Inr], of "[]" "clock w" "created_mode w perm"] wr new
          by simp
        obtain res writer' w3 where Cm: "Commit writer w2 = (res, writer', w3)"
          by (cases "Commit writer w2") auto
        obtain r writer'' w4 where Cl: "Close writer' w3 = (r, writer'', w4)"
          by (cases "Close writer' w3") auto
        have out: "WriteFileAtomic sfx w target bytes perm = (res, w4)"
          using Pair nres_eq W Inr Cm Cl
          by (simp add: WriteFileAtomic_def)
        show ?thesis
        proof (cases res)
          case None
          from Commit_ok [OF Cm [unfolded None]] wr ne w2
          have w3: "w3 = put (del w2 ?temp) target (File bytes (clock w) (created_mode w perm))"
            and cm: "committed writer'"
            by auto
          from cm Cl have "w4 = w3" by (simp add: Close_def)
          with w3 ne out None show ?thesis by simp
        next
          case (Some e)
          have t3: "lookup w3 target = lookup w target"
            using Commit_failed_frame [OF Cm [unfolded Some], of target] wr ne w2 new by simp
          have p3: "(OpRemove, ?temp) \<notin> faults w \<longrightarrow> lookup w3 ?temp = None"
            using Commit_failed_removes
                [OF Cm [unfolded Some], of bytes "clock w" "created_mode w perm"]
              wr nn w2 new by simp
          have wr': "tempPath writer' = ?temp"
            using Cm Some wr
            by (auto simp: Commit_def Let_def split: if_splits option.splits sum.splits prod.splits
                dest: Rollback_writer)
          have t4: "lookup w4 target = lookup w3 target"
            using Cl ne wr' Rollback_frame [of writer' w3 r writer'' w4 target]
            by (auto simp: Close_def split: if_splits)
          have p4: "lookup w3 ?temp = None \<longrightarrow> lookup w4 ?temp = None"
            using Cl wr' nn
            by (auto simp: Close_def Rollback_def Let_def os_Remove_def split: if_splits)
          from t3 t4 p3 p4 new out Some show ?thesis by simp
        qed
      qed
    qed
  qed
next
  show "case Commit fw v of
        (None, fw', v') \<Rightarrow>
          Commit fw' v' =
            (Some (atomic_write_error (targetPath fw) (Errorf ''file already committed'')
                     ErrCodeInternal), fw', v')
      | (Some err, fw', v') \<Rightarrow>
          tempPath fw \<noteq> targetPath fw \<longrightarrow> lookup v' (targetPath fw) = lookup v (targetPath fw)"
  proof (cases "Commit fw v")
    case (fields res fw' v')
    show ?thesis
    proof (cases res)
      case None
      with fields Commit_twice [of fw v fw' v'] show ?thesis by simp
    next
      case (Some e)
      with fields Commit_failed_frame [of fw v e fw' v' "targetPath fw"] show ?thesis
        by auto
    qed
  qed
qed

theorem FileWriter_all_or_nothing_witness:
  "WriteFileAtomic ''ab'' demo_fs [''c'', ''Vim''] ''new'' 438 =
     (None, \<lparr> nodes = [([''c''], Dir 0 493), ([''c'', ''Vim''], File ''new'' 7 420)],
              faults = {}, clock = 7, elapsed = 0, umask = 18 \<rparr>)
   \<and> lookup (snd (WriteFileAtomic ''ab'' demo_fs [''c'', ''Vim''] ''new'' 438)) [''c'', ''Vim'']
       = Some (File ''new'' 7 420)
   \<and> fst (WriteFileAtomic ''ab'' (demo_fs\<lparr> faults := {(OpSync, [''c'', ''.Vim.tmp.ab''])} \<rparr>)
            [''c'', ''Vim''] ''new'' 438)
       = Some (SyncError ''atomic_write'' [] [''c'', ''Vim'']
                 (Wrap ''failed to sync temporary file''
                    (PathError OpSync [''c'', ''.Vim.tmp.ab''] EIO))
                 ErrCodeIOError)
   \<and> lookup (snd (WriteFileAtomic ''ab'' (demo_fs\<lparr> faults := {(OpSync, [''c'', ''.Vim.tmp.ab''])} \<rparr>)
            [''c'', ''Vim''] ''new'' 438)) [''c'', ''Vim'']
       = Some (File ''old'' 3 420)
   \<and> lookup (snd (WriteFileAtomic ''ab'' (demo_fs\<lparr> faults := {(OpSync, [''c'', ''.Vim.tmp.ab''])} \<rparr>)
            [''c'', ''Vim''] ''new'' 438)) [''c'', ''.Vim.tmp.ab'']
       = None
   \<and> Commit demo_writer demo_fs_staged
       = (None, demo_writer\<lparr> tempFile := None, committed := True \<rparr>,
          \<lparr> nodes = [([''c''], Dir 0 493), ([''c'', ''Vim''], File ''new'' 7 420)],
            faults = {}, clock = 7, elapsed = 0, umask = 18 \<rparr>)
   \<and> Commit (demo_writer\<lparr> tempFile := None, committed := True \<rparr>)
         \<lparr> nodes = [([''c''], Dir 0 493), ([''c'', ''Vim''], File ''new'' 7 420)],
           faults = {}, clock = 7, elapsed = 0, umask = 18 \<rparr>
       = (Some (SyncError ''atomic_write'' [] [''c'', ''Vim''] (Errorf ''file already committed'')
                  ErrCodeInternal),
          demo_writer\<lparr> tempFile := None, committed := True \<rparr>,
          \<lparr> nodes = [([''c''], Dir 0 493), ([''c'', ''Vim''], File ''new'' 7 420)],
            faults = {}, clock = 7, elapsed = 0, umask = 18 \<rparr>)"
proof -
  let ?t = "[''c'', ''Vim'']"
  let ?tmp = "[''c'', ''.Vim.tmp.ab'']"
  let ?bad = "demo_fs\<lparr> faults := {(OpSync, ?tmp)} \<rparr>"
  let ?done = "\<lparr> nodes = [([''c''], Dir 0 493), ([''c'', ''Vim''], File ''new'' 7 420)],
                 faults = {}, clock = 7, elapsed = 0, umask = 18 \<rparr>"
  have ok: "WriteFileAtomic ''ab'' demo_fs ?t ''new'' 438 = (None, ?done)"
    by (simp add: demo_fs_def atomic_defs fs_defs Let_def)
  have tmp: "generateTempPath ''ab'' ?t = ?tmp"
    by (simp add: atomic_defs fs_defs)
  have bad: "fst (WriteFileAtomic ''ab'' ?bad ?t ''new'' 438)
      = Some (SyncError ''atomic_write'' [] ?t
                (Wrap ''failed to sync temporary file'' (PathError OpSync ?tmp EIO))
                ErrCodeIOError)"
    by (simp add: demo_fs_def atomic_defs fs_defs Let_def)
  have cm: "Commit demo_writer demo_fs_staged
      = (None, demo_writer\<lparr> tempFile := None, committed := True \<rparr>, ?done)"
    by (simp add: demo_writer_def demo_fs_staged_def demo_fs_def atomic_defs fs_defs Let_def)
  have tg: "targetPath demo_writer = ?t"
    by (simp add: demo_writer_def)
  note good = FileWriter_all_or_nothing [where sfx = "''ab''" and w = demo_fs and target = ?t
      and bytes = "''new''" and perm = 438 and fw = demo_writer and v = demo_fs_staged]
  from good ok
  have a: "lookup (snd (WriteFileAtomic ''ab'' demo_fs ?t ''new'' 438)) ?t
      = Some (File ''new'' 7 420)"
    by (simp add: demo_fs_def fs_defs)
  from good cm tg
  have c: "Commit (demo_writer\<lparr> tempFile := None, committed := True \<rparr>) ?done
      = (Some (SyncError ''atomic_write'' [] ?t (Errorf ''file already committed'')
                 ErrCodeInternal),
         demo_writer\<lparr> tempFile := None, committed := True \<rparr>, ?done)"
    by (simp add: atomic_write_error_def)
  note failing = FileWriter_all_or_nothing [where sfx = "''ab''" and w = ?bad and target = ?t
      and bytes = "''new''" and perm = 438 and fw = demo_writer and v = demo_fs_staged]
  from failing bad tmp
  have b: "lookup (snd (WriteFileAtomic ''ab'' ?bad ?t ''new'' 438)) ?t = lookup ?bad ?t"
    "lookup (snd (WriteFileAtomic ''ab'' ?bad ?t ''new'' 438)) ?tmp = lookup ?bad ?tmp"
    by (auto split: prod.splits option.splits)
  then have "lookup (snd (WriteFileAtomic ''ab'' ?bad ?t ''new'' 438)) ?t
        = Some (File ''old'' 3 420)"
    "lookup (snd (WriteFileAtomic ''ab'' ?bad ?t ''new'' 438)) ?tmp = None"
    by (simp_all add: demo_fs_def fs_defs)
  with ok a bad cm c show ?thesis by simp
qed
section \<open>Properties of the backup manager\<close>










lemma content_addressed_fs [simp]: "content_addressed (st\<lparr> bw_fs := w \<rparr>) = content_addressed st"
  by (simp add: content_addressed_def)

lemma content_addressed_manifest [simp]:
  "content_addressed (st\<lparr> bw_manifest := Some manifest \<rparr>) =
     distinct (manifest_keys (Entries manifest))"
  by (simp add: content_addressed_def)








section \<open>Properties of the sync engine\<close>

text \<open>
  C10. For an item without a path for the current computer, \<open>SyncItem\<close> returns the
  error that names the current computer, for every operation, and the state (files,
  file states, shared metadata) is the one it started from.
\<close>

theorem SyncItem_without_path:
  assumes "Paths item (CurrentComputer (localConfig eng)) = None"
  shows "SyncEngine_SyncItem fuel pf eng st operation item =
           Some (Inl (NoPathConfigured (CurrentComputer (localConfig eng))), st)"
  using assms by (simp add: SyncEngine_SyncItem_def GetCurrentComputerPath_def)

text \<open>C10 at the item of the examples on a computer that the item has no path for.\<close>

theorem SyncItem_without_path_witness:
  "SyncEngine_SyncItem 0 sync_platform (demo_engine\<lparr> localConfig := demo_config\<lparr> CurrentComputer := ''h2'' \<rparr> \<rparr>)
      first_push_world SyncPush demo_item
     = Some (Inl (NoPathConfigured ''h2''), first_push_world)"
proof -
  let ?eng = "demo_engine\<lparr> localConfig := demo_config\<lparr> CurrentComputer := ''h2'' \<rparr> \<rparr>"
  have "Paths demo_item (CurrentComputer (localConfig ?eng)) = None"
    by (simp add: demo_item_def)
  from SyncItem_without_path [OF this, of 0 sync_platform first_push_world SyncPush]
  show ?thesis by simp
qed

section \<open>Properties of smart sync\<close>

lemma smartSyncFile_rules:
  assumes lh: "CalculateFileHash pf (sw_fs st) lp = Inr lhash"
    and li: "os_Stat (sw_fs st) lp = Inr linfo"
    and ch: "CalculateFileHash pf (sw_fs st) cp = Inr chash"
    and ci: "os_Stat (sw_fs st) cp = Inr cinfo"
  shows "smartSyncFile fuel pf eng st item lp cp =
     carry_out fuel pf eng st item lp cp
       (spec_decide (Some lhash) (Some chash) (fi_ModTime linfo) (fi_ModTime cinfo)
          (last_cloud_hash_of eng st item lp))"
proof -
  from li ci have ex: "PathExists (sw_fs st) lp" "PathExists (sw_fs st) cp"
    by (simp_all add: PathExists_def)
  show ?thesis
  proof (cases "lhash = chash")
    case True
    with lh li ch ci ex show ?thesis
      by (auto simp: smartSyncFile_def spec_decide_def carry_out_def in_sync_result_def
          new_result_def Let_def split: prod.splits option.splits sum.splits)
  next
    case False
    show ?thesis
    proof (cases "loadCloudMetadata eng st")
      case (Inl err)
      with False lh li ch ci show ?thesis
        by (simp add: smartSyncFile_def spec_decide_def carry_out_def conflict_result_def
            last_cloud_hash_of_def new_result_def warn_def Let_def)
    next
      case (Inr md)
      with False lh li ch ci show ?thesis
        by (simp add: smartSyncFile_def spec_decide_def carry_out_def conflict_result_def
            last_cloud_hash_of_def new_result_def warn_def Let_def)
    qed
  qed
qed

text \<open>
  The branch that smart sync takes for a file-kind item is the one the rules of the
  specification select; what happens in the push and the pull branch is what \<open>pushItem\<close>
  and \<open>pullItem\<close> do.
\<close>

lemma smartSyncItem_selects_by_rules:
  assumes "Type item = ''file''"
    and "PathExists (sw_fs st) lp \<longrightarrow>
           CalculateFileHash pf (sw_fs st) lp = Inr lhash \<and> os_Stat (sw_fs st) lp = Inr linfo"
    and "PathExists (sw_fs st) cp \<longrightarrow>
           CalculateFileHash pf (sw_fs st) cp = Inr chash \<and> os_Stat (sw_fs st) cp = Inr cinfo"
  shows "smartSyncItem fuel pf eng st item lp cp =
     carry_out fuel pf eng st item lp cp
       (spec_decide
          (if PathExists (sw_fs st) lp then Some lhash else None)
          (if PathExists (sw_fs st) cp then Some chash else None)
          (fi_ModTime linfo) (fi_ModTime cinfo)
          (last_cloud_hash_of eng st item lp))"
proof (cases "PathExists (sw_fs st) lp")
  case le: True
  show ?thesis
  proof (cases "PathExists (sw_fs st) cp")
    case ce: True
    from le ce assms show ?thesis
      by (simp add: smartSyncItem_def Let_def smartSyncFile_rules)
  next
    case False
    with le show ?thesis
      by (simp add: smartSyncItem_def Let_def spec_decide_def carry_out_def)
  qed
next
  case nle: False
  show ?thesis
  proof (cases "PathExists (sw_fs st) cp")
    case True
    with nle show ?thesis
      by (simp add: smartSyncItem_def Let_def spec_decide_def carry_out_def)
  next
    case False
    with nle show ?thesis
      by (simp add: smartSyncItem_def Let_def spec_decide_def carry_out_def)
  qed
qed

text \<open>
  C4, as stated, fails. In scenario D (different hashes, a recorded cloud hash that
  differs from the current one, equal modification times) smart sync pulls: the local
  file is overwritten with the cloud bytes, one file is counted as changed and none as
  errored, and the batch result is a success.
\<close>

theorem scenario_D_equal_mtime_pulls:
  "CalculateFileHash sync_platform (sw_fs conflict_world) demo_local = Inr ''sha256:set ts=8''
   \<and> CalculateFileHash sync_platform (sw_fs conflict_world) demo_cloud = Inr ''sha256:set ts=2''
   \<and> last_cloud_hash_of demo_engine conflict_world demo_item demo_local
       = Some ''sha256:set ts=4''
   \<and> os_Stat (sw_fs conflict_world) demo_local
       = Inr \<lparr> fi_Size = 8, fi_ModTime = 5, fi_Mode = 420, fi_IsDir = False \<rparr>
   \<and> os_Stat (sw_fs conflict_world) demo_cloud
       = Inr \<lparr> fi_Size = 8, fi_ModTime = 5, fi_Mode = 420, fi_IsDir = False \<rparr>
   \<and> map_option fst
         (smartSyncItem 0 sync_platform demo_engine conflict_world demo_item demo_local demo_cloud)
       = Some (Inr \<lparr> Operation = SyncPull, Success = True, FilesChanged = 1, FilesSkipped = 0,
                       FilesErrored = 0, Errors = [], Message = ''Pulled Vim from cloud'' \<rparr>)
   \<and> lookup (sw_fs (snd (the
         (smartSyncItem 0 sync_platform demo_engine conflict_world demo_item demo_local demo_cloud))))
         demo_local
       = Some (File ''set ts=2'' 9 420)
   \<and> lookup (sw_fs conflict_world) demo_local = Some (File ''set ts=8'' 5 420)
   \<and> map_option fst (SyncAll 0 sync_platform demo_engine conflict_world SyncSmart [demo_item])
       = Some \<lparr> Operation = SyncSmart, Success = True, FilesChanged = 1, FilesSkipped = 0,
                  FilesErrored = 0, Errors = [],
                  Message = ''Sync complete: 1 changed, 0 skipped, 0 errors'' \<rparr>"
  by (simp add: conflict_world_def demo_sync_defs sync_defs config_defs fs_defs chunks_short
      last_cloud_hash_of_def show_int_def show_nat.simps Let_def)

text \<open>
  C4, amended. When smart sync of a file-kind item observes different hashes, a recorded
  cloud hash that differs from the current cloud hash, and a local modification time
  strictly later than the cloud one, it reports the conflict of two modified files: the
  state (both files, file states, shared metadata) is unchanged, and the result carries
  the conflict in its error list while it counts no file as changed, skipped or errored
  and stays a success.
\<close>

theorem smartSyncItem_conflict_both_modified:
  assumes "Type item = ''file''"
    and "CalculateFileHash pf (sw_fs st) lp = Inr lhash"
    and "CalculateFileHash pf (sw_fs st) cp = Inr chash"
    and "lhash \<noteq> chash"
    and "os_Stat (sw_fs st) lp = Inr linfo"
    and "os_Stat (sw_fs st) cp = Inr cinfo"
    and "last_cloud_hash_of eng st item lp = Some known"
    and "known \<noteq> chash"
    and "fi_ModTime linfo > fi_ModTime cinfo"
  shows "smartSyncItem fuel pf eng st item lp cp =
     Some (Inr \<lparr> Operation = SyncSmart, Success = True, FilesChanged = 0, FilesSkipped = 0,
                  FilesErrored = 0,
                  Errors = [Text ''Both local and cloud files have been modified since last sync''],
                  Message = ''Conflict detected for '' @ Name item @ '' - both files modified'' \<rparr>,
           st)"
proof -
  from assms(5,6) have ex: "PathExists (sw_fs st) lp" "PathExists (sw_fs st) cp"
    by (simp_all add: PathExists_def)
  have "smartSyncItem fuel pf eng st item lp cp =
          carry_out fuel pf eng st item lp cp
            (spec_decide (Some lhash) (Some chash) (fi_ModTime linfo) (fi_ModTime cinfo)
               (Some known))"
    using assms(1,7) ex smartSyncFile_rules [OF assms(2) assms(5) assms(3) assms(6)]
    by (simp add: smartSyncItem_def Let_def)
  with assms(4,8,9) show ?thesis
    by (simp add: spec_decide_def carry_out_def conflict_result_def new_result_def)
qed

theorem smartSyncItem_conflict_both_modified_witness:
  "smartSyncItem 0 sync_platform demo_engine conflict_world_local_newer demo_item
       demo_local demo_cloud =
     Some (Inr \<lparr> Operation = SyncSmart, Success = True, FilesChanged = 0, FilesSkipped = 0,
                  FilesErrored = 0,
                  Errors = [Text ''Both local and cloud files have been modified since last sync''],
                  Message = ''Conflict detected for Vim - both files modified'' \<rparr>,
           conflict_world_local_newer)"
proof -
  let ?st = conflict_world_local_newer
  have h1: "Type demo_item = ''file''" by (simp add: demo_item_def)
  have h2: "CalculateFileHash sync_platform (sw_fs ?st) demo_local = Inr ''sha256:set ts=8''"
    by (simp add: conflict_world_local_newer_def conflict_world_def demo_sync_defs config_defs
        fs_defs)
  have h3: "CalculateFileHash sync_platform (sw_fs ?st) demo_cloud = Inr ''sha256:set ts=2''"
    by (simp add: conflict_world_local_newer_def conflict_world_def demo_sync_defs config_defs
        fs_defs)
  have h4: "''sha256:set ts=8'' \<noteq> ''sha256:set ts=2''" by simp
  have h5: "os_Stat (sw_fs ?st) demo_local
       = Inr \<lparr> fi_Size = 8, fi_ModTime = 6, fi_Mode = 420, fi_IsDir = False \<rparr>"
    by (simp add: conflict_world_local_newer_def conflict_world_def demo_sync_defs fs_defs)
  have h6: "os_Stat (sw_fs ?st) demo_cloud
       = Inr \<lparr> fi_Size = 8, fi_ModTime = 5, fi_Mode = 420, fi_IsDir = False \<rparr>"
    by (simp add: conflict_world_local_newer_def conflict_world_def demo_sync_defs fs_defs)
  have h7: "last_cloud_hash_of demo_engine ?st demo_item demo_local = Some ''sha256:set ts=4''"
    by (simp add: conflict_world_local_newer_def conflict_world_def demo_sync_defs sync_defs
        config_defs fs_defs last_cloud_hash_of_def)
  have h8: "''sha256:set ts=4'' \<noteq> ''sha256:set ts=2''" by simp
  have h9: "fi_ModTime \<lparr> fi_Size = 8, fi_ModTime = 6, fi_Mode = 420, fi_IsDir = False \<rparr>
      > fi_ModTime \<lparr> fi_Size = 8, fi_ModTime = 5, fi_Mode = 420, fi_IsDir = False \<rparr>"
    by simp
  from smartSyncItem_conflict_both_modified [OF h1 h2 h3 h4 h5 h6 h7 h8 h9, of 0]
  show ?thesis by (simp add: demo_item_def)
qed

section \<open>Properties of the file copy\<close>


lemma os_Create_Inr:
  assumes "os_Create w p = Inr w'"
  shows "\<exists>m. w' = put w p (File [] (clock w) m)"
  using assms by (auto simp: os_Create_def split: if_splits option.splits node.splits)


lemma os_Chmod_file:
  assumes "os_Chmod w p perm = Inr w'" and "lookup w p = Some (File c t m)"
  shows "w' = put w p (File c t perm)"
  using assms by (auto simp: os_Chmod_def split: if_splits)


lemma copyFile_NoneD:
  assumes "copyFile w src dst = (None, w')"
  shows "\<exists>w1 w2 w3 srcInfo.
           os_MkdirAll w (filepath_Dir dst) 493 = Inr w1
           \<and> os_Open w1 src = Inr ()
           \<and> os_Create w1 dst = Inr w2
           \<and> io_Copy w2 dst src = (None, w3)
           \<and> os_Stat w3 src = Inr srcInfo
           \<and> os_Chmod w3 dst (fi_Mode srcInfo) = Inr w'"
  using assms
  by (auto simp: copyFile_def split: sum.splits prod.splits option.splits)






lemma write_chunks_states_last:
  "write_chunks w p cs = (r, w') \<Longrightarrow> last (w # write_chunks_states w p cs) = w'"
proof (induction cs arbitrary: w)
  case Nil
  then show ?case by simp
next
  case (Cons c cs)
  show ?case
  proof (cases "file_Write w p c")
    case (Inl err)
    with Cons.prems show ?thesis by simp
  next
    case (Inr w1)
    with Cons.prems have "write_chunks w1 p cs = (r, w')" by simp
    from Cons.IH [OF this] Inr show ?thesis by simp
  qed
qed

lemma write_chunks_states_prefix:
  assumes "w' \<in> set (write_chunks_states w p cs)" and "lookup w p = Some (File c t m)"
  shows "\<exists>k t' m'. k \<le> length cs \<and> lookup w' p = Some (File (c @ concat (take k cs)) t' m')"
  using assms
proof (induction cs arbitrary: w c t)
  case Nil
  then show ?case by simp
next
  case (Cons a cs)
  from Cons.prems(1) obtain w1 where w1: "file_Write w p a = Inr w1"
    and mem: "w' = w1 \<or> w' \<in> set (write_chunks_states w1 p cs)"
    by (cases "file_Write w p a") auto
  from w1 Cons.prems(2) have l1: "lookup w1 p = Some (File (c @ a) (clock w) m)"
    by (auto simp: file_Write_def split: if_splits)
  from mem show ?case
  proof
    assume "w' = w1"
    with l1 have "lookup w' p = Some (File (c @ concat (take 1 (a # cs))) (clock w) m)"
      by simp
    then show ?thesis
      by (intro exI [of _ "1::nat"] exI [of _ "clock w"] exI [of _ m]) simp
  next
    assume "w' \<in> set (write_chunks_states w1 p cs)"
    from Cons.IH [OF this l1] obtain k t' m' where
      k: "k \<le> length cs" "lookup w' p = Some (File ((c @ a) @ concat (take k cs)) t' m')"
      by blast
    then have "lookup w' p = Some (File (c @ concat (take (Suc k) (a # cs))) t' m')"
      by simp
    with k(1) show ?thesis
      by (intro exI [of _ "Suc k"] exI [of _ t'] exI [of _ m']) simp
  qed
qed

lemma concat_take_prefix: "prefix (concat (take k cs)) (concat cs)"
proof -
  have "concat cs = concat (take k cs) @ concat (drop k cs)"
    by (metis append_take_drop_id concat_append)
  then show ?thesis by (metis prefixI)
qed

lemma file_Write_frame:
  "file_Write w p c = Inr w' \<Longrightarrow> q \<noteq> p \<Longrightarrow> lookup w' q = lookup w q"
  by (auto simp: file_Write_def split: if_splits option.splits node.splits)

lemma write_chunks_states_frame:
  assumes "v \<in> set (write_chunks_states w p cs)" and "q \<noteq> p"
  shows "lookup v q = lookup w q"
  using assms
proof (induction cs arbitrary: w)
  case Nil
  then show ?case by simp
next
  case (Cons a cs)
  from Cons.prems(1) obtain w1 where w1: "file_Write w p a = Inr w1"
    and mem: "v = w1 \<or> v \<in> set (write_chunks_states w1 p cs)"
    by (cases "file_Write w p a") auto
  from file_Write_frame [OF w1 Cons.prems(2)] have f: "lookup w1 q = lookup w q" .
  from mem show ?case
  proof
    assume "v = w1"
    with f show ?thesis by simp
  next
    assume "v \<in> set (write_chunks_states w1 p cs)"
    from Cons.IH [OF this Cons.prems(2)] f show ?thesis by simp
  qed
qed

lemma copyFile_states_last: "last (copyFile_states w src dst) = snd (copyFile w src dst)"
proof (cases "os_MkdirAll w (filepath_Dir dst) 493")
  case (Inl err)
  then show ?thesis by (simp add: copyFile_states_def copyFile_def)
next
  case mk: (Inr w1)
  show ?thesis
  proof (cases "os_Open w1 src")
    case (Inl err)
    with mk show ?thesis by (simp add: copyFile_states_def copyFile_def)
  next
    case op: (Inr u)
    show ?thesis
    proof (cases "os_Create w1 dst")
      case (Inl err)
      with mk op show ?thesis by (simp add: copyFile_states_def copyFile_def)
    next
      case cr: (Inr w2)
      show ?thesis
      proof (cases "read_all w2 src")
        case (Inl err)
        with mk op cr show ?thesis
          by (simp add: copyFile_states_def opened_states_def copyFile_def io_Copy_def)
      next
        case rd: (Inr bytes)
        let ?ws = "write_chunks_states w2 dst (chunks copy_buffer_size bytes)"
        obtain r3 w3 where wc: "write_chunks w2 dst (chunks copy_buffer_size bytes) = (r3, w3)"
          by (cases "write_chunks w2 dst (chunks copy_buffer_size bytes)")
        note lst = write_chunks_states_last [OF wc]
        show ?thesis
        proof (cases r3)
          case (Some err)
          with mk op cr rd wc lst show ?thesis
            by (simp add: copyFile_states_def opened_states_def copyFile_def io_Copy_def)
        next
          case None
          show ?thesis
          proof (cases "os_Stat w3 src")
            case (Inl err)
            with mk op cr rd wc lst None show ?thesis
              by (simp add: copyFile_states_def opened_states_def copyFile_def io_Copy_def)
          next
            case si: (Inr srcInfo)
            show ?thesis
            proof (cases "os_Chmod w3 dst (fi_Mode srcInfo)")
              case (Inl err)
              with mk op cr rd wc lst None si show ?thesis
                by (simp add: copyFile_states_def opened_states_def copyFile_def io_Copy_def)
            next
              case (Inr w4)
              with mk op cr rd wc None si show ?thesis
                by (simp add: copyFile_states_def opened_states_def copyFile_def io_Copy_def)
            qed
          qed
        qed
      qed
    qed
  qed
qed

text \<open>
  From the moment the target is open, it is a file that holds a prefix of the bytes of
  the source, and no other path changes.
\<close>

lemma opened_states_target:
  assumes ne: "src \<noteq> dst"
    and d2: "lookup w2 dst = Some (File [] t0 m0)"
    and s2: "lookup w2 src = Some (File new t m)"
    and mem: "v \<in> set (opened_states w2 src dst)"
  shows "(\<exists>c t' m'. lookup v dst = Some (File c t' m') \<and> prefix c new)
         \<and> (\<forall>q. q \<noteq> dst \<longrightarrow> lookup v q = lookup w2 q)"
proof -
  let ?ws = "write_chunks_states w2 dst (chunks copy_buffer_size new)"
  have pos: "0 < copy_buffer_size" by (simp add: copy_buffer_size_def)
  have inws: "(\<exists>c t' m'. lookup u dst = Some (File c t' m') \<and> prefix c new)
              \<and> (\<forall>q. q \<noteq> dst \<longrightarrow> lookup u q = lookup w2 q)"
    if "u \<in> set (w2 # ?ws)" for u
  proof (cases "u = w2")
    case True
    with d2 show ?thesis by simp
  next
    case False
    with that have u: "u \<in> set ?ws" by simp
    from write_chunks_states_prefix [OF u d2] obtain k t' m' where
      "lookup u dst = Some (File (concat (take k (chunks copy_buffer_size new))) t' m')"
      by auto
    moreover have "prefix (concat (take k (chunks copy_buffer_size new))) new"
      using concat_take_prefix [of k "chunks copy_buffer_size new"] concat_chunks [OF pos, of new]
      by simp
    moreover have "\<forall>q. q \<noteq> dst \<longrightarrow> lookup u q = lookup w2 q"
      using write_chunks_states_frame [OF u] by blast
    ultimately show ?thesis by blast
  qed
  show ?thesis
  proof (cases "v \<in> set (w2 # ?ws)")
    case True
    from inws [OF this] show ?thesis .
  next
    case nws: False
    from s2 have rd: "read_all w2 src = Inr new \<or> (\<exists>e. read_all w2 src = Inl e)"
      by (auto simp: read_all_def)
    from rd show ?thesis
    proof
      assume rdn: "read_all w2 src = Inr new"
      obtain r3 w3 where wc: "write_chunks w2 dst (chunks copy_buffer_size new) = (r3, w3)"
        by (cases "write_chunks w2 dst (chunks copy_buffer_size new)")
      from write_chunks_states_last [OF wc] have "w3 = last (w2 # ?ws)" by simp
      then have "w3 \<in> set (w2 # ?ws)" by (metis last_in_set list.discI)
      from inws [OF this] obtain c t3 m3 where
        d3: "lookup w3 dst = Some (File c t3 m3)" and pc: "prefix c new"
        and f3: "\<forall>q. q \<noteq> dst \<longrightarrow> lookup w3 q = lookup w2 q"
        by blast
      from mem nws rdn wc obtain srcInfo :: FileInfo where
        ch: "os_Chmod w3 dst (fi_Mode srcInfo) = Inr v"
        by (auto simp: opened_states_def split: sum.splits option.splits)
      from os_Chmod_file [OF ch d3] have v: "v = put w3 dst (File c t3 (fi_Mode srcInfo))" .
      with pc f3 show ?thesis by simp
    next
      assume "\<exists>e. read_all w2 src = Inl e"
      with mem nws show ?thesis
        by (auto simp: opened_states_def)
    qed
  qed
qed

lemma copyFile_states_indexed:
  assumes ne: "src \<noteq> dst" and src: "lookup w src = Some (File new t m)"
    and i: "i < length (copyFile_states w src dst)"
  shows "(i < 2 \<longrightarrow> lookup (copyFile_states w src dst ! i) dst = lookup w dst)
    \<and> (2 \<le> i \<longrightarrow>
         (\<exists>c t' m'. lookup (copyFile_states w src dst ! i) dst = Some (File c t' m')
            \<and> prefix c new))
    \<and> (i = 2 \<longrightarrow> file_content (copyFile_states w src dst ! i) dst = Some [])
    \<and> (\<forall>q. q \<noteq> dst \<longrightarrow>
          lookup (copyFile_states w src dst ! i) q = lookup w q
          \<or> (lookup w q = None \<and> prefix q (filepath_Dir dst)
              \<and> (\<exists>t' m'. lookup (copyFile_states w src dst ! i) q = Some (Dir t' m'))))"
proof (cases "i = 0")
  case True
  then show ?thesis by (simp add: copyFile_states_def)
next
  case i0: False
  with i obtain w1 where mk: "os_MkdirAll w (filepath_Dir dst) 493 = Inr w1"
    by (cases "os_MkdirAll w (filepath_Dir dst) 493") (auto simp: copyFile_states_def)
  from os_MkdirAll_lookup [OF mk, of dst] target_not_created_by_mkdir [of dst]
  have d1: "lookup w1 dst = lookup w dst" by simp
  from os_MkdirAll_keeps [OF mk src] have s1: "lookup w1 src = Some (File new t m)" .
  have f1: "lookup w1 q = lookup w q
            \<or> (lookup w q = None \<and> prefix q (filepath_Dir dst)
                \<and> (\<exists>t' m'. lookup w1 q = Some (Dir t' m')))" for q
    using os_MkdirAll_lookup [OF mk, of q] by (auto simp: in_tl_prefixes)
  show ?thesis
  proof (cases "i = 1")
    case True
    with mk d1 f1 show ?thesis by (simp add: copyFile_states_def)
  next
    case i1: False
    with i0 have i2: "2 \<le> i" by simp
    from i i2 mk obtain w2 where op: "os_Open w1 src = Inr ()"
      and cr: "os_Create w1 dst = Inr w2"
      by (cases "os_Open w1 src"; cases "os_Create w1 dst") (auto simp: copyFile_states_def)
    from mk op cr have shape:
      "copyFile_states w src dst = w # w1 # opened_states w2 src dst"
      by (simp add: copyFile_states_def)
    from os_Create_Inr [OF cr] obtain m2 where w2: "w2 = put w1 dst (File [] (clock w1) m2)"
      by blast
    then have d2: "lookup w2 dst = Some (File [] (clock w1) m2)" by simp
    from w2 ne s1 have s2: "lookup w2 src = Some (File new t m)" by simp
    from w2 have f2: "q \<noteq> dst \<Longrightarrow> lookup w2 q = lookup w1 q" for q by simp
    let ?v = "copyFile_states w src dst ! i"
    from i i2 shape have v: "?v = opened_states w2 src dst ! (i - 2)"
      and il: "i - 2 < length (opened_states w2 src dst)"
      by (simp_all add: nth_Cons' numeral_2_eq_2)
    then have mem: "?v \<in> set (opened_states w2 src dst)" by simp
    note tgt = opened_states_target [OF ne d2 s2 mem]
    have first: "file_content ?v dst = Some []" if "i = 2"
      using that v d2 by (simp add: opened_states_def file_content_def)
    have frame: "lookup ?v q = lookup w q
            \<or> (lookup w q = None \<and> prefix q (filepath_Dir dst)
                \<and> (\<exists>t' m'. lookup ?v q = Some (Dir t' m')))" if "q \<noteq> dst" for q
    proof -
      from tgt that have "lookup ?v q = lookup w2 q" by blast
      with f2 [OF that] have "lookup ?v q = lookup w1 q" by simp
      with f1 [of q] show ?thesis by simp
    qed
    from i2 tgt first frame show ?thesis by auto
  qed
qed

text \<open>
  When the writes to the target fail, the copy of a file that is not empty fails and
  leaves the target empty.
\<close>

lemma copyFile_write_fault:
  assumes ne: "src \<noteq> dst" and src: "lookup w src = Some (File new t m)"
    and nonempty: "new \<noteq> []"
    and fault: "(OpWrite, dst) \<in> faults w"
    and opened: "2 < length (copyFile_states w src dst)"
  shows "fst (copyFile w src dst) \<noteq> None \<and> file_content (snd (copyFile w src dst)) dst = Some []"
proof -
  from opened obtain w1 where mk: "os_MkdirAll w (filepath_Dir dst) 493 = Inr w1"
    by (cases "os_MkdirAll w (filepath_Dir dst) 493") (auto simp: copyFile_states_def)
  from opened mk obtain w2 where op: "os_Open w1 src = Inr ()"
    and cr: "os_Create w1 dst = Inr w2"
    by (cases "os_Open w1 src"; cases "os_Create w1 dst") (auto simp: copyFile_states_def)
  from os_MkdirAll_keeps [OF mk src] have s1: "lookup w1 src = Some (File new t m)" .
  from os_Create_Inr [OF cr] obtain m2 where w2: "w2 = put w1 dst (File [] (clock w1) m2)"
    by blast
  then have d2: "file_content w2 dst = Some []" by (simp add: file_content_def)
  from w2 ne s1 have s2: "lookup w2 src = Some (File new t m)" by simp
  from fault os_MkdirAll_faults [OF mk] w2 have fw: "(OpWrite, dst) \<in> faults w2" by simp
  have pos: "0 < copy_buffer_size" by (simp add: copy_buffer_size_def)
  from nonempty concat_chunks [OF pos, of new] obtain c cs where
    cs: "chunks copy_buffer_size new = c # cs"
    by (cases "chunks copy_buffer_size new") auto
  from fw have "file_Write w2 dst c = Inl (PathError OpWrite dst EIO)"
    by (simp add: file_Write_def)
  with cs have "write_chunks w2 dst (chunks copy_buffer_size new)
      = (Some (PathError OpWrite dst EIO), w2)"
    by simp
  with s2 have "\<exists>e. io_Copy w2 dst src = (Some e, w2)"
    by (auto simp: io_Copy_def read_all_def)
  then obtain e where "io_Copy w2 dst src = (Some e, w2)" by blast
  with mk op cr have "copyFile w src dst = (Some e, w2)"
    by (simp add: copyFile_def)
  with d2 show ?thesis by simp
qed

lemma copyFile_ok_content:
  assumes ok: "copyFile w src dst = (None, w')" and ne: "src \<noteq> dst"
    and src: "lookup w src = Some (File new t m)"
  shows "file_content w' dst = Some new"
proof -
  from copyFile_NoneD [OF ok] obtain w1 w2 w3 and srcInfo :: FileInfo where
    mk: "os_MkdirAll w (filepath_Dir dst) 493 = Inr w1"
    and cr: "os_Create w1 dst = Inr w2"
    and cp: "io_Copy w2 dst src = (None, w3)"
    and ch: "os_Chmod w3 dst (fi_Mode srcInfo) = Inr w'"
    by auto
  from os_MkdirAll_keeps [OF mk src] have s1: "lookup w1 src = Some (File new t m)" .
  from os_Create_Inr [OF cr] obtain m2 where w2: "w2 = put w1 dst (File [] (clock w1) m2)"
    by blast
  then have d2: "lookup w2 dst = Some (File [] (clock w1) m2)" by simp
  from w2 ne s1 have s2: "lookup w2 src = Some (File new t m)" by simp
  from cp s2 have wc: "write_chunks w2 dst (chunks copy_buffer_size new) = (None, w3)"
    by (auto simp: io_Copy_def read_all_def split: if_splits)
  have pos: "0 < copy_buffer_size" by (simp add: copy_buffer_size_def)
  from write_chunks_ok [OF wc d2] d2 concat_chunks [OF pos, of new]
  have "\<exists>t3. lookup w3 dst = Some (File new t3 m2)"
    by (cases "chunks copy_buffer_size new = []") auto
  then obtain t3 where d3: "lookup w3 dst = Some (File new t3 m2)" by blast
  from os_Chmod_file [OF ch d3] show ?thesis by (simp add: file_content_def)
qed



lemma PathExists_node: "lookup w p = Some n \<Longrightarrow> PathExists w p"
  by (simp add: PathExists_def os_Stat_def)

text \<open>The third state exists exactly when the source and the target have been opened.\<close>

lemma copyFile_states_opened_iff:
  "2 < length (copyFile_states w src dst) \<longleftrightarrow>
     (\<exists>w1 w2. os_MkdirAll w (filepath_Dir dst) 493 = Inr w1
        \<and> os_Open w1 src = Inr () \<and> os_Create w1 dst = Inr w2)"
  by (auto simp: copyFile_states_def opened_states_def split: sum.splits)

section \<open>Properties of the metadata updates\<close>

lemma fs_kept_refl [simp]: "fs_kept w w"
  by (simp add: fs_kept_def)

lemma fs_kept_trans: "fs_kept w w1 \<Longrightarrow> fs_kept w1 w2 \<Longrightarrow> fs_kept w w2"
  by (simp add: fs_kept_def)

lemma os_MkdirAll_kept: "os_MkdirAll w p perm = Inr w' \<Longrightarrow> fs_kept w w'"
  by (simp add: fs_kept_def os_MkdirAll_faults os_MkdirAll_clock os_MkdirAll_keeps)

lemma SaveFileStatesData_effect:
  assumes "SaveFileStatesData eng st f = (r, st')"
  shows "fs_kept (sw_fs st) (sw_fs st')
         \<and> sw_fileMetadata st' = sw_fileMetadata st \<and> sw_gitNotes st' = sw_gitNotes st
         \<and> (r = None \<longrightarrow> sw_fileStates st' = Some f)"
  using assms
  by (auto simp: SaveFileStatesData_def split: sum.splits option.splits dest: os_MkdirAll_kept)

lemma SaveFileMetadataDataGitAware_effect:
  assumes "SaveFileMetadataDataGitAware eng st f = (r, st')"
  shows "fs_kept (sw_fs st) (sw_fs st')
         \<and> sw_fileStates st' = sw_fileStates st
         \<and> (r = None \<longrightarrow> stored_metadata eng st' = Some f)"
  using assms
  by (auto simp: SaveFileMetadataDataGitAware_def stored_metadata_def
      split: if_splits sum.splits option.splits dest: os_MkdirAll_kept)

lemma GetFileState_UpdateFileState:
  "map_option LocalHash
     (GetFileState (UpdateFileState pf now f itemName filePath hash modTime sz) itemName filePath)
   = Some hash"
  by (simp add: GetFileState_def UpdateFileState_def Let_def)

lemma UpdateFileMetadata_Inl:
  assumes "UpdateFileMetadata pf now f itemName filePath computerID hash modTime = Inl e"
  shows "e = RuntimePanic ''assignment to entry in nil map''
         \<and> (\<exists>im m. Metadata f itemName = Some im \<and> im filePath = Some m \<and> Computers m = None)"
  using assms
  by (auto simp: UpdateFileMetadata_def Let_def empty_FileMetadata_def split: option.splits)

lemma updateFileMetadata_effect:
  assumes "updateFileMetadata pf eng st (Name item) filePath fileInfo fileHash = (r, st')"
  shows "fs_kept (sw_fs st) (sw_fs st')
         \<and> (r = Inr None \<longrightarrow>
              (\<exists>fsd. sw_fileStates st' = Some fsd
                 \<and> map_option LocalHash (GetFileState fsd (Name item) filePath) = Some fileHash))
         \<and> (\<forall>e. r = Inl e \<longrightarrow>
              e = RuntimePanic ''assignment to entry in nil map''
              \<and> computers_map_missing eng st item filePath \<and> st' = st)"
proof (cases "loadFileStates eng st")
  case (Inl err)
  with assms show ?thesis by (auto simp: updateFileMetadata_def)
next
  case ls: (Inr fileStates)
  show ?thesis
  proof (cases "loadCloudMetadata eng st")
    case (Inl err)
    with assms ls show ?thesis by (auto simp: updateFileMetadata_def)
  next
    case lc: (Inr cloudMetadata)
    let ?fs' = "UpdateFileState pf (clock (sw_fs st)) fileStates (Name item) filePath fileHash
                  (fi_ModTime fileInfo) (fi_Size fileInfo)"
    show ?thesis
    proof (cases "UpdateFileMetadata pf (clock (sw_fs st)) cloudMetadata (Name item) filePath
                    (CurrentComputer (localConfig eng)) fileHash (fi_ModTime fileInfo)")
      case (Inl panic)
      from UpdateFileMetadata_Inl [OF Inl] lc
      have "panic = RuntimePanic ''assignment to entry in nil map''"
        and "computers_map_missing eng st item filePath"
        by (auto simp: computers_map_missing_def)
      with assms ls lc Inl show ?thesis
        by (auto simp: updateFileMetadata_def Let_def)
    next
      case um: (Inr cm')
      obtain r1 st1 where s1: "SaveFileStatesData eng st ?fs' = (r1, st1)"
        by (cases "SaveFileStatesData eng st ?fs'")
      note e1 = SaveFileStatesData_effect [OF s1]
      show ?thesis
      proof (cases r1)
        case (Some err)
        with assms ls lc um s1 e1 show ?thesis
          by (auto simp: updateFileMetadata_def Let_def)
      next
        case None
        obtain r2 st2 where s2: "SaveFileMetadataDataGitAware eng st1 cm' = (r2, st2)"
          by (cases "SaveFileMetadataDataGitAware eng st1 cm'")
        note e2 = SaveFileMetadataDataGitAware_effect [OF s2]
        from assms ls lc um s1 None s2 have out: "st' = st2"
          "r = Inr (case r2 of Some err \<Rightarrow> Some (Wrap ''failed to save cloud metadata'' err)
                     | None \<Rightarrow> None)"
          by (cases r2; auto simp: updateFileMetadata_def Let_def)+
        from e1 e2 have k: "fs_kept (sw_fs st) (sw_fs st2)"
          using fs_kept_trans by blast
        from e1 e2 None have f: "sw_fileStates st2 = Some ?fs'" by simp
        have "map_option LocalHash (GetFileState ?fs' (Name item) filePath) = Some fileHash"
          by (rule GetFileState_UpdateFileState)
        with k f out show ?thesis by auto
      qed
    qed
  qed
qed

lemma updateCloudHash_effect:
  assumes "updateCloudHash pf eng st (Name item) filePath cloudHash cloudModTime = (r, st')"
  shows "fs_kept (sw_fs st) (sw_fs st')
         \<and> sw_fileStates st' = sw_fileStates st
         \<and> (r = None \<longrightarrow>
              (\<exists>md. stored_metadata eng st' = Some md
                 \<and> recorded_CloudHash md item filePath = cloudHash))"
proof (cases "loadCloudMetadata eng st")
  case (Inl err)
  with assms show ?thesis by (auto simp: updateCloudHash_def)
next
  case (Inr cloudMetadata)
  let ?im = "case Metadata cloudMetadata (Name item) of None \<Rightarrow> Map.empty | Some m \<Rightarrow> m"
  let ?m = "case ?im filePath of None \<Rightarrow> empty_FileMetadata | Some m \<Rightarrow> m"
  let ?m' = "?m\<lparr> CloudHash := cloudHash,
                 CloudModTime := time_Format pf RFC3339 cloudModTime,
                 UpdatedBy := CurrentComputer (localConfig eng),
                 LastUpdated := time_Format pf RFC3339 (clock (sw_fs st)) \<rparr>"
  let ?md = "cloudMetadata\<lparr> Metadata :=
               (Metadata cloudMetadata)(Name item \<mapsto> ?im(filePath \<mapsto> ?m')) \<rparr>"
  from assms Inr have sv: "SaveFileMetadataDataGitAware eng st ?md = (r, st')"
    by (simp add: updateCloudHash_def Let_def)
  have "recorded_CloudHash ?md item filePath = cloudHash"
    by (simp add: recorded_CloudHash_def)
  with SaveFileMetadataDataGitAware_effect [OF sv] show ?thesis
    by blast
qed

lemma Errors_warn [simp]: "Errors (warn result label err) = Errors result @ [Failure label err]"
  by (simp add: warn_def)

lemma push_metadata_effect:
  assumes pm: "push_metadata pf eng st item lp cp result = (res, st')"
  shows "fs_kept (sw_fs st) (sw_fs st')
    \<and> (\<forall>e. res = Inl e \<longrightarrow>
          e = RuntimePanic ''assignment to entry in nil map''
          \<and> computers_map_missing eng st item lp)
    \<and> (\<forall>result'. res = Inr result' \<longrightarrow>
          Errors result' = [] \<longrightarrow> (OpStat, cp) \<notin> faults (sw_fs st) \<longrightarrow>
          lookup (sw_fs st) cp \<noteq> None \<longrightarrow>
          (\<exists>localHash fsd md.
             CalculateFileHash pf (sw_fs st) lp = Inr localHash
             \<and> sw_fileStates st' = Some fsd
             \<and> map_option LocalHash (GetFileState fsd (Name item) lp) = Some localHash
             \<and> stored_metadata eng st' = Some md
             \<and> recorded_CloudHash md item lp = localHash))"
proof (cases "os_Stat (sw_fs st) lp")
  case (Inl err)
  with pm show ?thesis by (auto simp: push_metadata_def)
next
  case li: (Inr localInfo)
  show ?thesis
  proof (cases "CalculateFileHash pf (sw_fs st) lp")
    case (Inl err)
    with pm li show ?thesis by (auto simp: push_metadata_def)
  next
    case lh: (Inr localHash)
    obtain r1 st1 where u1:
      "updateFileMetadata pf eng st (Name item) lp localInfo localHash = (r1, st1)"
      by (cases "updateFileMetadata pf eng st (Name item) lp localInfo localHash")
    note e1 = updateFileMetadata_effect [OF u1]
    show ?thesis
    proof (cases r1)
      case (Inl panic)
      with pm li lh u1 have "res = Inl panic" "st' = st1"
        by (simp_all add: push_metadata_def)
      with e1 Inl show ?thesis by auto
    next
      case ret: (Inr ro)
      let ?result1 = "case ro of Some err \<Rightarrow> warn result ''warning: failed to update metadata'' err
                      | None \<Rightarrow> result"
      show ?thesis
      proof (cases "os_Stat (sw_fs st1) cp")
        case (Inl err)
        with pm li lh u1 ret have out: "st' = st1" "res = Inr ?result1"
          by (simp_all add: push_metadata_def Let_def)
        have "\<not> ((OpStat, cp) \<notin> faults (sw_fs st) \<and> lookup (sw_fs st) cp \<noteq> None)"
        proof
          assume a: "(OpStat, cp) \<notin> faults (sw_fs st) \<and> lookup (sw_fs st) cp \<noteq> None"
          with e1 have "(OpStat, cp) \<notin> faults (sw_fs st1) \<and> lookup (sw_fs st1) cp \<noteq> None"
            by (auto simp: fs_kept_def)
          with Inl show False by (auto simp: os_Stat_def)
        qed
        with e1 out show ?thesis by auto
      next
        case ci: (Inr cloudInfo)
        obtain r2 st2 where u2:
          "updateCloudHash pf eng st1 (Name item) lp localHash (fi_ModTime cloudInfo) = (r2, st2)"
          by (cases "updateCloudHash pf eng st1 (Name item) lp localHash (fi_ModTime cloudInfo)")
        note e2 = updateCloudHash_effect [OF u2]
        from pm li lh u1 ret ci u2 have out: "st' = st2"
          "res = Inr (case r2 of
                        Some err \<Rightarrow> warn ?result1 ''warning: failed to update cloud hash'' err
                      | None \<Rightarrow> ?result1)"
          by (cases r2; simp add: push_metadata_def Let_def)+
        from e1 e2 have k: "fs_kept (sw_fs st) (sw_fs st2)"
          using fs_kept_trans by blast
        have clean: "ro = None \<and> r2 = None"
          if "res = Inr result'" "Errors result' = []" for result'
          using that out(2) by (cases ro; cases r2; auto)
        show ?thesis
        proof (intro conjI allI impI)
          show "fs_kept (sw_fs st) (sw_fs st')" using k out(1) by simp
        next
          fix e assume "res = Inl e"
          with out(2) show "e = RuntimePanic ''assignment to entry in nil map''" by simp
        next
          fix e assume "res = Inl e"
          with out(2) show "computers_map_missing eng st item lp" by simp
        next
          fix result'
          assume r: "res = Inr result'" and c: "Errors result' = []"
          from clean [OF r c] ret have "r1 = Inr None" "r2 = None" by simp_all
          with e1 e2 out(1) lh
          show "\<exists>localHash fsd md.
             CalculateFileHash pf (sw_fs st) lp = Inr localHash
             \<and> sw_fileStates st' = Some fsd
             \<and> map_option LocalHash (GetFileState fsd (Name item) lp) = Some localHash
             \<and> stored_metadata eng st' = Some md
             \<and> recorded_CloudHash md item lp = localHash"
            by auto
        qed
      qed
    qed
  qed
qed



lemma isFileChanged_unchanged_iff:
  "isFileChanged pf eng st (Name item) lp = (False, None)
     \<longleftrightarrow> unchanged_since_recorded pf eng st item lp"
  by (auto simp: isFileChanged_def unchanged_since_recorded_def recorded_LocalHash_def
      split: sum.splits option.splits)

text \<open>
  What \<open>pushItem\<close> does for a file-kind item without hooks once the local path exists
  and the file is not found unchanged: it copies, and after a copy that succeeded it
  updates the metadata.
\<close>

lemma pushItem_file_run:
  assumes kind: "Type item = ''file''"
    and hooks: "gitCallback eng = None" "gitSafeCallback eng = None"
    and ex: "PathExists (sw_fs st) lp"
    and ch: "\<not> unchanged_since_recorded pf eng st item lp"
  shows "pushItem fuel pf eng st item lp cp =
     (case copyFile (sw_fs st) lp cp of
        (Some err, w) \<Rightarrow> Some (Inl (Wrap ''failed to copy file'' err), st\<lparr> sw_fs := w \<rparr>)
      | (None, w) \<Rightarrow>
          (case push_metadata pf eng (st\<lparr> sw_fs := w \<rparr>) item lp cp
                  (case snd (isFileChanged pf eng st (Name item) lp) of
                     Some err \<Rightarrow> warn (new_result SyncPush)
                                   ''warning: failed to check file changes'' err
                   | None \<Rightarrow> new_result SyncPush) of
             (Inl panic, st4) \<Rightarrow> Some (Inl panic, st4)
           | (Inr result3, st4) \<Rightarrow>
               Some (Inr (result3\<lparr> FilesChanged := 1,
                       Message := ''Pushed '' @ Name item @ '' to cloud'' \<rparr>), st4)))"
proof -
  obtain changed e where ic: "isFileChanged pf eng st (Name item) lp = (changed, e)"
    by (cases "isFileChanged pf eng st (Name item) lp")
  with ch have ns: "\<not> (e = None \<and> \<not> changed)"
    using isFileChanged_unchanged_iff [of pf eng st item lp] by auto
  obtain cr w where cf: "copyFile (sw_fs st) lp cp = (cr, w)"
    by (cases "copyFile (sw_fs st) lp cp")
  from ns kind hooks ex ic cf show ?thesis
    by (cases e; cases cr)
      (auto simp: pushItem_def call_gitCallback_def run_copyOperation_def copyOperation_def
        Let_def split: prod.splits sum.splits)
qed

section \<open>Properties of push\<close>



text \<open>
  C2, as stated, fails. A push copies with \<open>copyFile\<close>, which opens the cloud target with
  create-or-truncate and writes into it; no temporary file exists at any moment. On a
  cloud file holding \<open>set ts=2\<close> and a local file holding \<open>set ts=8\<close>, the state right
  after the target is opened holds an empty cloud file, and the state after the bytes are
  written (before the mode is set) already holds the new contents. When the write itself
  fails, the push returns the error and leaves the cloud file empty.
\<close>

theorem push_truncates_cloud_target:
  "file_content (sw_fs conflict_world) demo_local = Some ''set ts=8''
   \<and> file_content (sw_fs conflict_world) demo_cloud = Some ''set ts=2''
   \<and> run_copyOperation demo_engine conflict_world demo_local demo_local demo_cloud
       = (None, conflict_world\<lparr> sw_fs :=
            last (copyFile_states (sw_fs conflict_world) demo_local demo_cloud) \<rparr>)
   \<and> length (copyFile_states (sw_fs conflict_world) demo_local demo_cloud) = 5
   \<and> file_content (copyFile_states (sw_fs conflict_world) demo_local demo_cloud ! 2) demo_cloud
       = Some []
   \<and> map fst (nodes (copyFile_states (sw_fs conflict_world) demo_local demo_cloud ! 2))
       = map fst (nodes (sw_fs conflict_world))
   \<and> file_content (copyFile_states (sw_fs conflict_world) demo_local demo_cloud ! 3) demo_cloud
       = Some ''set ts=8''
   \<and> file_content (sw_fs write_fault_world) demo_cloud = Some ''set ts=2''
   \<and> map_option fst
         (pushItem 0 sync_platform demo_engine write_fault_world demo_item demo_local demo_cloud)
       = Some (Inl (Wrap ''failed to copy file'' (PathError OpWrite demo_cloud EIO)))
   \<and> file_content (sw_fs (snd (the
         (pushItem 0 sync_platform demo_engine write_fault_world demo_item demo_local demo_cloud))))
         demo_cloud
       = Some []"
  by (simp add: copyFile_states_def opened_states_def write_fault_world_def conflict_world_def
      demo_sync_defs sync_defs config_defs fs_defs chunks_short file_content_def show_int_def
      show_nat.simps Let_def)

text \<open>
  C2, amended. Take a push of a file-kind item, with no git hook installed, of a local
  path that is a regular file, differs from the cloud path and is not skipped as
  unchanged. The push writes the
  cloud target in place with \<open>copyFile\<close>; no temporary file and no rename is involved.

  \<^item> The push returns, and the file system it ends in keeps the last of the states that
    \<open>copyFile\<close> passes through. When the copy fails the push returns the error of the
    copy and leaves exactly that last state.

  \<^item> In each of these states every path other than the target is as it was before the
    push, except that missing parent directories of the target have been made. The
    target itself is as it was before in the first two states. A third state exists
    exactly when the parent directory of the target has been made and the local file
    and the target have been opened; from it on the target is a file that holds a
    prefix of the bytes of the local file, and it is empty in the third state.

  \<^item> When the copy succeeds the target holds exactly the bytes of the local file. When
    the writes to the opened target fail and the local file is not empty, the copy
    fails and leaves the target empty.
\<close>

theorem push_copy_in_place:
  assumes kind: "Type item = ''file''"
    and hooks: "gitCallback eng = None" "gitSafeCallback eng = None"
    and ch: "\<not> unchanged_since_recorded pf eng st item lp"
    and ne: "lp \<noteq> cp"
    and src: "lookup (sw_fs st) lp = Some (File new t m)"
  shows "(\<exists>res st'.
            pushItem fuel pf eng st item lp cp = Some (res, st')
            \<and> fs_kept (last (copyFile_states (sw_fs st) lp cp)) (sw_fs st')
            \<and> (\<forall>err. fst (copyFile (sw_fs st) lp cp) = Some err \<longrightarrow>
                  res = Inl (Wrap ''failed to copy file'' err)
                  \<and> st' = st\<lparr> sw_fs := last (copyFile_states (sw_fs st) lp cp) \<rparr>))
    \<and> (\<forall>i < length (copyFile_states (sw_fs st) lp cp).
          (i < 2 \<longrightarrow> lookup (copyFile_states (sw_fs st) lp cp ! i) cp = lookup (sw_fs st) cp)
          \<and> (2 \<le> i \<longrightarrow>
               (\<exists>c t' m'. lookup (copyFile_states (sw_fs st) lp cp ! i) cp = Some (File c t' m')
                  \<and> prefix c new))
          \<and> (i = 2 \<longrightarrow> file_content (copyFile_states (sw_fs st) lp cp ! i) cp = Some [])
          \<and> (\<forall>q. q \<noteq> cp \<longrightarrow>
                lookup (copyFile_states (sw_fs st) lp cp ! i) q = lookup (sw_fs st) q
                \<or> (lookup (sw_fs st) q = None \<and> prefix q (filepath_Dir cp)
                    \<and> (\<exists>t' m'. lookup (copyFile_states (sw_fs st) lp cp ! i) q
                                  = Some (Dir t' m')))))
    \<and> (2 < length (copyFile_states (sw_fs st) lp cp) \<longleftrightarrow>
          (\<exists>w1 w2. os_MkdirAll (sw_fs st) (filepath_Dir cp) 493 = Inr w1
             \<and> os_Open w1 lp = Inr () \<and> os_Create w1 cp = Inr w2))
    \<and> (fst (copyFile (sw_fs st) lp cp) = None \<longrightarrow>
          file_content (last (copyFile_states (sw_fs st) lp cp)) cp = Some new)
    \<and> ((OpWrite, cp) \<in> faults (sw_fs st) \<and> new \<noteq> []
        \<and> 2 < length (copyFile_states (sw_fs st) lp cp) \<longrightarrow>
          fst (copyFile (sw_fs st) lp cp) \<noteq> None
          \<and> file_content (last (copyFile_states (sw_fs st) lp cp)) cp = Some [])"
proof -
  from src have ex: "PathExists (sw_fs st) lp" by (rule PathExists_node)
  note run = pushItem_file_run [OF kind hooks ex ch, of fuel cp]
  let ?result0 = "case snd (isFileChanged pf eng st (Name item) lp) of
                     Some err \<Rightarrow> warn (new_result SyncPush)
                                   ''warning: failed to check file changes'' err
                   | None \<Rightarrow> new_result SyncPush"
  obtain cr w where cf: "copyFile (sw_fs st) lp cp = (cr, w)"
    by (cases "copyFile (sw_fs st) lp cp")
  then have lst: "last (copyFile_states (sw_fs st) lp cp) = w"
    by (simp add: copyFile_states_last)
  have returns: "\<exists>res st'.
            pushItem fuel pf eng st item lp cp = Some (res, st')
            \<and> fs_kept (last (copyFile_states (sw_fs st) lp cp)) (sw_fs st')
            \<and> (\<forall>err. fst (copyFile (sw_fs st) lp cp) = Some err \<longrightarrow>
                  res = Inl (Wrap ''failed to copy file'' err)
                  \<and> st' = st\<lparr> sw_fs := last (copyFile_states (sw_fs st) lp cp) \<rparr>)"
  proof (cases cr)
    case (Some err)
    with cf run lst show ?thesis by simp
  next
    case None
    obtain res3 st4 where pm:
      "push_metadata pf eng (st\<lparr> sw_fs := w \<rparr>) item lp cp ?result0 = (res3, st4)"
      by (cases "push_metadata pf eng (st\<lparr> sw_fs := w \<rparr>) item lp cp ?result0")
    from push_metadata_effect [OF pm] have kept: "fs_kept w (sw_fs st4)" by simp
    from cf None pm run have "\<exists>res. pushItem fuel pf eng st item lp cp = Some (res, st4)"
      by (cases res3) simp_all
    with kept lst cf None show ?thesis by auto
  qed
  have states: "\<forall>i < length (copyFile_states (sw_fs st) lp cp).
          (i < 2 \<longrightarrow> lookup (copyFile_states (sw_fs st) lp cp ! i) cp = lookup (sw_fs st) cp)
          \<and> (2 \<le> i \<longrightarrow>
               (\<exists>c t' m'. lookup (copyFile_states (sw_fs st) lp cp ! i) cp = Some (File c t' m')
                  \<and> prefix c new))
          \<and> (i = 2 \<longrightarrow> file_content (copyFile_states (sw_fs st) lp cp ! i) cp = Some [])
          \<and> (\<forall>q. q \<noteq> cp \<longrightarrow>
                lookup (copyFile_states (sw_fs st) lp cp ! i) q = lookup (sw_fs st) q
                \<or> (lookup (sw_fs st) q = None \<and> prefix q (filepath_Dir cp)
                    \<and> (\<exists>t' m'. lookup (copyFile_states (sw_fs st) lp cp ! i) q
                                  = Some (Dir t' m'))))"
    using copyFile_states_indexed [OF ne src] by blast
  have success: "fst (copyFile (sw_fs st) lp cp) = None \<longrightarrow>
          file_content (last (copyFile_states (sw_fs st) lp cp)) cp = Some new"
  proof
    assume "fst (copyFile (sw_fs st) lp cp) = None"
    then have "copyFile (sw_fs st) lp cp = (None, snd (copyFile (sw_fs st) lp cp))"
      by (metis prod.collapse)
    from copyFile_ok_content [OF this ne src]
    show "file_content (last (copyFile_states (sw_fs st) lp cp)) cp = Some new"
      by (simp add: copyFile_states_last)
  qed
  have failure: "(OpWrite, cp) \<in> faults (sw_fs st) \<and> new \<noteq> []
        \<and> 2 < length (copyFile_states (sw_fs st) lp cp) \<longrightarrow>
          fst (copyFile (sw_fs st) lp cp) \<noteq> None
          \<and> file_content (last (copyFile_states (sw_fs st) lp cp)) cp = Some []"
    using copyFile_write_fault [OF ne src] by (simp add: copyFile_states_last)
  note opened = copyFile_states_opened_iff [of "sw_fs st" lp cp]
  show ?thesis
    by (rule conjI [OF returns conjI [OF states conjI [OF opened conjI [OF success failure]]]])
qed

theorem push_copy_in_place_witness:
  "Type demo_item = ''file''
   \<and> gitCallback demo_engine = None \<and> gitSafeCallback demo_engine = None
   \<and> PathExists (sw_fs conflict_world) demo_local
   \<and> unchanged_since_recorded sync_platform demo_engine conflict_world demo_item demo_local
       = False
   \<and> lookup (sw_fs conflict_world) demo_local = Some (File ''set ts=8'' 5 420)
   \<and> length (copyFile_states (sw_fs conflict_world) demo_local demo_cloud) = 5
   \<and> lookup (copyFile_states (sw_fs conflict_world) demo_local demo_cloud ! 1) demo_cloud
       = lookup (sw_fs conflict_world) demo_cloud
   \<and> file_content (copyFile_states (sw_fs conflict_world) demo_local demo_cloud ! 2) demo_cloud
       = Some []
   \<and> file_content (last (copyFile_states (sw_fs conflict_world) demo_local demo_cloud))
         demo_cloud
       = Some ''set ts=8''
   \<and> fs_kept (last (copyFile_states (sw_fs conflict_world) demo_local demo_cloud))
         (sw_fs (snd (the (pushItem 0 sync_platform demo_engine conflict_world demo_item
                             demo_local demo_cloud))))
   \<and> pushItem 0 sync_platform demo_engine write_fault_world demo_item demo_local demo_cloud
       = Some (Inl (Wrap ''failed to copy file'' (PathError OpWrite demo_cloud EIO)),
               write_fault_world\<lparr> sw_fs :=
                 last (copyFile_states (sw_fs write_fault_world) demo_local demo_cloud) \<rparr>)
   \<and> file_content (last (copyFile_states (sw_fs write_fault_world) demo_local demo_cloud))
         demo_cloud
       = Some []"
proof -
  let ?states = "copyFile_states (sw_fs conflict_world) demo_local demo_cloud"
  let ?fstates = "copyFile_states (sw_fs write_fault_world) demo_local demo_cloud"
  let ?run = "pushItem 0 sync_platform demo_engine conflict_world demo_item demo_local demo_cloud"
  have kind: "Type demo_item = ''file''" by (simp add: demo_item_def)
  have hooks: "gitCallback demo_engine = None" "gitSafeCallback demo_engine = None"
    by (simp_all add: demo_engine_def NewSyncEngine_def)
  have ne: "demo_local \<noteq> demo_cloud" by (simp add: demo_sync_defs)
  have ex: "PathExists (sw_fs conflict_world) demo_local"
    and ch: "\<not> unchanged_since_recorded sync_platform demo_engine conflict_world demo_item
                 demo_local"
    and src: "lookup (sw_fs conflict_world) demo_local = Some (File ''set ts=8'' 5 420)"
    and ok: "fst (copyFile (sw_fs conflict_world) demo_local demo_cloud) = None"
    and len: "length ?states = 5"
    by (simp_all add: conflict_world_def demo_sync_defs sync_defs config_defs fs_defs
        unchanged_since_recorded_def recorded_LocalHash_def copyFile_states_def
        opened_states_def chunks_short Let_def)
  note good = push_copy_in_place [OF kind hooks ch ne src, of 0]
  from good obtain res st' where run: "?run = Some (res, st')"
    and kept: "fs_kept (last ?states) (sw_fs st')"
    by blast
  from run kept have g1: "fs_kept (last ?states) (sw_fs (snd (the ?run)))" by simp
  from good len have idx: "\<forall>i<5.
      (i < 2 \<longrightarrow> lookup (?states ! i) demo_cloud = lookup (sw_fs conflict_world) demo_cloud)
      \<and> (i = 2 \<longrightarrow> file_content (?states ! i) demo_cloud = Some [])"
    by simp
  from idx [rule_format, of 1]
  have g2: "lookup (?states ! 1) demo_cloud = lookup (sw_fs conflict_world) demo_cloud"
    by simp
  from idx [rule_format, of 2] have g3: "file_content (?states ! 2) demo_cloud = Some []"
    by simp
  from good ok have g4: "file_content (last ?states) demo_cloud = Some ''set ts=8''"
    by blast
  have fex: "PathExists (sw_fs write_fault_world) demo_local"
    and fch: "\<not> unchanged_since_recorded sync_platform demo_engine write_fault_world demo_item
                  demo_local"
    and fsrc: "lookup (sw_fs write_fault_world) demo_local = Some (File ''set ts=8'' 5 420)"
    and ferr: "fst (copyFile (sw_fs write_fault_world) demo_local demo_cloud)
                 = Some (PathError OpWrite demo_cloud EIO)"
    and flen: "2 < length ?fstates"
    and ffault: "(OpWrite, demo_cloud) \<in> faults (sw_fs write_fault_world)"
    by (simp_all add: write_fault_world_def conflict_world_def demo_sync_defs sync_defs
        config_defs fs_defs unchanged_since_recorded_def recorded_LocalHash_def
        copyFile_states_def opened_states_def chunks_short Let_def)
  note bad = push_copy_in_place [OF kind hooks fch ne fsrc, of 0]
  from bad ferr have b1:
    "pushItem 0 sync_platform demo_engine write_fault_world demo_item demo_local demo_cloud
       = Some (Inl (Wrap ''failed to copy file'' (PathError OpWrite demo_cloud EIO)),
               write_fault_world\<lparr> sw_fs := last ?fstates \<rparr>)"
    by auto
  from bad flen ffault have b2: "file_content (last ?fstates) demo_cloud = Some []"
    by simp
  from kind hooks ex ch src len g1 g2 g3 g4 b1 b2 show ?thesis by simp
qed
section \<open>Smart sync where the rules select a push\<close>

text \<open>
  The push branch of smart sync is \<open>pushItem\<close>, and \<open>pushItem\<close> skips a file that is
  unchanged since it was recorded. So smart sync skips, and copies nothing, whenever
  the rules select a push for such a file; the lemma states this for the rule of a
  missing cloud copy.
\<close>

lemma smartSyncItem_missing_cloud_skips:
  assumes "Type item = ''file''"
    and "PathExists (sw_fs st) lp" and "\<not> PathExists (sw_fs st) cp"
    and "unchanged_since_recorded pf eng st item lp"
  shows "smartSyncItem fuel pf eng st item lp cp =
     Some (Inr \<lparr> Operation = SyncPush, Success = True, FilesChanged = 0, FilesSkipped = 1,
                  FilesErrored = 0, Errors = [],
                  Message = Name item @ '' unchanged - skipped'' \<rparr>, st)"
proof -
  from assms(4) have "isFileChanged pf eng st (Name item) lp = (False, None)"
    by (simp add: isFileChanged_unchanged_iff)
  with assms(1-3) show ?thesis
    by (simp add: smartSyncItem_def pushItem_def new_result_def Let_def)
qed

text \<open>
  C1. Smart sync does not return what the rules select in two of the cases in which
  they select a push. In the first state only the local file exists (the rule for a
  missing cloud copy selects \<open>PushLocalToCloud\<close>); in the second both files exist with
  different hashes and the recorded cloud hash is the hash of the cloud file (the rule
  for an unchanged cloud copy selects \<open>PushLocalToCloud\<close>). In both states the local
  file is as it was recorded, and smart sync returns a success that counts one skipped
  file, with the message of an unchanged file, and changes nothing: no file is copied
  and, in the first state, the cloud copy stays absent.
\<close>

theorem smartSync_skips_where_rules_push:
  "PathExists (sw_fs cloud_removed_world) demo_local
   \<and> PathExists (sw_fs cloud_removed_world) demo_cloud = False
   \<and> CalculateFileHash sync_platform (sw_fs cloud_removed_world) demo_local
       = Inr ''sha256:set ts=4''
   \<and> spec_decide (Some ''sha256:set ts=4'') None 3 0
         (last_cloud_hash_of demo_engine cloud_removed_world demo_item demo_local)
       = PushLocalToCloud
   \<and> smartSyncItem 0 sync_platform demo_engine cloud_removed_world demo_item demo_local demo_cloud
       = Some (Inr \<lparr> Operation = SyncPush, Success = True, FilesChanged = 0, FilesSkipped = 1,
                      FilesErrored = 0, Errors = [], Message = ''Vim unchanged - skipped'' \<rparr>,
               cloud_removed_world)
   \<and> lookup (sw_fs cloud_removed_world) demo_cloud = None
   \<and> CalculateFileHash sync_platform (sw_fs cloud_recorded_world) demo_local
       = Inr ''sha256:set ts=4''
   \<and> CalculateFileHash sync_platform (sw_fs cloud_recorded_world) demo_cloud
       = Inr ''sha256:set ts=2''
   \<and> os_Stat (sw_fs cloud_recorded_world) demo_local
       = Inr \<lparr> fi_Size = 8, fi_ModTime = 3, fi_Mode = 420, fi_IsDir = False \<rparr>
   \<and> os_Stat (sw_fs cloud_recorded_world) demo_cloud
       = Inr \<lparr> fi_Size = 8, fi_ModTime = 6, fi_Mode = 420, fi_IsDir = False \<rparr>
   \<and> last_cloud_hash_of demo_engine cloud_recorded_world demo_item demo_local
       = Some ''sha256:set ts=2''
   \<and> spec_decide (Some ''sha256:set ts=4'') (Some ''sha256:set ts=2'') 3 6
         (Some ''sha256:set ts=2'')
       = PushLocalToCloud
   \<and> smartSyncItem 0 sync_platform demo_engine cloud_recorded_world demo_item demo_local
         demo_cloud
       = Some (Inr \<lparr> Operation = SyncPush, Success = True, FilesChanged = 0, FilesSkipped = 1,
                      FilesErrored = 0, Errors = [], Message = ''Vim unchanged - skipped'' \<rparr>,
               cloud_recorded_world)
   \<and> file_content (sw_fs cloud_recorded_world) demo_local = Some ''set ts=4''
   \<and> file_content (sw_fs cloud_recorded_world) demo_cloud = Some ''set ts=2''"
  by (simp add: cloud_removed_world_def cloud_recorded_world_def demo_sync_defs sync_defs
      config_defs fs_defs spec_decide_def last_cloud_hash_of_def file_content_def Let_def)
end
